theory Spec2Isabelle
  imports Complex_Main "HOL-Library.AList"
begin

section \<open>Data model (types/timetable.ts)\<close>

text \<open>
  The records follow the TypeScript interfaces. Fields that no modelled function reads
  (names, e-mail addresses, credits, maximal hours) are left out. An optional field
  \<open>f?: T\<close> is a \<open>T option\<close>. Identifiers, day names and clock times are strings, as
  in the source.
\<close>

datatype room_type = theory_room | lab_room

datatype parity = odd_parity | even_parity

record TimeSlot =
  ts_id :: string
  ts_day :: string
  ts_startTime :: string
  ts_endTime :: string

record Room =
  room_id :: string
  room_capacity :: int
  room_type :: room_type
  room_equipment :: "string list"

record Availability =
  av_day :: string
  av_timeSlots :: "string list"

record Teacher =
  teacher_id :: string
  departmentCourseId :: "string option"
  taughtSubjectIds :: "string list option"
  availability :: "Availability list"

record Course =
  course_id :: string
  course_teacherId :: string
  studentsCount :: int
  course_roomType :: room_type
  requiredEquipment :: "string list"
  sessionsPerWeek :: int
  sections :: "string list option"

record Subject =
  subject_id :: string
  subject_courseId :: string
  subject_semester :: int
  subject_type :: room_type

record ClassSchedule =
  cls_id :: string
  cls_courseId :: string
  cls_subjectId :: "string option"
  cls_section :: "string option"
  cls_semester :: "int option"
  cls_teacherId :: string
  cls_roomId :: string
  cls_timeSlotId :: string
  cls_day :: string
  cls_startTime :: string
  cls_endTime :: string

record TimetableConstraints =
  minBreakBetweenClasses :: int
  preferredStartTime :: string
  preferredEndTime :: string
  semesterParity :: "parity option"

record GeneticAlgorithmParams =
  populationSize :: nat
  generations :: nat
  mutationRate :: real
  crossoverRate :: real
  eliteSize :: nat

text \<open>
  JavaScript numbers that can leave the finite range are values of \<open>jsnum\<close>: a real
  number (rounding is not modelled), an infinity, or NaN. Division by zero does not
  raise in JavaScript; it yields an infinity or NaN, and every comparison with NaN is
  false.
\<close>

datatype jsnum = Num real | PosInf | NegInf | NaN

datatype conflict_type = room_conflict | teacher_conflict | student_conflict | constraint_violation

datatype severity = high | medium | low

record Conflict =
  conflict_type :: conflict_type
  description :: string
  severity :: severity
  classes :: "string list"

record OptimizationMetrics =
  totalConflicts :: jsnum
  roomUtilization :: jsnum
  teacherWorkloadBalance :: jsnum
  studentSatisfaction :: jsnum
  constraintSatisfaction :: jsnum

record GenerationData =
  generation :: int
  bestFitness :: jsnum
  averageFitness :: jsnum
  worstFitness :: jsnum

record OptimizationResult =
  res_schedule :: "ClassSchedule list"
  res_fitness :: jsnum
  res_conflicts :: "Conflict list"
  res_metrics :: OptimizationMetrics
  res_generationData :: "GenerationData list"

text \<open>
  The fields every engine is constructed with, together with the functions of the
  JavaScript host that the engines call: \<open>localeCompare a b\<close> is \<open>a.localeCompare(b)\<close>;
  \<open>parseDate s\<close> is the time value of \<open>new Date(`1970-01-01T${s}`)\<close>, \<open>None\<close> for an
  invalid date (whose time value is NaN); \<open>engineSort\<close> is the order in which the host's
  \<open>Array.prototype.sort\<close> leaves an array when the comparator is not a consistent one
  (see \<open>sortBy\<close> below).
\<close>

record ctx =
  courses :: "Course list"
  teachers :: "Teacher list"
  rooms :: "Room list"
  timeSlots :: "TimeSlot list"
  constraints :: TimetableConstraints
  subjects :: "Subject list"
  localeCompare :: "string \<Rightarrow> string \<Rightarrow> int"
  parseDate :: "string \<Rightarrow> int option"
  engineSort :: "(nat \<Rightarrow> nat \<Rightarrow> jsnum) \<Rightarrow> nat \<Rightarrow> nat list"

text \<open>
  The two errors that \<open>optimize\<close> can end with: the \<open>Error\<close> it throws itself on missing
  data, and the \<open>TypeError\<close> that the runtime raises when a value that is not an array is
  used as one.
\<close>

datatype error = MissingRequiredData | TypeError

section \<open>The JavaScript host\<close>

subsection \<open>Array.prototype.sort\<close>

text \<open>
  A comparator returns a number; \<open>sort\<close> reads its sign. ECMAScript fixes the result of
  \<open>sort\<close> only for a \<^emph>\<open>consistent\<close> comparator: one that never returns NaN on the elements
  of the array, that makes every element equal to itself, whose equality is symmetric and
  transitive, and whose two strict orders are transitive. The result is then the stable
  sort, computed here by insertion: \<open>x\<close> goes before the first \<open>y\<close> with a negative
  \<open>cmp x y\<close>. For any other comparator the order is left to the implementation; it is
  what the host function \<open>engineSort\<close> returns, given the comparator on positions and the
  length: the list of the positions in their new order (positions outside the array are
  skipped, a host returns none).
\<close>

fun negative :: "jsnum \<Rightarrow> bool" where
  "negative (Num r) = (r < 0)"
| "negative NegInf = True"
| "negative PosInf = False"
| "negative NaN = False"

fun positive :: "jsnum \<Rightarrow> bool" where
  "positive (Num r) = (r > 0)"
| "positive PosInf = True"
| "positive NegInf = False"
| "positive NaN = False"

definition consistentComparator :: "('a \<Rightarrow> 'a \<Rightarrow> jsnum) \<Rightarrow> 'a list \<Rightarrow> bool" where
  "consistentComparator cmp xs \<longleftrightarrow>
     list_all (\<lambda>a. list_all (\<lambda>b. cmp a b \<noteq> NaN) xs) xs
     \<and> list_all (\<lambda>a. cmp a a = Num 0) xs
     \<and> list_all (\<lambda>a. list_all (\<lambda>b. cmp a b = Num 0 \<longrightarrow> cmp b a = Num 0) xs) xs
     \<and> list_all (\<lambda>a. list_all (\<lambda>b. list_all (\<lambda>c.
          (cmp a b = Num 0 \<and> cmp b c = Num 0 \<longrightarrow> cmp a c = Num 0)
          \<and> (negative (cmp a b) \<and> negative (cmp b c) \<longrightarrow> negative (cmp a c))
          \<and> (positive (cmp a b) \<and> positive (cmp b c) \<longrightarrow> positive (cmp a c))) xs) xs) xs"

fun insertBy :: "('a \<Rightarrow> 'a \<Rightarrow> jsnum) \<Rightarrow> 'a \<Rightarrow> 'a list \<Rightarrow> 'a list" where
  "insertBy cmp x [] = [x]"
| "insertBy cmp x (y # ys) =
     (if negative (cmp x y) then x # y # ys else y # insertBy cmp x ys)"

definition sortBy :: "ctx \<Rightarrow> ('a \<Rightarrow> 'a \<Rightarrow> jsnum) \<Rightarrow> 'a list \<Rightarrow> 'a list" where
  "sortBy c cmp xs =
     (if consistentComparator cmp xs then foldl (\<lambda>acc x. insertBy cmp x acc) [] xs
      else map (\<lambda>i. xs ! i)
               (filter (\<lambda>i. i < length xs)
                       (engineSort c (\<lambda>i j. cmp (xs ! i) (xs ! j)) (length xs))))"

text \<open>The comparator \<open>(a, b) => a.localeCompare(b)\<close> on two strings.\<close>

definition compareStrings :: "ctx \<Rightarrow> string \<Rightarrow> string \<Rightarrow> jsnum" where
  "compareStrings c a b = Num (real_of_int (localeCompare c a b))"

subsection \<open>Object literals used as dictionaries\<close>

text \<open>
  An object literal \<open>{}\<close> inherits the properties of \<open>Object.prototype\<close>. For a key that
  the object does not own, \<open>obj[k]\<close> is \<open>undefined\<close> unless \<open>k\<close> names an inherited
  property: eleven names hold a function (listed with the function's \<open>length\<close>), and
  \<open>__proto__\<close> reads as \<open>Object.prototype\<close> itself. All twelve values are truthy; none is
  an array or a number.
\<close>

definition prototypeFunctions :: "(string \<times> nat) list" where
  "prototypeFunctions =
     [(''constructor'', 1), (''hasOwnProperty'', 1), (''isPrototypeOf'', 1),
      (''propertyIsEnumerable'', 1), (''toLocaleString'', 0), (''toString'', 0),
      (''valueOf'', 0), (''__defineGetter__'', 2), (''__defineSetter__'', 2),
      (''__lookupGetter__'', 1), (''__lookupSetter__'', 1)]"

definition inherited :: "string \<Rightarrow> bool" where
  "inherited k \<longleftrightarrow> k = ''__proto__'' \<or> k \<in> set (map fst prototypeFunctions)"

text \<open>
  The grouping idiom \<open>if (!obj[k]) obj[k] = []; obj[k].push(x)\<close>, for each \<open>x\<close> in turn with
  \<open>k\<close> its key. Under an inherited name the test finds a truthy value, no array is stored,
  and the call of \<open>push\<close> on the inherited value raises a TypeError. Own keys stay in the
  order of their creation.
\<close>

definition ownList :: "(string \<times> 'a list) list \<Rightarrow> string \<Rightarrow> 'a list" where
  "ownList obj k = (case map_of obj k of None \<Rightarrow> [] | Some xs \<Rightarrow> xs)"

fun pushByKey :: "('a \<Rightarrow> string) \<Rightarrow> (string \<times> 'a list) list \<Rightarrow> 'a list
    \<Rightarrow> error + (string \<times> 'a list) list" where
  "pushByKey key obj [] = Inr obj"
| "pushByKey key obj (x # xs) =
     (if inherited (key x) then Inl TypeError
      else pushByKey key (AList.update (key x) (ownList obj (key x) @ [x]) obj) xs)"

section \<open>HybridOptimizer.optimize (utils/hybridOptimizer.ts)\<close>

text \<open>The remainder \<open>a % b\<close> of JavaScript takes the sign of the dividend.\<close>

definition js_rem :: "int \<Rightarrow> int \<Rightarrow> int" where
  "js_rem a b = sgn a * (\<bar>a\<bar> mod \<bar>b\<bar>)"

definition filteredSubjects :: "ctx \<Rightarrow> Subject list" where
  "filteredSubjects c =
     filter (\<lambda>s. case semesterParity (constraints c) of
                    None \<Rightarrow> True
                  | Some p \<Rightarrow> (if p = odd_parity then js_rem (subject_semester s) 2 = 1
                              else js_rem (subject_semester s) 2 = 0))
            (subjects c)"

text \<open>
  The object \<open>dayToSlots\<close> after its two loops: the time slots grouped under their day,
  then every group sorted by start time; or the TypeError of the grouping loop.
\<close>

definition sortByStart :: "ctx \<Rightarrow> TimeSlot \<Rightarrow> TimeSlot \<Rightarrow> jsnum" where
  "sortByStart c a b = compareStrings c (ts_startTime a) (ts_startTime b)"

definition dayToSlots :: "ctx \<Rightarrow> error + (string \<times> TimeSlot list) list" where
  "dayToSlots c =
     map_sum id (map (\<lambda>entry. (fst entry, sortBy c (sortByStart c) (snd entry))))
             (pushByKey ts_day [] (timeSlots c))"

definition dayOrder :: "string list" where
  "dayOrder = [''Monday'', ''Tuesday'', ''Wednesday'', ''Thursday'', ''Friday'']"

text \<open>The object \<open>courseIdToSubjects\<close> after its loop, or the TypeError of that loop.\<close>

definition courseIdToSubjects :: "ctx \<Rightarrow> error + (string \<times> Subject list) list" where
  "courseIdToSubjects c = pushByKey subject_courseId [] (filteredSubjects c)"

record Demand =
  d_subject :: Subject
  d_remaining :: nat
  d_usedDays :: "string set"

text \<open>
  The mutable state of the constructive heuristic: the schedule built so far and the three
  occupancy sets (shared by all courses and sections), and the demand list and the
  subject-to-teacher map of the section being placed. The counter \<open>placedOnDay\<close> is only
  written, never read, and is left out.
\<close>

record pstate =
  testSchedule :: "ClassSchedule list"
  occupiedByTeacher :: "string set"
  occupiedByRoom :: "string set"
  occupiedBySection :: "string set"
  demand :: "Demand list"
  sectionTeacherAssignments :: "(string \<times> string) list"

fun findIndex :: "('a \<Rightarrow> bool) \<Rightarrow> 'a list \<Rightarrow> nat option" where
  "findIndex P [] = None"
| "findIndex P (x # xs) =
     (if P x then Some 0 else (case findIndex P xs of None \<Rightarrow> None | Some i \<Rightarrow> Some (Suc i)))"

definition isQualified :: "Teacher \<Rightarrow> string \<Rightarrow> string \<Rightarrow> bool" where
  "isQualified t subjId courseId \<longleftrightarrow>
     (case taughtSubjectIds t of None \<Rightarrow> False | Some ids \<Rightarrow> subjId \<in> set ids)
     \<or> departmentCourseId t = Some courseId"

definition occKey :: "string \<Rightarrow> string \<Rightarrow> string" where
  "occKey a b = a @ ''|'' @ b"

definition sectionKey :: "string \<Rightarrow> string \<Rightarrow> string \<Rightarrow> string" where
  "sectionKey cid sec slot = cid @ ''|'' @ sec @ ''|'' @ slot"

definition schedId :: "string \<Rightarrow> string \<Rightarrow> string \<Rightarrow> string \<Rightarrow> string" where
  "schedId cid sec subj slot = ''sched_'' @ cid @ ''_'' @ sec @ ''_'' @ subj @ ''_'' @ slot"

definition assign :: "Course \<Rightarrow> string \<Rightarrow> string \<Rightarrow> nat \<Rightarrow> Demand \<Rightarrow> Teacher \<Rightarrow> Room \<Rightarrow> TimeSlot
    \<Rightarrow> pstate \<Rightarrow> pstate" where
  "assign course section day idx d teacher room slot st =
     st\<lparr> testSchedule := testSchedule st @
            [\<lparr> cls_id = schedId (course_id course) section (subject_id (d_subject d)) (ts_id slot),
               cls_courseId = course_id course,
               cls_subjectId = Some (subject_id (d_subject d)),
               cls_section = Some section,
               cls_semester = Some (subject_semester (d_subject d)),
               cls_teacherId = teacher_id teacher,
               cls_roomId = room_id room,
               cls_timeSlotId = ts_id slot,
               cls_day = ts_day slot,
               cls_startTime = ts_startTime slot,
               cls_endTime = ts_endTime slot \<rparr>],
         sectionTeacherAssignments :=
           AList.update (subject_id (d_subject d)) (teacher_id teacher) (sectionTeacherAssignments st),
         occupiedByTeacher := insert (occKey (teacher_id teacher) (ts_id slot)) (occupiedByTeacher st),
         occupiedByRoom := insert (occKey (room_id room) (ts_id slot)) (occupiedByRoom st),
         occupiedBySection :=
           insert (sectionKey (course_id course) section (ts_id slot)) (occupiedBySection st),
         demand := (demand st)[idx := d\<lparr> d_remaining := d_remaining d - 1,
                                          d_usedDays := insert day (d_usedDays d) \<rparr>] \<rparr>"

text \<open>
  \<open>tryPlaceOneOnDay(day)\<close>: the loop over the day's slots, \<open>dayToSlots[day] || []\<close>. The
  result pairs the new state with the returned boolean. The closure is called with the
  five names of \<open>dayOrder\<close> only, none of which is inherited, so the read is that of an own
  key. The functions below take the two dictionaries as built, \<open>slotsByDay\<close> and
  \<open>subjectsByCourse\<close>.
\<close>

fun tryPlaceSlots :: "ctx \<Rightarrow> Course \<Rightarrow> string \<Rightarrow> string \<Rightarrow> TimeSlot list \<Rightarrow> pstate \<Rightarrow> pstate \<times> bool" where
  "tryPlaceSlots c course section day [] st = (st, False)"
| "tryPlaceSlots c course section day (slot # slots) st =
     (let found = findIndex (\<lambda>d. d_remaining d > 0 \<and> day \<notin> d_usedDays d) (demand st)
      in if found = None then (st, False)
         else
          (let idx = the found;
               d = demand st ! idx;
               availableTeachers =
                 filter (\<lambda>t. isQualified t (subject_id (d_subject d)) (course_id course)
                             \<and> occKey (teacher_id t) (ts_id slot) \<notin> occupiedByTeacher st)
                        (teachers c)
           in if availableTeachers = [] then tryPlaceSlots c course section day slots st
              else
                (let unassignedTeachers =
                       filter (\<lambda>t. teacher_id t \<notin> set (map snd (sectionTeacherAssignments st)))
                              availableTeachers;
                     teacher = (if unassignedTeachers \<noteq> [] then hd unassignedTeachers
                                else hd availableTeachers);
                     room = find (\<lambda>r. room_type r = subject_type (d_subject d)
                                       \<and> occKey (room_id r) (ts_id slot) \<notin> occupiedByRoom st)
                                 (rooms c)
                 in if room = None then tryPlaceSlots c course section day slots st
                    else if sectionKey (course_id course) section (ts_id slot) \<in> occupiedBySection st
                    then tryPlaceSlots c course section day slots st
                    else (assign course section day idx d teacher (the room) slot st, True))))"

definition tryPlaceOneOnDay :: "ctx \<Rightarrow> (string \<times> TimeSlot list) list \<Rightarrow> Course \<Rightarrow> string \<Rightarrow> string
    \<Rightarrow> pstate \<Rightarrow> pstate \<times> bool" where
  "tryPlaceOneOnDay c slotsByDay course section day st =
     tryPlaceSlots c course section day (ownList slotsByDay day) st"

definition remainingTotal :: "pstate \<Rightarrow> nat" where
  "remainingTotal st = sum_list (map d_remaining (demand st))"

text \<open>
  Pass 1. The variable \<open>remainingTotal\<close> of the source is recomputed after every successful
  placement, the only event that changes the demand, so it always equals the sum over the
  current demand list. \<open>pass1Days\<close> is the \<open>for\<close> loop over the rotated days; its boolean is
  \<open>placedSomething\<close>.
\<close>

fun pass1Days :: "ctx \<Rightarrow> (string \<times> TimeSlot list) list \<Rightarrow> Course \<Rightarrow> string \<Rightarrow> string list
    \<Rightarrow> pstate \<Rightarrow> bool \<Rightarrow> pstate \<times> bool" where
  "pass1Days c slotsByDay course section [] st placed = (st, placed)"
| "pass1Days c slotsByDay course section (day # days) st placed =
     (if remainingTotal st \<le> 0 then (st, placed)
      else (let r = tryPlaceOneOnDay c slotsByDay course section day st
            in if snd r then pass1Days c slotsByDay course section days (fst r) True
               else pass1Days c slotsByDay course section days (fst r) placed))"

lemma findIndex_Some:
  "findIndex P xs = Some i \<Longrightarrow> i < length xs \<and> P (xs ! i)"
  by (induction xs arbitrary: i) (auto split: if_splits option.splits)

lemma sum_list_dec:
  fixes f :: "'a \<Rightarrow> nat"
  assumes "i < length xs" and "f y < f (xs ! i)"
  shows "sum_list (map f (xs[i := y])) < sum_list (map f xs)"
proof -
  have "(map f xs) ! i \<le> sum_list (map f xs)"
    using assms(1) by (intro elem_le_sum_list) simp
  moreover have "sum_list ((map f xs)[i := f y]) = sum_list (map f xs) + f y - (map f xs) ! i"
    using assms(1) by (simp add: sum_list_update)
  ultimately show ?thesis using assms by (simp add: map_update)
qed

lemma remainingTotal_assign:
  assumes "idx < length (demand st)" and "d_remaining (demand st ! idx) > 0"
  shows "remainingTotal (assign course section day idx (demand st ! idx) teacher room slot st)
           < remainingTotal st"
  unfolding remainingTotal_def assign_def
  using sum_list_dec[of idx "demand st" d_remaining, OF assms(1)] assms(2)
  by simp

lemma tryPlaceSlots_True:
  "snd (tryPlaceSlots c course sec day slots st) \<Longrightarrow>
   remainingTotal (fst (tryPlaceSlots c course sec day slots st)) < remainingTotal st"
proof (induction slots)
  case Nil
  then show ?case by simp
next
  case (Cons slot slots)
  then show ?case
    by (auto simp: Let_def split: if_splits
             dest!: findIndex_Some intro!: remainingTotal_assign)
qed

lemma tryPlaceSlots_False:
  "\<not> snd (tryPlaceSlots c course sec day slots st) \<Longrightarrow>
   fst (tryPlaceSlots c course sec day slots st) = st"
  by (induction slots) (auto simp: Let_def split: if_splits)

lemma pass1Days_remaining:
  "remainingTotal (fst (pass1Days c sd course sec days st placed)) \<le> remainingTotal st \<and>
   (snd (pass1Days c sd course sec days st placed) \<and> \<not> placed \<longrightarrow>
      remainingTotal (fst (pass1Days c sd course sec days st placed)) < remainingTotal st)"
proof (induction days arbitrary: st placed)
  case Nil
  then show ?case by simp
next
  case (Cons day days)
  show ?case
  proof (cases "remainingTotal st \<le> 0")
    case True
    then show ?thesis by simp
  next
    case False
    define r where "r = tryPlaceOneOnDay c sd course sec day st"
    show ?thesis
    proof (cases "snd r")
      case True
      then have lt: "remainingTotal (fst r) < remainingTotal st"
        unfolding r_def tryPlaceOneOnDay_def by (rule tryPlaceSlots_True)
      from Cons.IH[of "fst r" True] lt False True show ?thesis
        by (simp add: r_def[symmetric] Let_def)
    next
      case b: False
      then have eq: "fst r = st"
        unfolding r_def tryPlaceOneOnDay_def by (rule tryPlaceSlots_False)
      from Cons.IH[of st placed] eq False b show ?thesis
        by (cases placed) (simp_all add: r_def[symmetric] Let_def)
    qed
  qed
qed

text \<open>Pass 1, the \<open>while (remainingTotal > 0)\<close> loop.\<close>

function pass1 :: "ctx \<Rightarrow> (string \<times> TimeSlot list) list \<Rightarrow> Course \<Rightarrow> string \<Rightarrow> string list
    \<Rightarrow> pstate \<Rightarrow> pstate" where
  "pass1 c slotsByDay course section rotatedDays st =
     (if remainingTotal st > 0
      then (let r = pass1Days c slotsByDay course section rotatedDays st False
            in if snd r then pass1 c slotsByDay course section rotatedDays (fst r) else fst r)
      else st)"
  by pat_completeness auto
termination
proof (relation "measure (\<lambda>(c, sd, course, sec, rotatedDays, st). remainingTotal st)")
  show "wf (measure (\<lambda>(c, sd, course, sec, rotatedDays, st). remainingTotal st))" by simp
next
  fix c sd course sec rotatedDays st x
  assume pos: "0 < remainingTotal st"
    and x: "x = pass1Days c sd course sec rotatedDays st False" and placed: "snd x"
  from pass1Days_remaining[of c sd course sec rotatedDays st False] x placed
  show "((c, sd, course, sec, rotatedDays, fst x), (c, sd, course, sec, rotatedDays, st))
          \<in> measure (\<lambda>(c, sd, course, sec, rotatedDays, st). remainingTotal st)"
    by simp
qed

declare pass1.simps [simp del]

text \<open>
  Pass 2: on each rotated day, up to three more placements while some demand remains.
  \<open>pass2Day\<close> is the inner \<open>while (tryMore > 0 && ...)\<close> loop, with \<open>tryMore\<close> as its
  numeric argument.
\<close>

fun pass2Day :: "ctx \<Rightarrow> (string \<times> TimeSlot list) list \<Rightarrow> Course \<Rightarrow> string \<Rightarrow> string \<Rightarrow> nat
    \<Rightarrow> pstate \<Rightarrow> pstate" where
  "pass2Day c slotsByDay course section day 0 st = st"
| "pass2Day c slotsByDay course section day (Suc tryMore) st =
     (if list_ex (\<lambda>d. d_remaining d > 0) (demand st)
      then (let r = tryPlaceOneOnDay c slotsByDay course section day st
            in if snd r then pass2Day c slotsByDay course section day tryMore (fst r) else fst r)
      else st)"

definition pass2 :: "ctx \<Rightarrow> (string \<times> TimeSlot list) list \<Rightarrow> Course \<Rightarrow> string \<Rightarrow> string list
    \<Rightarrow> pstate \<Rightarrow> pstate" where
  "pass2 c slotsByDay course section rotatedDays st =
     (if remainingTotal st > 0
      then fold (\<lambda>day s. pass2Day c slotsByDay course section day 3 s) rotatedDays st
      else st)"

text \<open>
  \<open>section.charCodeAt(0)\<close> is NaN for the empty string; the rotation index is then NaN,
  and \<open>slice\<close> reads NaN as 0, which leaves the day order unrotated.
\<close>

definition rot :: "Course \<Rightarrow> string \<Rightarrow> nat" where
  "rot course section =
     (case section of [] \<Rightarrow> 0
      | ch # _ \<Rightarrow> (of_char ch + length (course_id course)) mod length dayOrder)"

definition rotatedDays :: "Course \<Rightarrow> string \<Rightarrow> string list" where
  "rotatedDays course section =
     drop (rot course section) dayOrder @ take (rot course section) dayOrder"

definition initialDemand :: "Subject list \<Rightarrow> Demand list" where
  "initialDemand subjectsForCourse =
     map (\<lambda>s. \<lparr> d_subject = s,
                 d_remaining = (if subject_type s = lab_room then 1 else 2),
                 d_usedDays = {} \<rparr>) subjectsForCourse"

definition placeSection :: "ctx \<Rightarrow> (string \<times> TimeSlot list) list \<Rightarrow> Course \<Rightarrow> Subject list \<Rightarrow> string
    \<Rightarrow> pstate \<Rightarrow> pstate" where
  "placeSection c slotsByDay course subjectsForCourse section st =
     (let st0 = st\<lparr> demand := initialDemand subjectsForCourse, sectionTeacherAssignments := [] \<rparr>;
          days = rotatedDays course section;
          st1 = pass1 c slotsByDay course section days st0
      in pass2 c slotsByDay course section days st1)"

definition courseSections :: "Course \<Rightarrow> string list" where
  "courseSections course =
     (case sections course of
        None \<Rightarrow> [''A'']
      | Some secs \<Rightarrow> (if length secs > 0 then secs else [''A'']))"

text \<open>
  The body of the loop over the courses. For a course whose id is an inherited name,
  \<open>courseIdToSubjects[course.id] || []\<close> is the inherited value (the object owns no such
  key, or its loop would have raised): when that is a function of \<open>length\<close> 0 the course
  is skipped like one without subjects; otherwise the first section calls \<open>map\<close> on a
  value that has none, which raises a TypeError (the section list is never empty).
\<close>

definition placeCourse :: "ctx \<Rightarrow> (string \<times> TimeSlot list) list \<Rightarrow> (string \<times> Subject list) list
    \<Rightarrow> Course \<Rightarrow> pstate \<Rightarrow> error + pstate" where
  "placeCourse c slotsByDay subjectsByCourse course st =
     (if inherited (course_id course)
      then (if map_of prototypeFunctions (course_id course) = Some 0 then Inr st
            else Inl TypeError)
      else (let subjectsForCourse = ownList subjectsByCourse (course_id course)
            in if length subjectsForCourse = 0 then Inr st
               else Inr (fold (\<lambda>section s. placeSection c slotsByDay course subjectsForCourse section s)
                              (courseSections course) st)))"

fun placeCourses :: "ctx \<Rightarrow> (string \<times> TimeSlot list) list \<Rightarrow> (string \<times> Subject list) list
    \<Rightarrow> Course list \<Rightarrow> pstate \<Rightarrow> error + pstate" where
  "placeCourses c slotsByDay subjectsByCourse [] st = Inr st"
| "placeCourses c slotsByDay subjectsByCourse (course # rest) st =
     (let r = placeCourse c slotsByDay subjectsByCourse course st
      in if isl r then r
         else placeCourses c slotsByDay subjectsByCourse rest (projr r))"

definition emptyState :: pstate where
  "emptyState = \<lparr> testSchedule = [], occupiedByTeacher = {}, occupiedByRoom = {},
                  occupiedBySection = {}, demand = [], sectionTeacherAssignments = [] \<rparr>"

text \<open>
  The construction of \<open>testSchedule\<close>: the two dictionaries, then the loop over the courses.
  A TypeError raised on the way ends \<open>optimize\<close>.
\<close>

definition buildTestSchedule :: "ctx \<Rightarrow> error + ClassSchedule list" where
  "buildTestSchedule c =
     (if length (subjects c) > 0 \<and> length (timeSlots c) > 0
      then (let slotsByDay = dayToSlots c
            in if isl slotsByDay then Inl (projl slotsByDay)
               else (let subjectsByCourse = courseIdToSubjects c
                     in if isl subjectsByCourse then Inl (projl subjectsByCourse)
                        else map_sum id testSchedule
                               (placeCourses c (projr slotsByDay) (projr subjectsByCourse)
                                             (courses c) emptyState)))
      else Inr [])"

text \<open>
  The calls of the progress callback, \<open>(progress, generation, bestFitness)\<close>, for
  \<open>i = 0, 10, ..., 100\<close>.
\<close>

definition simulatedProgress :: "(int \<times> int \<times> int) list" where
  "simulatedProgress = map (\<lambda>k. (10 * int k, int k, 50 + 10 * int k * 5)) [0..<11]"

definition mockMetrics :: OptimizationMetrics where
  "mockMetrics = \<lparr> totalConflicts = Num 0, roomUtilization = Num 80,
                   teacherWorkloadBalance = Num 90, studentSatisfaction = Num 85,
                   constraintSatisfaction = Num 95 \<rparr>"

definition mockGenerationData :: "GenerationData list" where
  "mockGenerationData =
     [\<lparr> generation = 0, bestFitness = Num 500, averageFitness = Num 400, worstFitness = Num 300 \<rparr>,
      \<lparr> generation = 50, bestFitness = Num 650, averageFitness = Num 550, worstFitness = Num 450 \<rparr>,
      \<lparr> generation = 100, bestFitness = Num 750, averageFitness = Num 650, worstFitness = Num 550 \<rparr>]"

text \<open>
  \<open>optimize(params, onProgress)\<close>. The first component lists the calls made to
  \<open>onProgress\<close>; the second is the thrown error or the returned result. The parameters
  are not read by the body.
\<close>

definition optimize :: "ctx \<Rightarrow> GeneticAlgorithmParams
    \<Rightarrow> (int \<times> int \<times> int) list \<times> (error + OptimizationResult)" where
  "optimize c params =
     (if length (courses c) = 0 \<or> length (teachers c) = 0 \<or> length (rooms c) = 0
      then ([], Inl MissingRequiredData)
      else (simulatedProgress,
            map_sum id (\<lambda>sched.
                          \<lparr> res_schedule = sched,
                            res_fitness = Num 750,
                            res_conflicts = [],
                            res_metrics = mockMetrics,
                            res_generationData = mockGenerationData \<rparr>)
                    (buildTestSchedule c)))"

subsection \<open>No double booking: the invariant of the constructive heuristic\<close>

definition roomSlotKey :: "ClassSchedule \<Rightarrow> string \<times> string \<times> string" where
  "roomSlotKey a = (cls_roomId a, cls_day a, cls_startTime a)"

definition teacherSlotKey :: "ClassSchedule \<Rightarrow> string \<times> string \<times> string" where
  "teacherSlotKey a = (cls_teacherId a, cls_day a, cls_startTime a)"

definition slotIdsByTime :: "ctx \<Rightarrow> bool" where
  "slotIdsByTime c \<longleftrightarrow>
     (\<forall>s1\<in>set (timeSlots c). \<forall>s2\<in>set (timeSlots c).
        ts_day s1 = ts_day s2 \<and> ts_startTime s1 = ts_startTime s2 \<longrightarrow> ts_id s1 = ts_id s2)"

definition placed_inv :: "ctx \<Rightarrow> pstate \<Rightarrow> bool" where
  "placed_inv c st \<longleftrightarrow>
     (\<forall>a\<in>set (testSchedule st).
        (\<exists>s\<in>set (timeSlots c). cls_timeSlotId a = ts_id s \<and> cls_day a = ts_day s
                                  \<and> cls_startTime a = ts_startTime s)
        \<and> occKey (cls_roomId a) (cls_timeSlotId a) \<in> occupiedByRoom st
        \<and> occKey (cls_teacherId a) (cls_timeSlotId a) \<in> occupiedByTeacher st)
     \<and> distinct (map roomSlotKey (testSchedule st))
     \<and> distinct (map teacherSlotKey (testSchedule st))"

lemma set_insertBy: "set (insertBy cmp x xs) = insert x (set xs)"
  by (induction xs) auto

lemma set_sortBy_aux: "set (foldl (\<lambda>acc x. insertBy cmp x acc) acc xs) = set acc \<union> set xs"
  by (induction xs arbitrary: acc) (auto simp: set_insertBy)

lemma set_sortBy: "set (sortBy c cmp xs) \<subseteq> set xs"
  by (auto simp: sortBy_def set_sortBy_aux)

lemma set_update_subset: "set (AList.update k v al) \<subseteq> insert (k, v) (set al)"
  by (induction al) auto

definition slotsWithin :: "ctx \<Rightarrow> (string \<times> TimeSlot list) list \<Rightarrow> bool" where
  "slotsWithin c slotsByDay \<longleftrightarrow> (\<forall>entry\<in>set slotsByDay. set (snd entry) \<subseteq> set (timeSlots c))"

lemma ownList_mem: "x \<in> set (ownList obj k) \<Longrightarrow> \<exists>entry\<in>set obj. x \<in> set (snd entry)"
proof (cases "map_of obj k")
  case None
  then show "x \<in> set (ownList obj k) \<Longrightarrow> ?thesis" by (simp add: ownList_def)
next
  case (Some xs)
  assume "x \<in> set (ownList obj k)"
  with Some have "(k, xs) \<in> set obj" and "x \<in> set (snd (k, xs))"
    by (auto simp: ownList_def dest: map_of_SomeD)
  then show ?thesis by blast
qed

lemma ownList_subset:
  "slotsWithin c slotsByDay \<Longrightarrow> set (ownList slotsByDay day) \<subseteq> set (timeSlots c)"
  unfolding slotsWithin_def using ownList_mem[of _ slotsByDay day] by blast

lemma pushByKey_within:
  "pushByKey key obj xs = Inr r \<Longrightarrow> \<forall>entry\<in>set obj. set (snd entry) \<subseteq> A \<Longrightarrow> set xs \<subseteq> A \<Longrightarrow>
   \<forall>entry\<in>set r. set (snd entry) \<subseteq> A"
proof (induction xs arbitrary: obj)
  case Nil
  then show ?case by simp
next
  case (Cons x xs)
  from Cons.prems(1) have ni: "\<not> inherited (key x)"
    and step: "pushByKey key (AList.update (key x) (ownList obj (key x) @ [x]) obj) xs = Inr r"
    by (auto split: if_splits)
  have own: "set (ownList obj (key x)) \<subseteq> A"
    using Cons.prems(2) ownList_mem[of _ obj "key x"] by blast
  have "\<forall>entry\<in>set (AList.update (key x) (ownList obj (key x) @ [x]) obj). set (snd entry) \<subseteq> A"
  proof
    fix entry assume "entry \<in> set (AList.update (key x) (ownList obj (key x) @ [x]) obj)"
    then have "entry = (key x, ownList obj (key x) @ [x]) \<or> entry \<in> set obj"
      using set_update_subset[of "key x" "ownList obj (key x) @ [x]" obj] by auto
    with own Cons.prems(2,3) show "set (snd entry) \<subseteq> A" by auto
  qed
  from Cons.IH[OF step this] Cons.prems(3) show ?case by simp
qed

lemma dayToSlots_within: "dayToSlots c = Inr slotsByDay \<Longrightarrow> slotsWithin c slotsByDay"
proof -
  assume d: "dayToSlots c = Inr slotsByDay"
  then obtain r where r: "pushByKey ts_day [] (timeSlots c) = Inr r"
    and sd: "slotsByDay = map (\<lambda>entry. (fst entry, sortBy c (sortByStart c) (snd entry))) r"
    unfolding dayToSlots_def by (cases "pushByKey ts_day [] (timeSlots c)") auto
  from pushByKey_within[OF r, of "set (timeSlots c)"]
  have "\<forall>entry\<in>set r. set (snd entry) \<subseteq> set (timeSlots c)" by simp
  then show ?thesis
    unfolding slotsWithin_def sd using set_sortBy[of c "sortByStart c"] by fastforce
qed

lemma placed_inv_assign:
  assumes inv: "placed_inv c st" and H: "slotIdsByTime c"
    and slot: "slot \<in> set (timeSlots c)"
    and r: "occKey (room_id room) (ts_id slot) \<notin> occupiedByRoom st"
    and t: "occKey (teacher_id teacher) (ts_id slot) \<notin> occupiedByTeacher st"
  shows "placed_inv c (assign course section day idx d teacher room slot st)"
proof -
  have old: "\<And>a. a \<in> set (testSchedule st) \<Longrightarrow>
        cls_day a = ts_day slot \<Longrightarrow> cls_startTime a = ts_startTime slot \<Longrightarrow>
        cls_timeSlotId a = ts_id slot"
  proof -
    fix a assume a: "a \<in> set (testSchedule st)"
      and d: "cls_day a = ts_day slot" and s: "cls_startTime a = ts_startTime slot"
    from inv a obtain s' where s': "s' \<in> set (timeSlots c)" "cls_timeSlotId a = ts_id s'"
        "cls_day a = ts_day s'" "cls_startTime a = ts_startTime s'"
      unfolding placed_inv_def by blast
    from H s'(1) slot have "ts_day s' = ts_day slot \<and> ts_startTime s' = ts_startTime slot \<longrightarrow> ts_id s' = ts_id slot"
      unfolding slotIdsByTime_def by blast
    with s' d s show "cls_timeSlotId a = ts_id slot" by simp
  qed
  have nr: "\<And>a. a \<in> set (testSchedule st) \<Longrightarrow>
        roomSlotKey a \<noteq> (room_id room, ts_day slot, ts_startTime slot)"
  proof
    fix a assume a: "a \<in> set (testSchedule st)"
      and k: "roomSlotKey a = (room_id room, ts_day slot, ts_startTime slot)"
    from k have "cls_roomId a = room_id room" "cls_day a = ts_day slot" "cls_startTime a = ts_startTime slot"
      by (simp_all add: roomSlotKey_def)
    moreover from this old[OF a] have "cls_timeSlotId a = ts_id slot" by simp
    moreover from inv a have "occKey (cls_roomId a) (cls_timeSlotId a) \<in> occupiedByRoom st"
      unfolding placed_inv_def by blast
    ultimately show False using r by simp
  qed
  have nt: "\<And>a. a \<in> set (testSchedule st) \<Longrightarrow>
        teacherSlotKey a \<noteq> (teacher_id teacher, ts_day slot, ts_startTime slot)"
  proof
    fix a assume a: "a \<in> set (testSchedule st)"
      and k: "teacherSlotKey a = (teacher_id teacher, ts_day slot, ts_startTime slot)"
    from k have "cls_teacherId a = teacher_id teacher" "cls_day a = ts_day slot" "cls_startTime a = ts_startTime slot"
      by (simp_all add: teacherSlotKey_def)
    moreover from this old[OF a] have "cls_timeSlotId a = ts_id slot" by simp
    moreover from inv a have "occKey (cls_teacherId a) (cls_timeSlotId a) \<in> occupiedByTeacher st"
      unfolding placed_inv_def by blast
    ultimately show False using t by simp
  qed
  from nr have nr': "(room_id room, ts_day slot, ts_startTime slot) \<notin> roomSlotKey ` set (testSchedule st)"
    by force
  from nt have nt': "(teacher_id teacher, ts_day slot, ts_startTime slot) \<notin> teacherSlotKey ` set (testSchedule st)"
    by force
  from inv have 1: "\<forall>a\<in>set (testSchedule st).
        (\<exists>s\<in>set (timeSlots c). cls_timeSlotId a = ts_id s \<and> cls_day a = ts_day s
                                  \<and> cls_startTime a = ts_startTime s)
        \<and> occKey (cls_roomId a) (cls_timeSlotId a) \<in> occupiedByRoom st
        \<and> occKey (cls_teacherId a) (cls_timeSlotId a) \<in> occupiedByTeacher st"
    and 2: "distinct (map roomSlotKey (testSchedule st))"
    and 3: "distinct (map teacherSlotKey (testSchedule st))"
    unfolding placed_inv_def by blast+
  show ?thesis
    unfolding placed_inv_def assign_def
    using 1 2 3 nr' nt' slot
    by (auto simp: roomSlotKey_def teacherSlotKey_def)
qed


lemma find_Some_holds: "find P xs = Some x \<Longrightarrow> P x"
  by (induction xs) (auto split: if_splits)

lemma tryPlaceSlots_inv:
  assumes H: "slotIdsByTime c"
  shows "placed_inv c st \<Longrightarrow> set slots \<subseteq> set (timeSlots c) \<Longrightarrow>
         placed_inv c (fst (tryPlaceSlots c course sec day slots st))"
proof (induction slots)
  case Nil
  then show ?case by simp
next
  case (Cons slot slots)
  from Cons.prems have slot: "slot \<in> set (timeSlots c)" and rest: "set slots \<subseteq> set (timeSlots c)"
    by auto
  note IH = Cons.IH[OF Cons.prems(1) rest]
  define found where "found = findIndex (\<lambda>d. d_remaining d > 0 \<and> day \<notin> d_usedDays d) (demand st)"
  define d where "d = demand st ! the found"
  define avail where "avail = filter (\<lambda>t. isQualified t (subject_id (d_subject d)) (course_id course)
                             \<and> occKey (teacher_id t) (ts_id slot) \<notin> occupiedByTeacher st) (teachers c)"
  define unass where "unass = filter (\<lambda>t. teacher_id t \<notin> set (map snd (sectionTeacherAssignments st))) avail"
  define teacher where "teacher = (if unass \<noteq> [] then hd unass else hd avail)"
  define room where "room = find (\<lambda>r. room_type r = subject_type (d_subject d)
                                    \<and> occKey (room_id r) (ts_id slot) \<notin> occupiedByRoom st) (rooms c)"
  have eq: "tryPlaceSlots c course sec day (slot # slots) st =
      (if found = None then (st, False)
       else if avail = [] then tryPlaceSlots c course sec day slots st
       else if room = None then tryPlaceSlots c course sec day slots st
       else if sectionKey (course_id course) sec (ts_id slot) \<in> occupiedBySection st
       then tryPlaceSlots c course sec day slots st
       else (assign course sec day (the found) d teacher (the room) slot st, True))"
    unfolding tryPlaceSlots.simps found_def d_def avail_def unass_def teacher_def room_def Let_def
    by (rule refl)
  have A: "placed_inv c (assign course sec day (the found) d teacher (the room) slot st)"
    if ne: "avail \<noteq> []" and rm: "room \<noteq> None"
  proof -
    have "teacher \<in> set avail"
    proof (cases "unass = []")
      case True
      with ne show ?thesis by (simp add: teacher_def)
    next
      case u: False
      then have "hd unass \<in> set unass" by simp
      then have "hd unass \<in> set avail" unfolding unass_def by simp
      with u show ?thesis by (simp add: teacher_def)
    qed
    then have t: "occKey (teacher_id teacher) (ts_id slot) \<notin> occupiedByTeacher st"
      unfolding avail_def by simp
    from rm obtain r where r: "room = Some r" by auto
    from find_Some_holds[OF r[unfolded room_def]]
    have "occKey (room_id r) (ts_id slot) \<notin> occupiedByRoom st" by simp
    with r have r': "occKey (room_id (the room)) (ts_id slot) \<notin> occupiedByRoom st" by simp
    show ?thesis by (rule placed_inv_assign[OF Cons.prems(1) H slot r' t])
  qed
  show ?case unfolding eq using A IH Cons.prems(1) by simp
qed

lemma tryPlaceOneOnDay_inv:
  "slotIdsByTime c \<Longrightarrow> slotsWithin c sd \<Longrightarrow> placed_inv c st \<Longrightarrow>
   placed_inv c (fst (tryPlaceOneOnDay c sd course sec day st))"
  unfolding tryPlaceOneOnDay_def
  by (rule tryPlaceSlots_inv) (simp_all add: ownList_subset)

lemma pass1Days_inv:
  "slotIdsByTime c \<Longrightarrow> slotsWithin c sd \<Longrightarrow> placed_inv c st \<Longrightarrow>
   placed_inv c (fst (pass1Days c sd course sec days st placed))"
proof (induction days arbitrary: st placed)
  case Nil
  then show ?case by simp
next
  case (Cons day days)
  from tryPlaceOneOnDay_inv[OF Cons.prems, of course sec day]
  show ?case
    using Cons.IH[OF Cons.prems(1,2)] Cons.prems(3)
    by (simp add: Let_def)
qed

lemma pass1_inv:
  "slotIdsByTime c \<Longrightarrow> slotsWithin c sd \<Longrightarrow> placed_inv c st \<Longrightarrow>
   placed_inv c (pass1 c sd course sec days st)"
proof (induction c sd course sec days st rule: pass1.induct)
  case (1 c sd course sec rotatedDays st)
  show ?case
  proof (cases "remainingTotal st > 0")
    case False
    with 1 show ?thesis by (simp add: pass1.simps)
  next
    case pos: True
    define r where "r = pass1Days c sd course sec rotatedDays st False"
    from pass1Days_inv[OF "1.prems", of course sec rotatedDays False]
    have inv': "placed_inv c (fst r)" by (simp add: r_def)
    show ?thesis
    proof (cases "snd r")
      case True
      from "1.IH"[OF pos r_def True "1.prems"(1,2) inv']
      show ?thesis using True pos
        by (simp add: pass1.simps[of c sd course sec rotatedDays st] r_def[symmetric])
    next
      case False
      with inv' pos show ?thesis
        by (simp add: pass1.simps[of c sd course sec rotatedDays st] r_def[symmetric])
    qed
  qed
qed

lemma pass2Day_inv:
  "slotIdsByTime c \<Longrightarrow> slotsWithin c sd \<Longrightarrow> placed_inv c st \<Longrightarrow>
   placed_inv c (pass2Day c sd course sec day n st)"
proof (induction n arbitrary: st)
  case 0
  then show ?case by simp
next
  case (Suc n)
  from tryPlaceOneOnDay_inv[OF Suc.prems, of course sec day]
  show ?case
    using Suc.IH[OF Suc.prems(1,2)] Suc.prems(3)
    by (simp add: Let_def)
qed

lemma fold_inv:
  assumes "\<And>x s. P s \<Longrightarrow> P (f x s)"
  shows "P s \<Longrightarrow> P (fold f xs s)"
  using assms by (induction xs arbitrary: s) auto

lemma pass2_inv:
  "slotIdsByTime c \<Longrightarrow> slotsWithin c sd \<Longrightarrow> placed_inv c st \<Longrightarrow>
   placed_inv c (pass2 c sd course sec days st)"
  unfolding pass2_def
  by (auto intro!: fold_inv[where P="placed_inv c"] pass2Day_inv)

lemma placed_inv_reset:
  "placed_inv c st \<Longrightarrow> placed_inv c (st\<lparr> demand := ds, sectionTeacherAssignments := m \<rparr>)"
  by (simp add: placed_inv_def)

lemma placeSection_inv:
  "slotIdsByTime c \<Longrightarrow> slotsWithin c sd \<Longrightarrow> placed_inv c st \<Longrightarrow>
   placed_inv c (placeSection c sd course subjs sec st)"
  unfolding placeSection_def Let_def
  by (intro pass2_inv pass1_inv placed_inv_reset)

lemma placeCourse_inv:
  "slotIdsByTime c \<Longrightarrow> slotsWithin c sd \<Longrightarrow> placed_inv c st \<Longrightarrow>
   placeCourse c sd sc course st = Inr st' \<Longrightarrow> placed_inv c st'"
  unfolding placeCourse_def Let_def
  by (auto split: if_splits intro!: fold_inv[where P="placed_inv c"] placeSection_inv)

lemma placeCourses_inv:
  "slotIdsByTime c \<Longrightarrow> slotsWithin c sd \<Longrightarrow> placed_inv c st \<Longrightarrow>
   placeCourses c sd sc cs st = Inr st' \<Longrightarrow> placed_inv c st'"
proof (induction cs arbitrary: st)
  case Nil
  then show ?case by simp
next
  case (Cons course cs)
  show ?case
  proof (cases "placeCourse c sd sc course st")
    case (Inl e)
    with Cons.prems(4) show ?thesis by (simp add: Let_def)
  next
    case (Inr st1)
    from placeCourse_inv[OF Cons.prems(1,2,3) Inr] have "placed_inv c st1" .
    from Cons.IH[OF Cons.prems(1,2) this] Cons.prems(4) Inr show ?thesis
      by (simp add: Let_def)
  qed
qed

lemma buildTestSchedule_distinct:
  assumes "slotIdsByTime c" and "buildTestSchedule c = Inr sched"
  shows "distinct (map roomSlotKey sched) \<and> distinct (map teacherSlotKey sched)"
proof (cases "length (subjects c) > 0 \<and> length (timeSlots c) > 0")
  case False
  with assms(2) show ?thesis by (auto simp: buildTestSchedule_def)
next
  case True
  from True assms(2) obtain sd sc st' where sd: "dayToSlots c = Inr sd"
    and st': "placeCourses c sd sc (courses c) emptyState = Inr st'"
    and sched: "sched = testSchedule st'"
    unfolding buildTestSchedule_def Let_def
    by (cases "dayToSlots c"; cases "courseIdToSubjects c";
        cases "placeCourses c (projr (dayToSlots c)) (projr (courseIdToSubjects c)) (courses c) emptyState")
       auto
  have "placed_inv c emptyState" by (simp add: placed_inv_def emptyState_def)
  from placeCourses_inv[OF assms(1) dayToSlots_within[OF sd] this st']
  show ?thesis by (simp add: sched placed_inv_def)
qed



subsection \<open>Concrete inputs\<close>

text \<open>
  A host whose \<open>localeCompare\<close> orders strings by character code, whose dates are clock
  times \<open>HH:MM\<close>, in milliseconds, and whose \<open>sort\<close> is the insertion sort on every
  comparator; scenario A and B of the specification; an input whose two time slots start
  at the same time; and scenario A with one more time slot, whose day is named
  \<open>constructor\<close>.
\<close>

definition insertionOrder :: "(nat \<Rightarrow> nat \<Rightarrow> jsnum) \<Rightarrow> nat \<Rightarrow> nat list" where
  "insertionOrder cmp n = foldl (\<lambda>acc i. insertBy cmp i acc) [] [0..<n]"

fun codeUnitCompare :: "string \<Rightarrow> string \<Rightarrow> int" where
  "codeUnitCompare [] [] = 0"
| "codeUnitCompare [] (y # ys) = -1"
| "codeUnitCompare (x # xs) [] = 1"
| "codeUnitCompare (x # xs) (y # ys) =
     (if (of_char x :: nat) < of_char y then -1
      else if (of_char y :: nat) < of_char x then 1
      else codeUnitCompare xs ys)"

definition digit :: "char \<Rightarrow> int option" where
  "digit ch = (let n = (of_char ch :: nat) in if 48 \<le> n \<and> n \<le> 57 then Some (int n - 48) else None)"

definition clockTime :: "string \<Rightarrow> int option" where
  "clockTime s =
     (case s of
        [a, b, c, d, e] \<Rightarrow>
          (case (digit a, digit b, digit d, digit e) of
             (Some h1, Some h2, Some m1, Some m2) \<Rightarrow>
               (if c = CHR '':'' \<and> 10 * h1 + h2 < 24 \<and> 10 * m1 + m2 < 60
                then Some (((10 * h1 + h2) * 60 + (10 * m1 + m2)) * 60000) else None)
           | _ \<Rightarrow> None)
      | _ \<Rightarrow> None)"

definition mkSlot :: "string \<Rightarrow> string \<Rightarrow> string \<Rightarrow> string \<Rightarrow> TimeSlot" where
  "mkSlot i d s e = \<lparr> ts_id = i, ts_day = d, ts_startTime = s, ts_endTime = e \<rparr>"

definition exampleConstraints :: TimetableConstraints where
  "exampleConstraints = \<lparr> minBreakBetweenClasses = 10, preferredStartTime = ''09:00'',
       preferredEndTime = ''17:00'', semesterParity = None \<rparr>"

definition scenarioA :: ctx where
  "scenarioA = \<lparr>
     courses = [\<lparr> course_id = ''C1'', course_teacherId = ''T1'', studentsCount = 60,
                  course_roomType = theory_room, requiredEquipment = [], sessionsPerWeek = 2,
                  sections = Some [''A'', ''B''] \<rparr>],
     teachers = [\<lparr> teacher_id = ''T1'', departmentCourseId = Some ''C1'', taughtSubjectIds = None,
                   availability = [\<lparr> av_day = ''Monday'', av_timeSlots = [''m1'', ''m2''] \<rparr>,
                                   \<lparr> av_day = ''Tuesday'', av_timeSlots = [''t1'', ''t2''] \<rparr>] \<rparr>],
     rooms = [\<lparr> room_id = ''R1'', room_capacity = 60, room_type = theory_room, room_equipment = [] \<rparr>],
     timeSlots = [mkSlot ''m1'' ''Monday'' ''09:00'' ''10:00'', mkSlot ''m2'' ''Monday'' ''10:00'' ''11:00'',
                  mkSlot ''t1'' ''Tuesday'' ''09:00'' ''10:00'', mkSlot ''t2'' ''Tuesday'' ''10:00'' ''11:00'',
                  mkSlot ''w1'' ''Wednesday'' ''09:00'' ''10:00'', mkSlot ''w2'' ''Wednesday'' ''10:00'' ''11:00'',
                  mkSlot ''h1'' ''Thursday'' ''09:00'' ''10:00'', mkSlot ''h2'' ''Thursday'' ''10:00'' ''11:00'',
                  mkSlot ''f1'' ''Friday'' ''09:00'' ''10:00'', mkSlot ''f2'' ''Friday'' ''10:00'' ''11:00''],
     constraints = exampleConstraints,
     subjects = [\<lparr> subject_id = ''S1'', subject_courseId = ''C1'', subject_semester = 1,
                   subject_type = theory_room \<rparr>],
     localeCompare = codeUnitCompare,
     parseDate = clockTime,
     engineSort = insertionOrder \<rparr>"

definition overlappingSlots :: ctx where
  "overlappingSlots = \<lparr>
     courses = [\<lparr> course_id = ''C'', course_teacherId = ''T'', studentsCount = 60,
                  course_roomType = theory_room, requiredEquipment = [], sessionsPerWeek = 2,
                  sections = None \<rparr>],
     teachers = [\<lparr> teacher_id = ''T'', departmentCourseId = Some ''C'', taughtSubjectIds = None,
                   availability = [] \<rparr>],
     rooms = [\<lparr> room_id = ''R'', room_capacity = 60, room_type = theory_room, room_equipment = [] \<rparr>],
     timeSlots = [mkSlot ''theory1'' ''Monday'' ''10:00'' ''10:40'', mkSlot ''lab1'' ''Monday'' ''10:00'' ''12:00''],
     constraints = exampleConstraints,
     subjects = [\<lparr> subject_id = ''S1'', subject_courseId = ''C'', subject_semester = 1,
                   subject_type = theory_room \<rparr>,
                 \<lparr> subject_id = ''S2'', subject_courseId = ''C'', subject_semester = 1,
                   subject_type = theory_room \<rparr>],
     localeCompare = codeUnitCompare,
     parseDate = clockTime,
     engineSort = insertionOrder \<rparr>"


definition exampleParams :: GeneticAlgorithmParams where
  "exampleParams = \<lparr> populationSize = 50, generations = 100, mutationRate = 0.1,
       crossoverRate = 0.8, eliteSize = 10 \<rparr>"

definition scenarioB :: ctx where
  "scenarioB = scenarioA\<lparr> teachers := [] \<rparr>"

definition inheritedDay :: ctx where
  "inheritedDay =
     scenarioA\<lparr> timeSlots := timeSlots scenarioA @ [mkSlot ''x1'' ''constructor'' ''09:00'' ''10:00''] \<rparr>"


subsection \<open>Properties of optimize\<close>

text \<open>
  When \<open>optimize\<close> gets past its first test, it ends with a TypeError exactly in the
  three cases of \<open>raisesTypeError\<close>, which need subjects and time slots: a time slot's day
  is an inherited name, a subject (of the semester parity) has an inherited name as its
  course id, or a course's id is an inherited name other than the three that hold a
  function without parameters.
\<close>

definition raisesTypeError :: "ctx \<Rightarrow> bool" where
  "raisesTypeError c \<longleftrightarrow>
     subjects c \<noteq> [] \<and> timeSlots c \<noteq> []
     \<and> (list_ex (\<lambda>slot. inherited (ts_day slot)) (timeSlots c)
        \<or> list_ex (\<lambda>subj. inherited (subject_courseId subj)) (filteredSubjects c)
        \<or> list_ex (\<lambda>course. inherited (course_id course)
                       \<and> map_of prototypeFunctions (course_id course) \<noteq> Some 0) (courses c))"

lemma pushByKey_isl: "isl (pushByKey key obj xs) \<longleftrightarrow> list_ex (\<lambda>x. inherited (key x)) xs"
  by (induction xs arbitrary: obj) auto

lemma pushByKey_error: "pushByKey key obj xs = Inl e \<Longrightarrow> e = TypeError"
  by (induction xs arbitrary: obj) (auto split: if_splits)

lemma placeCourses_isl:
  "isl (placeCourses c sd sc cs st) \<longleftrightarrow>
     list_ex (\<lambda>course. inherited (course_id course)
                \<and> map_of prototypeFunctions (course_id course) \<noteq> Some 0) cs"
proof (induction cs arbitrary: st)
  case Nil
  then show ?case by simp
next
  case (Cons course cs)
  show ?case
  proof (cases "placeCourse c sd sc course st")
    case (Inl e)
    then show ?thesis by (auto simp: placeCourse_def Let_def split: if_splits)
  next
    case (Inr st1)
    then have "\<not> (inherited (course_id course)
                  \<and> map_of prototypeFunctions (course_id course) \<noteq> Some 0)"
      by (auto simp: placeCourse_def Let_def split: if_splits)
    with Inr Cons.IH[of st1] show ?thesis by (auto simp: Let_def)
  qed
qed

lemma placeCourses_error: "placeCourses c sd sc cs st = Inl e \<Longrightarrow> e = TypeError"
proof (induction cs arbitrary: st)
  case Nil
  then show ?case by simp
next
  case (Cons course cs)
  show ?case
  proof (cases "placeCourse c sd sc course st")
    case (Inl e')
    with Cons.prems have "e' = e" by (simp add: Let_def)
    with Inl show ?thesis by (auto simp: placeCourse_def Let_def split: if_splits)
  next
    case (Inr st1)
    with Cons.prems Cons.IH[of st1] show ?thesis by (simp add: Let_def)
  qed
qed

lemma buildTestSchedule_isl: "isl (buildTestSchedule c) \<longleftrightarrow> raisesTypeError c"
proof (cases "length (subjects c) > 0 \<and> length (timeSlots c) > 0")
  case False
  then show ?thesis by (auto simp: buildTestSchedule_def raisesTypeError_def)
next
  case True
  have d: "isl (dayToSlots c) \<longleftrightarrow> list_ex (\<lambda>slot. inherited (ts_day slot)) (timeSlots c)"
    unfolding dayToSlots_def
    by (cases "pushByKey ts_day [] (timeSlots c)")
       (use pushByKey_isl[of ts_day "[]" "timeSlots c"] in auto)
  have s: "isl (courseIdToSubjects c)
             \<longleftrightarrow> list_ex (\<lambda>subj. inherited (subject_courseId subj)) (filteredSubjects c)"
    unfolding courseIdToSubjects_def by (rule pushByKey_isl)
  have m: "isl (map_sum id testSchedule r) \<longleftrightarrow> isl r" for r :: "error + pstate"
    by (cases r) auto
  from True show ?thesis
    unfolding buildTestSchedule_def raisesTypeError_def Let_def
    using d s by (auto simp: m placeCourses_isl)
qed

lemma buildTestSchedule_error: "buildTestSchedule c = Inl e \<Longrightarrow> e = TypeError"
proof -
  assume a: "buildTestSchedule c = Inl e"
  have d: "dayToSlots c = Inl e' \<Longrightarrow> e' = TypeError" for e'
    unfolding dayToSlots_def
    by (cases "pushByKey ts_day [] (timeSlots c)") (auto dest: pushByKey_error)
  have s: "courseIdToSubjects c = Inl e' \<Longrightarrow> e' = TypeError" for e'
    unfolding courseIdToSubjects_def by (rule pushByKey_error)
  have m: "map_sum id testSchedule r = Inl e' \<Longrightarrow> r = Inl e'" for r :: "error + pstate" and e'
    by (cases r) auto
  from a show ?thesis
    unfolding buildTestSchedule_def Let_def
    by (cases "dayToSlots c"; cases "courseIdToSubjects c")
       (auto split: if_splits dest: d s placeCourses_error dest!: m)
qed

text \<open>
  The outcome of \<open>optimize\<close> on every input: the validation error, a TypeError after the
  eleven progress calls, or, after the same calls, the result with the constructed
  schedule and the constants of the source.
\<close>

lemma optimize_outcome:
  "optimize c params =
     (if courses c = [] \<or> teachers c = [] \<or> rooms c = [] then ([], Inl MissingRequiredData)
      else if raisesTypeError c then (simulatedProgress, Inl TypeError)
      else (simulatedProgress,
            Inr \<lparr> res_schedule = projr (buildTestSchedule c),
                  res_fitness = Num 750,
                  res_conflicts = [],
                  res_metrics = mockMetrics,
                  res_generationData = mockGenerationData \<rparr>))"
proof (cases "buildTestSchedule c")
  case (Inl e)
  with buildTestSchedule_error[OF Inl] buildTestSchedule_isl[of c] show ?thesis
    by (simp add: optimize_def)
next
  case (Inr sched)
  with buildTestSchedule_isl[of c] show ?thesis
    by (simp add: optimize_def)
qed

lemma scenarioA_returns: "\<not> raisesTypeError scenarioA"
  by (simp add: raisesTypeError_def scenarioA_def mkSlot_def filteredSubjects_def
        exampleConstraints_def inherited_def prototypeFunctions_def)

text \<open>
  Claim C1. \<open>optimize\<close> fails with the input-validation error exactly when the course,
  teacher or room collection is empty. In that case no progress call has been made and no
  result is produced. With all three non-empty the progress calls are made and the
  validation error is not raised: the outcome is a result or a TypeError.
\<close>

theorem optimize_input_validation:
  "(courses c = [] \<or> teachers c = [] \<or> rooms c = [] \<longrightarrow>
      optimize c params = ([], Inl MissingRequiredData))
   \<and> (courses c \<noteq> [] \<and> teachers c \<noteq> [] \<and> rooms c \<noteq> [] \<longrightarrow>
      fst (optimize c params) = simulatedProgress
      \<and> snd (optimize c params) \<noteq> Inl MissingRequiredData
      \<and> (raisesTypeError c \<or> (\<exists>r. snd (optimize c params) = Inr r)))"
  by (simp add: optimize_outcome)

theorem optimize_input_validation_witness:
  "teachers scenarioB = []
   \<and> optimize scenarioB exampleParams = ([], Inl MissingRequiredData)
   \<and> courses scenarioA \<noteq> [] \<and> teachers scenarioA \<noteq> [] \<and> rooms scenarioA \<noteq> []
   \<and> fst (optimize scenarioA exampleParams) = simulatedProgress
   \<and> \<not> isl (snd (optimize scenarioA exampleParams))"
  using optimize_input_validation[of scenarioB exampleParams]
        optimize_input_validation[of scenarioA exampleParams] scenarioA_returns
  by (auto simp: scenarioB_def scenarioA_def)

text \<open>
  Claim C3 describes the result that \<open>optimize\<close> builds from literals; the code misses it on
  the input \<open>inheritedDay\<close>, which has courses, teachers and rooms: the grouping of the time
  slots by day finds the inherited \<open>constructor\<close> of the object literal under the day of
  the last slot and calls \<open>push\<close> on it, so \<open>optimize\<close> ends with a TypeError after its
  progress calls and returns no result. (By \<open>optimize_outcome\<close>, every input on which
  neither error is raised gets the constants of the claim.)
\<close>

theorem optimize_inherited_day_TypeError:
  "courses inheritedDay \<noteq> [] \<and> teachers inheritedDay \<noteq> [] \<and> rooms inheritedDay \<noteq> []
   \<and> optimize inheritedDay exampleParams = (simulatedProgress, Inl TypeError)"
  by (simp add: optimize_outcome raisesTypeError_def inheritedDay_def scenarioA_def mkSlot_def
        inherited_def prototypeFunctions_def)

text \<open>
  Under the hypothesis that the id of a time slot determines its day and start time, the
  occupancy sets, which are keyed by slot id, do keep rooms and teachers from being booked
  twice at one (day, start time).
\<close>

lemma optimize_no_double_booking:
  assumes "slotIdsByTime c" and "snd (optimize c params) = Inr r"
  shows "distinct (map roomSlotKey (res_schedule r))
       \<and> distinct (map teacherSlotKey (res_schedule r))"
proof -
  from assms(2) obtain sched where b: "buildTestSchedule c = Inr sched"
    and r: "res_schedule r = sched"
    by (cases "buildTestSchedule c") (auto simp: optimize_def split: if_splits)
  from buildTestSchedule_distinct[OF assms(1) b] r show ?thesis by simp
qed

text \<open>
  Claim C2 states that no returned schedule books a room or a teacher twice at one
  (day, start time) and that a violation would be listed as a conflict; the comment in the
  source says the same (\<open>No teacher/room/section double booking\<close>). The code misses it on
  the input \<open>overlappingSlots\<close>: two time slots of different ids on the same day and start
  time (a theory period and a lab period both starting at 10:00), one teacher and one
  room. The occupancy sets are keyed by slot id, so the second slot counts as free: the
  returned schedule books teacher \<open>T\<close> and room \<open>R\<close> twice at Monday 10:00, and the
  returned conflict list, a literal, is empty.
\<close>

theorem optimize_double_booking:
  "map (\<lambda>a. (cls_subjectId a, cls_teacherId a, cls_roomId a, cls_timeSlotId a, cls_day a, cls_startTime a))
       (res_schedule (projr (snd (optimize overlappingSlots exampleParams))))
     = [(Some ''S1'', ''T'', ''R'', ''theory1'', ''Monday'', ''10:00''),
        (Some ''S2'', ''T'', ''R'', ''lab1'', ''Monday'', ''10:00'')]
   \<and> \<not> isl (snd (optimize overlappingSlots exampleParams))
   \<and> \<not> distinct (map roomSlotKey (res_schedule (projr (snd (optimize overlappingSlots exampleParams)))))
   \<and> \<not> distinct (map teacherSlotKey (res_schedule (projr (snd (optimize overlappingSlots exampleParams)))))
   \<and> res_conflicts (projr (snd (optimize overlappingSlots exampleParams))) = []"
  by code_simp

section \<open>GeneticAlgorithm: conflicts and repair\<close>

text \<open>
  Dates are compared through their time values; a comparison with the NaN time value of an
  invalid date is false.
\<close>

definition dateLess :: "int option \<Rightarrow> int option \<Rightarrow> bool" where
  "dateLess a b = (case a of None \<Rightarrow> False
                   | Some x \<Rightarrow> (case b of None \<Rightarrow> False | Some y \<Rightarrow> x < y))"

definition dateLessEq :: "int option \<Rightarrow> int option \<Rightarrow> bool" where
  "dateLessEq a b = (case a of None \<Rightarrow> False
                     | Some x \<Rightarrow> (case b of None \<Rightarrow> False | Some y \<Rightarrow> x \<le> y))"

definition timeSlotsOverlap :: "ctx \<Rightarrow> ClassSchedule \<Rightarrow> ClassSchedule \<Rightarrow> bool" where
  "timeSlotsOverlap c class1 class2 =
     (let start1 = parseDate c (cls_startTime class1);
          end1 = parseDate c (cls_endTime class1);
          start2 = parseDate c (cls_startTime class2);
          end2 = parseDate c (cls_endTime class2)
      in dateLess start1 end2 \<and> dateLess start2 end1)"

definition roomConflict :: "ClassSchedule \<Rightarrow> ClassSchedule \<Rightarrow> Conflict" where
  "roomConflict class1 class2 =
     \<lparr> conflict_type = room_conflict,
       description = ''Room '' @ cls_roomId class1 @ '' double-booked on '' @ cls_day class1,
       severity = high,
       classes = [cls_id class1, cls_id class2] \<rparr>"

definition teacherConflict :: "ClassSchedule \<Rightarrow> ClassSchedule \<Rightarrow> Conflict" where
  "teacherConflict class1 class2 =
     \<lparr> conflict_type = teacher_conflict,
       description = ''Teacher '' @ cls_teacherId class1 @ '' double-booked on '' @ cls_day class1,
       severity = high,
       classes = [cls_id class1, cls_id class2] \<rparr>"

text \<open>The body of the inner loop of \<open>detectConflicts\<close>, for one pair \<open>i < j\<close>.\<close>

definition pairConflicts :: "ctx \<Rightarrow> ClassSchedule \<Rightarrow> ClassSchedule \<Rightarrow> Conflict list" where
  "pairConflicts c class1 class2 =
     (if cls_roomId class1 = cls_roomId class2 \<and> cls_day class1 = cls_day class2
         \<and> timeSlotsOverlap c class1 class2
      then [roomConflict class1 class2] else [])
     @ (if cls_teacherId class1 = cls_teacherId class2 \<and> cls_day class1 = cls_day class2
           \<and> timeSlotsOverlap c class1 class2
        then [teacherConflict class1 class2] else [])"

fun detectConflicts :: "ctx \<Rightarrow> ClassSchedule list \<Rightarrow> Conflict list" where
  "detectConflicts c [] = []"
| "detectConflicts c (class1 # rest) =
     concat (map (pairConflicts c class1) rest) @ detectConflicts c rest"

definition existingConflicts :: "ctx \<Rightarrow> ClassSchedule \<Rightarrow> ClassSchedule \<Rightarrow> Conflict list" where
  "existingConflicts c classItem existing =
     (if cls_teacherId existing = cls_teacherId classItem \<and> cls_day existing = cls_day classItem
         \<and> timeSlotsOverlap c existing classItem
      then [\<lparr> conflict_type = teacher_conflict,
              description = ''Teacher '' @ cls_teacherId classItem @ '' conflict'',
              severity = high,
              classes = [cls_id existing, cls_id classItem] \<rparr>] else [])
     @ (if cls_roomId existing = cls_roomId classItem \<and> cls_day existing = cls_day classItem
           \<and> timeSlotsOverlap c existing classItem
        then [\<lparr> conflict_type = room_conflict,
                description = ''Room '' @ cls_roomId classItem @ '' conflict'',
                severity = high,
                classes = [cls_id existing, cls_id classItem] \<rparr>] else [])"

definition detectConflictsForClass :: "ctx \<Rightarrow> ClassSchedule \<Rightarrow> ClassSchedule list \<Rightarrow> Conflict list" where
  "detectConflictsForClass c classItem existingSchedule =
     concat (map (existingConflicts c classItem) existingSchedule)"

definition teacherAvailableAt :: "Teacher \<Rightarrow> TimeSlot \<Rightarrow> bool" where
  "teacherAvailableAt teacher timeSlot =
     list_ex (\<lambda>avail. av_day avail = ts_day timeSlot \<and> ts_id timeSlot \<in> set (av_timeSlots avail))
             (availability teacher)"

definition moveTo :: "ClassSchedule \<Rightarrow> TimeSlot \<Rightarrow> ClassSchedule" where
  "moveTo classItem timeSlot =
     classItem\<lparr> cls_day := ts_day timeSlot, cls_startTime := ts_startTime timeSlot,
                cls_endTime := ts_endTime timeSlot, cls_timeSlotId := ts_id timeSlot \<rparr>"

text \<open>\<open>findAlternativeSlot\<close>; \<open>firstFreeSlot\<close> is its loop over the time slots.\<close>

fun firstFreeSlot :: "ctx \<Rightarrow> Teacher \<Rightarrow> ClassSchedule \<Rightarrow> ClassSchedule list \<Rightarrow> TimeSlot list
    \<Rightarrow> ClassSchedule option" where
  "firstFreeSlot c teacher classItem existingSchedule [] = None"
| "firstFreeSlot c teacher classItem existingSchedule (timeSlot # slots) =
     (if \<not> teacherAvailableAt teacher timeSlot
      then firstFreeSlot c teacher classItem existingSchedule slots
      else if detectConflictsForClass c (moveTo classItem timeSlot) existingSchedule = []
      then Some (moveTo classItem timeSlot)
      else firstFreeSlot c teacher classItem existingSchedule slots)"

definition findAlternativeSlot :: "ctx \<Rightarrow> ClassSchedule \<Rightarrow> ClassSchedule list \<Rightarrow> ClassSchedule option" where
  "findAlternativeSlot c classItem existingSchedule =
     (case find (\<lambda>t. teacher_id t = cls_teacherId classItem) (teachers c) of
        None \<Rightarrow> None
      | Some teacher \<Rightarrow> firstFreeSlot c teacher classItem existingSchedule (timeSlots c))"

definition slotKey :: "ClassSchedule \<Rightarrow> string" where
  "slotKey classItem =
     cls_teacherId classItem @ ''_'' @ cls_roomId classItem @ ''_'' @ cls_day classItem
       @ ''_'' @ cls_startTime classItem"

text \<open>
  \<open>repairSchedule\<close>: the loop over the input, with the repaired schedule and the set of used
  slot keys as its state.
\<close>

fun repairLoop :: "ctx \<Rightarrow> ClassSchedule list \<Rightarrow> ClassSchedule list \<Rightarrow> string set \<Rightarrow> ClassSchedule list" where
  "repairLoop c [] repairedSchedule usedSlots = repairedSchedule"
| "repairLoop c (classItem # rest) repairedSchedule usedSlots =
     (if slotKey classItem \<notin> usedSlots
      then (if detectConflictsForClass c classItem repairedSchedule = []
            then repairLoop c rest (repairedSchedule @ [classItem])
                            (insert (slotKey classItem) usedSlots)
            else (let repairedClass = findAlternativeSlot c classItem repairedSchedule
                  in if repairedClass = None then repairLoop c rest repairedSchedule usedSlots
                     else repairLoop c rest (repairedSchedule @ [the repairedClass])
                                     (insert (slotKey (the repairedClass)) usedSlots)))
      else repairLoop c rest repairedSchedule usedSlots)"

definition repairSchedule :: "ctx \<Rightarrow> ClassSchedule list \<Rightarrow> ClassSchedule list" where
  "repairSchedule c schedule = repairLoop c schedule [] {}"

subsection \<open>Concrete schedules\<close>

definition mkClass :: "string \<Rightarrow> string \<Rightarrow> string \<Rightarrow> TimeSlot \<Rightarrow> ClassSchedule" where
  "mkClass i teacher room slot =
     \<lparr> cls_id = i, cls_courseId = ''C1'', cls_subjectId = Some ''S1'', cls_section = Some ''A'',
       cls_semester = Some 1, cls_teacherId = teacher, cls_roomId = room,
       cls_timeSlotId = ts_id slot, cls_day = ts_day slot, cls_startTime = ts_startTime slot,
       cls_endTime = ts_endTime slot \<rparr>"

definition clashingSchedule :: "ClassSchedule list" where
  "clashingSchedule =
     [mkClass ''a'' ''T1'' ''R1'' (mkSlot ''m1'' ''Monday'' ''09:00'' ''10:00''),
      mkClass ''b'' ''T1'' ''R1'' (mkSlot ''x'' ''Monday'' ''09:30'' ''10:30''),
      mkClass ''c'' ''T1'' ''R1'' (mkSlot ''m1'' ''Monday'' ''09:00'' ''10:00'')]"

definition zeroLengthCtx :: ctx where
  "zeroLengthCtx = scenarioA\<lparr>
     teachers := [\<lparr> teacher_id = ''T1'', departmentCourseId = Some ''C1'', taughtSubjectIds = None,
                    availability = [\<lparr> av_day = ''Monday'', av_timeSlots = [''z''] \<rparr>] \<rparr>],
     timeSlots := [mkSlot ''z'' ''Monday'' ''10:00'' ''10:00''] \<rparr>"

definition zeroLengthSchedule :: "ClassSchedule list" where
  "zeroLengthSchedule =
     [mkClass ''a'' ''T1'' ''R1'' (mkSlot ''z'' ''Monday'' ''10:00'' ''10:00''),
      mkClass ''b'' ''T1'' ''R1'' (mkSlot ''m'' ''Monday'' ''09:00'' ''11:00'')]"

subsection \<open>Repair restores conflict-freedom\<close>

definition conflicting :: "ctx \<Rightarrow> ClassSchedule \<Rightarrow> ClassSchedule \<Rightarrow> bool" where
  "conflicting c a b \<longleftrightarrow>
     cls_day a = cls_day b \<and> timeSlotsOverlap c a b
     \<and> (cls_roomId a = cls_roomId b \<or> cls_teacherId a = cls_teacherId b)"

fun conflictFree :: "ctx \<Rightarrow> ClassSchedule list \<Rightarrow> bool" where
  "conflictFree c [] = True"
| "conflictFree c (a # rest) = ((\<forall>b\<in>set rest. \<not> conflicting c a b) \<and> conflictFree c rest)"

lemma pairConflicts_Nil: "pairConflicts c a b = [] \<longleftrightarrow> \<not> conflicting c a b"
  by (auto simp: pairConflicts_def conflicting_def)

lemma existingConflicts_Nil: "existingConflicts c x e = [] \<longleftrightarrow> \<not> conflicting c e x"
  by (auto simp: existingConflicts_def conflicting_def)

lemma detectConflicts_Nil: "detectConflicts c xs = [] \<longleftrightarrow> conflictFree c xs"
  by (induction xs) (auto simp: pairConflicts_Nil)

lemma detectConflictsForClass_Nil:
  "detectConflictsForClass c x xs = [] \<longleftrightarrow> (\<forall>e\<in>set xs. \<not> conflicting c e x)"
  by (auto simp: detectConflictsForClass_def existingConflicts_Nil)

lemma conflictFree_snoc:
  "conflictFree c (xs @ [x]) \<longleftrightarrow> conflictFree c xs \<and> (\<forall>e\<in>set xs. \<not> conflicting c e x)"
  by (induction xs) auto

lemma firstFreeSlot_Some:
  "firstFreeSlot c teacher x existing slots = Some y \<Longrightarrow> detectConflictsForClass c y existing = []"
  by (induction slots) (auto split: if_splits)

lemma findAlternativeSlot_Some:
  "findAlternativeSlot c x existing = Some y \<Longrightarrow> detectConflictsForClass c y existing = []"
  by (auto simp: findAlternativeSlot_def split: option.splits dest: firstFreeSlot_Some)

lemma repairLoop_conflictFree:
  "conflictFree c repaired \<Longrightarrow> conflictFree c (repairLoop c xs repaired used)"
proof (induction xs arbitrary: repaired used)
  case Nil
  then show ?case by simp
next
  case (Cons x xs)
  show ?case
  proof (cases "findAlternativeSlot c x repaired")
    case None
    with Cons show ?thesis
      by (simp add: conflictFree_snoc detectConflictsForClass_Nil)
  next
    case (Some y)
    from findAlternativeSlot_Some[OF Some] Cons.prems
    have "conflictFree c (repaired @ [y])"
      by (simp add: conflictFree_snoc detectConflictsForClass_Nil)
    with Cons Some show ?thesis
      by (simp add: conflictFree_snoc detectConflictsForClass_Nil)
  qed
qed


lemma clashing_conflicts: "length (detectConflicts scenarioA clashingSchedule) = 6"
  by code_simp

lemma clashing_repaired:
  "map (\<lambda>x. (cls_id x, cls_timeSlotId x)) (repairSchedule scenarioA clashingSchedule)
     = [(''a'', ''m1''), (''b'', ''m2'')]"
  by code_simp

lemma clashing_repaired_keys: "distinct (map slotKey (repairSchedule scenarioA clashingSchedule))"
  by code_simp

text \<open>
  Claim C6. For every input schedule, \<open>detectConflicts\<close> finds no conflict in the repaired
  schedule: an assignment is kept only if it has no teacher or room overlap with those
  kept before it, a relocated assignment has none either, and the others are dropped.
\<close>

theorem repair_restores_conflict_freedom:
  "detectConflicts c (repairSchedule c S) = []"
  unfolding detectConflicts_Nil repairSchedule_def
  by (rule repairLoop_conflictFree) simp

theorem repair_restores_conflict_freedom_witness:
  "detectConflicts scenarioA clashingSchedule \<noteq> []
   \<and> detectConflicts scenarioA (repairSchedule scenarioA clashingSchedule) = []"
  using repair_restores_conflict_freedom[of scenarioA clashingSchedule] clashing_conflicts
  by auto

subsection \<open>Idempotence of repair\<close>

text \<open>
  On a conflict-free input the repair keeps exactly the assignments whose slot key has not
  been used before: \<open>firstOccurrences\<close>.
\<close>

fun firstOccurrences :: "string set \<Rightarrow> ClassSchedule list \<Rightarrow> ClassSchedule list" where
  "firstOccurrences used [] = []"
| "firstOccurrences used (x # xs) =
     (if slotKey x \<in> used then firstOccurrences used xs
      else x # firstOccurrences (insert (slotKey x) used) xs)"

lemma repairLoop_conflictFree_input:
  "conflictFree c xs \<Longrightarrow> (\<forall>e\<in>set repaired. \<forall>x\<in>set xs. \<not> conflicting c e x) \<Longrightarrow>
   repairLoop c xs repaired used = repaired @ firstOccurrences used xs"
proof (induction xs arbitrary: repaired used)
  case Nil
  then show ?case by simp
next
  case (Cons x xs)
  from Cons.prems have cf: "conflictFree c xs" and x: "\<forall>b\<in>set xs. \<not> conflicting c x b"
    and r: "\<forall>e\<in>set repaired. \<not> conflicting c e x"
    and rs: "\<forall>e\<in>set repaired. \<forall>x\<in>set xs. \<not> conflicting c e x"
    by auto
  from r have none: "detectConflictsForClass c x repaired = []"
    by (simp add: detectConflictsForClass_Nil)
  show ?case
  proof (cases "slotKey x \<in> used")
    case True
    with Cons.IH[OF cf rs, of used] show ?thesis by simp
  next
    case False
    have "\<forall>e\<in>set (repaired @ [x]). \<forall>y\<in>set xs. \<not> conflicting c e y"
      using x rs by auto
    from Cons.IH[OF cf this, of "insert (slotKey x) used"] False none
    show ?thesis by simp
  qed
qed

lemma length_firstOccurrences: "length (firstOccurrences used xs) \<le> length xs"
  by (induction xs arbitrary: used) (auto simp: le_SucI)

lemma firstOccurrences_id:
  "firstOccurrences used xs = xs \<longleftrightarrow>
     distinct (map slotKey xs) \<and> (\<forall>x\<in>set xs. slotKey x \<notin> used)"
proof (induction xs arbitrary: used)
  case Nil
  then show ?case by simp
next
  case (Cons x xs)
  show ?case
  proof (cases "slotKey x \<in> used")
    case True
    have "length (firstOccurrences used xs) < length (x # xs)"
      using length_firstOccurrences[of used xs] by simp
    then have "firstOccurrences used xs \<noteq> x # xs" by auto
    with True show ?thesis by auto
  next
    case False
    have "firstOccurrences used (x # xs) = x # xs
            \<longleftrightarrow> firstOccurrences (insert (slotKey x) used) xs = xs"
      using False by simp
    also have "\<dots> \<longleftrightarrow> distinct (map slotKey xs)
                    \<and> (\<forall>y\<in>set xs. slotKey y \<notin> insert (slotKey x) used)"
      by (rule Cons.IH)
    also have "\<dots> \<longleftrightarrow> distinct (map slotKey (x # xs))
                    \<and> (\<forall>y\<in>set (x # xs). slotKey y \<notin> used)"
      using False by (auto simp: image_iff)
    finally show ?thesis .
  qed
qed

lemma repairSchedule_conflictFree: "conflictFree c (repairSchedule c S)"
  unfolding repairSchedule_def by (rule repairLoop_conflictFree) simp

text \<open>
  Repairing a repaired schedule changes nothing exactly when the assignments of the
  repaired schedule have pairwise distinct slot keys \<open>teacherId_roomId_day_startTime\<close>.
\<close>

lemma repair_idempotent_iff:
  "repairSchedule c (repairSchedule c S) = repairSchedule c S
     \<longleftrightarrow> distinct (map slotKey (repairSchedule c S))"
proof -
  have "repairSchedule c (repairSchedule c S) = firstOccurrences {} (repairSchedule c S)"
    using repairLoop_conflictFree_input[OF repairSchedule_conflictFree, of "[]" c S "{}"]
    by (simp add: repairSchedule_def)
  then show ?thesis by (simp add: firstOccurrences_id)
qed

lemma clashing_repair_idempotent:
  "repairSchedule scenarioA (repairSchedule scenarioA clashingSchedule)
     = repairSchedule scenarioA clashingSchedule"
  using repair_idempotent_iff[of scenarioA clashingSchedule] clashing_repaired_keys
  by simp

text \<open>
  Claim C5 states that the repair is idempotent. The code misses it on the schedule
  \<open>zeroLengthSchedule\<close> with the time slots of \<open>zeroLengthCtx\<close>, whose only slot \<open>z\<close> has
  length zero (Monday, 10:00 to 10:00). The first assignment \<open>a\<close> sits in \<open>z\<close> and is kept.
  The second, \<open>b\<close> (09:00 to 11:00, same teacher and room), overlaps \<open>a\<close> and is relocated
  to \<open>z\<close>, where the overlap test finds nothing; the relocated assignment is pushed
  without the test against the used slot keys that a kept assignment has to pass. The
  repaired schedule holds the key \<open>T1_R1_Monday_10:00\<close> twice, and a second repair drops
  \<open>b\<close>.
\<close>

theorem repair_not_idempotent:
  "map (\<lambda>x. (cls_id x, slotKey x)) (repairSchedule zeroLengthCtx zeroLengthSchedule)
     = [(''a'', ''T1_R1_Monday_10:00''), (''b'', ''T1_R1_Monday_10:00'')]
   \<and> map (\<lambda>x. (cls_id x, slotKey x))
         (repairSchedule zeroLengthCtx (repairSchedule zeroLengthCtx zeroLengthSchedule))
     = [(''a'', ''T1_R1_Monday_10:00'')]
   \<and> repairSchedule zeroLengthCtx (repairSchedule zeroLengthCtx zeroLengthSchedule)
     \<noteq> repairSchedule zeroLengthCtx zeroLengthSchedule"
  by code_simp

section \<open>GeneticAlgorithm: fitness\<close>

subsection \<open>Arithmetic of JavaScript numbers\<close>

text \<open>
  Zero is the positive zero throughout (every divisor below is a length or a count), so a
  positive number divided by zero is \<open>+Infinity\<close> and \<open>0 / 0\<close> is NaN.
\<close>

instantiation jsnum :: "{plus, uminus, minus, times, inverse}"
begin

fun uminus_jsnum :: "jsnum \<Rightarrow> jsnum" where
  "uminus_jsnum (Num a) = Num (- a)"
| "uminus_jsnum PosInf = NegInf"
| "uminus_jsnum NegInf = PosInf"
| "uminus_jsnum NaN = NaN"

fun plus_jsnum :: "jsnum \<Rightarrow> jsnum \<Rightarrow> jsnum" where
  "plus_jsnum (Num a) (Num b) = Num (a + b)"
| "plus_jsnum NaN y = NaN"
| "plus_jsnum x NaN = NaN"
| "plus_jsnum PosInf NegInf = NaN"
| "plus_jsnum NegInf PosInf = NaN"
| "plus_jsnum PosInf y = PosInf"
| "plus_jsnum NegInf y = NegInf"
| "plus_jsnum (Num a) y = y"

definition minus_jsnum :: "jsnum \<Rightarrow> jsnum \<Rightarrow> jsnum" where
  "minus_jsnum x y = x + (- y)"

fun times_jsnum :: "jsnum \<Rightarrow> jsnum \<Rightarrow> jsnum" where
  "times_jsnum (Num a) (Num b) = Num (a * b)"
| "times_jsnum NaN y = NaN"
| "times_jsnum x NaN = NaN"
| "times_jsnum (Num a) y = (if a = 0 then NaN else if a > 0 then y else - y)"
| "times_jsnum x (Num b) = (if b = 0 then NaN else if b > 0 then x else - x)"
| "times_jsnum PosInf y = y"
| "times_jsnum NegInf y = - y"

fun divide_jsnum :: "jsnum \<Rightarrow> jsnum \<Rightarrow> jsnum" where
  "divide_jsnum (Num a) (Num b) =
     (if b \<noteq> 0 then Num (a / b)
      else if a > 0 then PosInf else if a < 0 then NegInf else NaN)"
| "divide_jsnum NaN y = NaN"
| "divide_jsnum x NaN = NaN"
| "divide_jsnum (Num a) y = Num 0"
| "divide_jsnum x (Num b) = (if b \<ge> 0 then x else - x)"
| "divide_jsnum x y = NaN"

definition inverse_jsnum :: "jsnum \<Rightarrow> jsnum" where
  "inverse_jsnum x = (Num 1 :: jsnum) div x"

instance ..

end

text \<open>\<open>Math.max\<close> of two numbers: NaN if either is NaN.\<close>

fun jsmax :: "jsnum \<Rightarrow> jsnum \<Rightarrow> jsnum" where
  "jsmax (Num a) (Num b) = Num (max a b)"
| "jsmax NaN y = NaN"
| "jsmax x NaN = NaN"
| "jsmax PosInf y = PosInf"
| "jsmax x PosInf = PosInf"
| "jsmax NegInf y = y"
| "jsmax x NegInf = x"

subsection \<open>Counting and grouping by key\<close>

text \<open>
  On a \<open>Map\<close>: the idiom \<open>m.set(k, (m.get(k) || 0) + 1)\<close> and the idiom
  \<open>if (!m.has(k)) m.set(k, []); m.get(k).push(x)\<close>; keys stay in insertion order.
\<close>

definition lookupCount :: "('k \<times> nat) list \<Rightarrow> 'k \<Rightarrow> nat" where
  "lookupCount m k = (case map_of m k of None \<Rightarrow> 0 | Some n \<Rightarrow> n)"

definition countBy :: "('a \<Rightarrow> 'k) \<Rightarrow> 'a list \<Rightarrow> ('k \<times> nat) list" where
  "countBy key xs = foldl (\<lambda>m x. AList.update (key x) (lookupCount m (key x) + 1) m) [] xs"

definition groupBy :: "('a \<Rightarrow> 'k) \<Rightarrow> 'a list \<Rightarrow> ('k \<times> 'a list) list" where
  "groupBy key xs =
     foldl (\<lambda>m x. AList.update (key x)
                     ((case map_of m (key x) of None \<Rightarrow> [] | Some ys \<Rightarrow> ys) @ [x]) m) [] xs"

text \<open>
  On an object literal, the counting idiom \<open>obj[k] = (obj[k] || 0) + 1\<close> meets the inherited
  properties. Under an inherited name the read is truthy, and adding 1 to a function or to
  \<open>Object.prototype\<close> gives a string that is no numeral; under \<open>__proto__\<close> the write is
  ignored (the setter takes objects only), under the other eleven names it stores the
  string as an own property, and every later increment of that key appends to the string.
  A property therefore holds a count (at least 1) or such a string, \<open>Text\<close>.
\<close>

datatype counter = Count nat | Text

definition increment :: "(string \<times> counter) list \<Rightarrow> string \<Rightarrow> (string \<times> counter) list" where
  "increment obj k =
     (if map_of obj k = None
      then (if k = ''__proto__'' then obj
            else if inherited k then AList.update k Text obj
            else AList.update k (Count 1) obj)
      else (case the (map_of obj k) of
              Count n \<Rightarrow> AList.update k (Count (n + 1)) obj
            | Text \<Rightarrow> obj))"

text \<open>A property value where a number is expected: the string converts to NaN.\<close>

definition counterNumber :: "counter \<Rightarrow> jsnum" where
  "counterNumber v = (case v of Count n \<Rightarrow> Num (real n) | Text \<Rightarrow> NaN)"

text \<open>
  \<open>(obj[k] || 0)\<close> where a number is expected: an own property, else the inherited value
  (a function or \<open>Object.prototype\<close>, which convert to NaN), else 0.
\<close>

definition readOrZero :: "(string \<times> counter) list \<Rightarrow> string \<Rightarrow> jsnum" where
  "readOrZero obj k =
     (case map_of obj k of
        Some v \<Rightarrow> counterNumber v
      | None \<Rightarrow> (if inherited k then NaN else Num 0))"

text \<open>
  \<open>Object.values(obj)\<close> lists the own properties whose key is an array index (the decimal
  numeral of a number below \<open>2^32 - 1\<close>, without leading zeros) in ascending order of the
  index, then the others in the order of their creation.
\<close>

definition isDigit :: "char \<Rightarrow> bool" where
  "isDigit ch \<longleftrightarrow> 48 \<le> (of_char ch :: nat) \<and> (of_char ch :: nat) \<le> 57"

definition arrayIndex :: "string \<Rightarrow> nat option" where
  "arrayIndex k =
     (let n = foldl (\<lambda>acc ch. 10 * acc + (of_char ch - 48)) (0 :: nat) k
      in if k \<noteq> [] \<and> list_all isDigit k \<and> (hd k \<noteq> CHR ''0'' \<or> k = ''0'') \<and> n < 4294967295
         then Some n else None)"

definition ownValues :: "(string \<times> 'v) list \<Rightarrow> 'v list" where
  "ownValues obj =
     map snd (sort_key (\<lambda>entry. the (arrayIndex (fst entry)))
                       (filter (\<lambda>entry. arrayIndex (fst entry) \<noteq> None) obj))
     @ map snd (filter (\<lambda>entry. arrayIndex (fst entry) = None) obj)"

text \<open>\<open>x || y\<close> on numbers: \<open>y\<close> when \<open>x\<close> is zero or NaN.\<close>

definition jsor :: "jsnum \<Rightarrow> jsnum \<Rightarrow> jsnum" where
  "jsor x y = (if x = Num 0 \<or> x = NaN then y else x)"

subsection \<open>The terms of the fitness\<close>

text \<open>
  \<open>calculateWorkloadBalance\<close> counts on an object literal. A string among the values turns
  the sum of the first \<open>reduce\<close> into a string, which the division converts to NaN, and
  \<open>load - avg\<close> is NaN for every load then. The model converts the string to NaN where it
  enters the sum, which gives the same \<open>avg\<close>, \<open>variance\<close> and result. \<open>Math.pow(x, 2)\<close> is
  \<open>x * x\<close>.
\<close>

definition calculateWorkloadBalance :: "ClassSchedule list \<Rightarrow> jsnum" where
  "calculateWorkloadBalance schedule =
     (let teacherWorkload = foldl increment [] (map cls_teacherId schedule);
          workloads = map counterNumber (ownValues teacherWorkload)
      in if length workloads = 0 then Num 0
         else
          (let avg = foldl (\<lambda>total load. total + load) (Num 0 :: jsnum) workloads
                       / Num (real (length workloads));
               variance =
                 foldl (\<lambda>total load. total + (load - avg) * (load - avg)) (Num 0 :: jsnum) workloads
                   / Num (real (length workloads))
           in jsmax (Num 0) (Num 1 - variance / jsor (avg * avg) (Num 1))))"

definition calculateRoomUtilization :: "ctx \<Rightarrow> ClassSchedule list \<Rightarrow> jsnum" where
  "calculateRoomUtilization c schedule =
     (let roomUsage = foldl increment [] (map cls_roomId schedule);
          totalSlots = (length (timeSlots c) * 5 :: nat);
          utilizationRates =
            map (\<lambda>room. readOrZero roomUsage (room_id room) / Num (real totalSlots)) (rooms c)
      in foldl (\<lambda>total rate. total + rate) (Num 0 :: jsnum) utilizationRates
           / Num (real (length (rooms c))))"

definition calculateTimeDistribution :: "ClassSchedule list \<Rightarrow> real" where
  "calculateTimeDistribution schedule =
     (let usageCounts =
            map (\<lambda>kv. real (snd kv)) (countBy (\<lambda>cls. cls_day cls @ ''_'' @ cls_startTime cls) schedule)
      in if length usageCounts = 0 then 0
         else
          (let mean = sum_list usageCounts / real (length usageCounts);
               variance = sum_list (map (\<lambda>count. (count - mean)\<^sup>2) usageCounts)
                            / real (length usageCounts)
           in max 0 (1 - variance / (if mean = 0 then 1 else mean))))"

text \<open>The three checks that \<open>calculateConstraintSatisfaction\<close> makes for one class.\<close>

definition teacherAvailabilityOk :: "ctx \<Rightarrow> ClassSchedule \<Rightarrow> bool" where
  "teacherAvailabilityOk c cls =
     (case find (\<lambda>t. teacher_id t = cls_teacherId cls) (teachers c) of
        None \<Rightarrow> False
      | Some teacher \<Rightarrow>
          list_ex (\<lambda>avail. av_day avail = cls_day cls
                     \<and> list_ex (\<lambda>slot. case find (\<lambda>ts. ts_id ts = slot) (timeSlots c) of
                                          None \<Rightarrow> False
                                        | Some timeSlot \<Rightarrow> ts_startTime timeSlot = cls_startTime cls)
                                (av_timeSlots avail))
                  (availability teacher))"

definition preferredWindowOk :: "ctx \<Rightarrow> ClassSchedule \<Rightarrow> bool" where
  "preferredWindowOk c cls =
     (let startTime = parseDate c (cls_startTime cls);
          preferredStart = parseDate c (preferredStartTime (constraints c));
          preferredEnd = parseDate c (preferredEndTime (constraints c))
      in dateLessEq preferredStart startTime \<and> dateLessEq startTime preferredEnd)"

definition roomTypeOk :: "ctx \<Rightarrow> ClassSchedule \<Rightarrow> bool" where
  "roomTypeOk c cls =
     (case find (\<lambda>r. room_id r = cls_roomId cls) (rooms c) of
        None \<Rightarrow> False
      | Some room \<Rightarrow>
          (case find (\<lambda>s. Some (subject_id s) = cls_subjectId cls) (subjects c) of
             None \<Rightarrow> False
           | Some subject \<Rightarrow>
               room_type room = (if subject_type subject = lab_room then lab_room else theory_room)))"

text \<open>The loop body: \<open>total += 3\<close>, and \<open>satisfied++\<close> for each check that holds.\<close>

definition countChecks :: "ctx \<Rightarrow> nat \<times> nat \<Rightarrow> ClassSchedule \<Rightarrow> nat \<times> nat" where
  "countChecks c acc cls =
     (let total = snd acc + 3;
          satisfied1 = (if teacherAvailabilityOk c cls then fst acc + 1 else fst acc);
          satisfied2 = (if preferredWindowOk c cls then satisfied1 + 1 else satisfied1);
          satisfied3 = (if roomTypeOk c cls then satisfied2 + 1 else satisfied2)
      in (satisfied3, total))"

definition calculateConstraintSatisfaction :: "ctx \<Rightarrow> ClassSchedule list \<Rightarrow> real" where
  "calculateConstraintSatisfaction c schedule =
     (let acc = foldl (countChecks c) (0, 0) schedule
      in if snd acc > 0 then real (fst acc) / real (snd acc) else 0)"

text \<open>
  The gap between two consecutive classes of a teacher's day: \<open>gapMinutes\<close> is NaN when a
  date is invalid, and the comparison is then false.
\<close>

definition gapHours :: "ctx \<Rightarrow> ClassSchedule \<Rightarrow> ClassSchedule \<Rightarrow> int" where
  "gapHours c current nxt =
     (case parseDate c (cls_endTime current) of
        None \<Rightarrow> 0
      | Some currentEnd \<Rightarrow>
          (case parseDate c (cls_startTime nxt) of
             None \<Rightarrow> 0
           | Some nextStart \<Rightarrow>
               (let gapMinutes = real_of_int (nextStart - currentEnd) / (1000 * 60)
                in if gapMinutes > real_of_int (minBreakBetweenClasses (constraints c) + 60)
                   then \<lfloor>gapMinutes / 60\<rfloor> else 0)))"

fun dayGaps :: "ctx \<Rightarrow> ClassSchedule list \<Rightarrow> int" where
  "dayGaps c (current # nxt # rest) = gapHours c current nxt + dayGaps c (nxt # rest)"
| "dayGaps c [current] = 0"
| "dayGaps c [] = 0"

definition calculateGapPenalty :: "ctx \<Rightarrow> ClassSchedule list \<Rightarrow> int" where
  "calculateGapPenalty c schedule =
     (let daySchedules = groupBy (\<lambda>cls. cls_teacherId cls @ ''_'' @ cls_day cls) schedule
      in sum_list (map (\<lambda>kv. dayGaps c (sortBy c (\<lambda>a b. compareStrings c (cls_startTime a) (cls_startTime b))
                                                  (snd kv)))
                       daySchedules))"

record ActualCourse =
  ac_id :: string
  ac_courseId :: string
  ac_subjectId :: string
  ac_section :: string
  ac_semester :: int
  ac_roomType :: room_type
  ac_studentsCount :: int
  ac_sessionsPerWeek :: int

definition parityFiltered :: "ctx \<Rightarrow> Course \<Rightarrow> Subject list" where
  "parityFiltered c course =
     filter (\<lambda>subject.
               if subject_courseId subject \<noteq> course_id course then False
               else if semesterParity (constraints c) = Some odd_parity
                       \<and> js_rem (subject_semester subject) 2 = 0 then False
               else if semesterParity (constraints c) = Some even_parity
                       \<and> js_rem (subject_semester subject) 2 = 1 then False
               else True)
            (subjects c)"

definition generateActualCourses :: "ctx \<Rightarrow> ActualCourse list" where
  "generateActualCourses c =
     concat (map (\<lambda>course.
        case sections course of
          None \<Rightarrow> []
        | Some secs \<Rightarrow>
            concat (map (\<lambda>section.
              map (\<lambda>subject.
                     \<lparr> ac_id = course_id course @ ''_'' @ subject_id subject @ ''_'' @ section,
                       ac_courseId = course_id course,
                       ac_subjectId = subject_id subject,
                       ac_section = section,
                       ac_semester = subject_semester subject,
                       ac_roomType = (if subject_type subject = lab_room then lab_room else theory_room),
                       ac_studentsCount = 60,
                       ac_sessionsPerWeek = (if subject_type subject = lab_room then 1 else 2) \<rparr>)
                  (parityFiltered c course)) secs))
      (courses c))"

text \<open>A missing optional string prints as \<open>undefined\<close> in a template literal.\<close>

definition optString :: "string option \<Rightarrow> string" where
  "optString s = (case s of None \<Rightarrow> ''undefined'' | Some x \<Rightarrow> x)"

definition calculateCoverage :: "ctx \<Rightarrow> ClassSchedule list \<Rightarrow> real" where
  "calculateCoverage c schedule =
     (let actualCourses = generateActualCourses c;
          scheduledCourses =
            set (map (\<lambda>cls. cls_courseId cls @ ''_'' @ optString (cls_subjectId cls) @ ''_''
                              @ optString (cls_section cls)) schedule);
          covered = length (filter (\<lambda>course. ac_id course \<in> scheduledCourses) actualCourses)
      in if length actualCourses > 0 then real covered / real (length actualCourses) else 0)"

subsection \<open>calculateFitness\<close>

definition applyPenalty :: "jsnum \<Rightarrow> Conflict \<Rightarrow> jsnum" where
  "applyPenalty fitness conflict =
     (case severity conflict of
        high \<Rightarrow> fitness - Num 100
      | medium \<Rightarrow> fitness - Num 30
      | low \<Rightarrow> fitness - Num 10)"

definition calculateFitness :: "ctx \<Rightarrow> ClassSchedule list \<Rightarrow> jsnum" where
  "calculateFitness c schedule =
     (let conflicts = detectConflicts c schedule;
          fitness0 = foldl applyPenalty (Num 1000) conflicts;
          fitness1 = fitness0 + calculateWorkloadBalance schedule * Num 80;
          fitness2 = fitness1 + calculateRoomUtilization c schedule * Num 60;
          fitness3 = fitness2 + Num (calculateTimeDistribution schedule) * Num 40;
          fitness4 = fitness3 + Num (calculateConstraintSatisfaction c schedule) * Num 100;
          fitness5 = fitness4 - Num (real_of_int (calculateGapPenalty c schedule)) * Num 20;
          fitness6 = fitness5 + Num (calculateCoverage c schedule) * Num 150
      in jsmax fitness6 (Num 0))"



subsection \<open>The fitness as the specification states it\<close>













section \<open>CPSATSolver (utils/cpsatSolver.ts)\<close>

record Variable =
  var_id :: string
  var_courseId :: string
  var_subjectId :: string
  var_section :: string
  var_teacherId :: string
  var_roomId :: string
  var_timeSlotId :: string
  var_domain :: bool

datatype constraint_type = ct_resource_conflict | ct_teacher_availability | ct_room_capacity | ct_time_preference

record Constraint =
  con_id :: string
  con_type :: constraint_type
  con_variables :: "string list"
  con_satisfied :: bool

text \<open>
  The two mutable fields of the solver. \<open>variables\<close> is a \<open>Map\<close>: an association list in
  insertion order, where setting an existing key keeps its position.
\<close>

record csp =
  variables :: "(string \<times> Variable) list"
  constraintList :: "Constraint list"

subsection \<open>Variables\<close>

definition isVariableValid :: "ctx \<Rightarrow> Subject \<Rightarrow> Teacher \<Rightarrow> Room \<Rightarrow> TimeSlot \<Rightarrow> bool" where
  "isVariableValid c subject teacher room timeSlot =
     (let teacherAvailable = teacherAvailableAt teacher timeSlot;
          roomCompatible =
            (room_type room = (if subject_type subject = lab_room then lab_room else theory_room));
          startTime = parseDate c (ts_startTime timeSlot);
          preferredStart = parseDate c (preferredStartTime (constraints c));
          preferredEnd = parseDate c (preferredEndTime (constraints c));
          timePreferred = (dateLessEq preferredStart startTime \<and> dateLessEq startTime preferredEnd)
      in teacherAvailable \<and> roomCompatible \<and> timePreferred)"

definition variableId :: "Course \<Rightarrow> Subject \<Rightarrow> string \<Rightarrow> Teacher \<Rightarrow> Room \<Rightarrow> TimeSlot \<Rightarrow> string" where
  "variableId course subject section teacher room timeSlot =
     course_id course @ ''_'' @ subject_id subject @ ''_'' @ section @ ''_'' @ teacher_id teacher
       @ ''_'' @ room_id room @ ''_'' @ ts_id timeSlot"

definition makeVariable :: "ctx \<Rightarrow> Course \<Rightarrow> Subject \<Rightarrow> string \<Rightarrow> Teacher \<Rightarrow> Room \<Rightarrow> TimeSlot \<Rightarrow> Variable" where
  "makeVariable c course subject section teacher room timeSlot =
     \<lparr> var_id = variableId course subject section teacher room timeSlot,
       var_courseId = course_id course,
       var_subjectId = subject_id subject,
       var_section = section,
       var_teacherId = teacher_id teacher,
       var_roomId = room_id room,
       var_timeSlotId = ts_id timeSlot,
       var_domain = isVariableValid c subject teacher room timeSlot \<rparr>"

text \<open>The variables in the order in which the nested loops of \<open>initializeVariables\<close> set them.\<close>

definition generatedVariables :: "ctx \<Rightarrow> Variable list" where
  "generatedVariables c =
     concat (map (\<lambda>course.
       case sections course of
         None \<Rightarrow> []
       | Some secs \<Rightarrow>
           concat (map (\<lambda>section.
             concat (map (\<lambda>subject.
               (let availableTeachers =
                      filter (\<lambda>t. isQualified t (subject_id subject) (course_id course)) (teachers c);
                    availableRooms =
                      filter (\<lambda>room. room_type room
                                         = (if subject_type subject = lab_room then lab_room else theory_room)
                                       \<and> room_capacity room \<ge> 60) (rooms c)
                in concat (map (\<lambda>teacher.
                     concat (map (\<lambda>room.
                       map (\<lambda>timeSlot. makeVariable c course subject section teacher room timeSlot)
                           (timeSlots c)) availableRooms)) availableTeachers)))
               (parityFiltered c course))) secs))
       (courses c))"

definition initializeVariables :: "ctx \<Rightarrow> (string \<times> Variable) list" where
  "initializeVariables c = foldl (\<lambda>m v. AList.update (var_id v) v m) [] (generatedVariables c)"

subsection \<open>Constraints\<close>

text \<open>The variable ids of a map grouped by a key of the variable, groups in insertion order.\<close>

definition groupIds :: "(Variable \<Rightarrow> string) \<Rightarrow> (string \<times> Variable) list \<Rightarrow> (string \<times> string list) list" where
  "groupIds key vars = map (\<lambda>kv. (fst kv, map fst (snd kv))) (groupBy (\<lambda>iv. key (snd iv)) vars)"

definition the_var :: "(string \<times> Variable) list \<Rightarrow> string \<Rightarrow> Variable" where
  "the_var vars varId = the (map_of vars varId)"

definition conflictGroups :: "(string \<times> Variable) list \<Rightarrow> string \<Rightarrow> string \<Rightarrow> (Variable \<Rightarrow> string)
    \<Rightarrow> string list \<Rightarrow> Constraint list" where
  "conflictGroups vars prefix timeSlotKey key variableIds =
     map (\<lambda>g. \<lparr> con_id = prefix @ fst g @ ''_'' @ timeSlotKey, con_type = ct_resource_conflict,
                 con_variables = snd g, con_satisfied = False \<rparr>)
         (filter (\<lambda>g. length (snd g) > 1)
                 (groupIds key (map (\<lambda>varId. (varId, the_var vars varId)) variableIds)))"

definition addResourceConflictConstraints :: "(string \<times> Variable) list \<Rightarrow> Constraint list" where
  "addResourceConflictConstraints vars =
     concat (map (\<lambda>g. conflictGroups vars ''teacher_conflict_'' (fst g) var_teacherId (snd g)
                        @ conflictGroups vars ''room_conflict_'' (fst g) var_roomId (snd g))
                 (groupIds var_timeSlotId vars))"

definition addSubjectRequirementConstraints :: "(string \<times> Variable) list \<Rightarrow> Constraint list" where
  "addSubjectRequirementConstraints vars =
     map (\<lambda>g. \<lparr> con_id = ''subject_requirement_'' @ fst g, con_type = ct_teacher_availability,
                 con_variables = snd g, con_satisfied = False \<rparr>)
         (groupIds (\<lambda>v. var_subjectId v @ ''_'' @ var_section v) vars)"

text \<open>
  \<open>subjectTeacherPairs\<close> of one section: the subjects in insertion order, each with the
  teachers of its variables.
\<close>

definition subjectTeacherPairs :: "(string \<times> Variable) list \<Rightarrow> string list \<Rightarrow> (string \<times> string list) list" where
  "subjectTeacherPairs vars variableIds =
     map (\<lambda>g. (fst g, map var_teacherId (snd g)))
         (groupBy var_subjectId (map (the_var vars) variableIds))"

definition diversityConstraint :: "(string \<times> Variable) list \<Rightarrow> string \<Rightarrow> string list
    \<Rightarrow> (string \<times> string list) \<Rightarrow> (string \<times> string list) \<Rightarrow> Constraint list" where
  "diversityConstraint vars secKey variableIds s1 s2 =
     (let commonTeachers = filter (\<lambda>t. t \<in> set (snd s2)) (snd s1)
      in if commonTeachers = [] then []
         else
          (let conflictingVars =
                 filter (\<lambda>varId. (var_subjectId (the_var vars varId) = fst s1
                                     \<or> var_subjectId (the_var vars varId) = fst s2)
                                  \<and> var_teacherId (the_var vars varId) \<in> set commonTeachers)
                        variableIds
           in if length conflictingVars > 0
              then [\<lparr> con_id = ''teacher_diversity_'' @ secKey @ ''_'' @ fst s1 @ ''_'' @ fst s2,
                      con_type = ct_resource_conflict, con_variables = conflictingVars,
                      con_satisfied = False \<rparr>]
              else []))"

fun subjectPairs :: "'a list \<Rightarrow> ('a \<times> 'a) list" where
  "subjectPairs [] = []"
| "subjectPairs (x # xs) = map (\<lambda>y. (x, y)) xs @ subjectPairs xs"

definition addTeacherDiversityConstraints :: "(string \<times> Variable) list \<Rightarrow> Constraint list" where
  "addTeacherDiversityConstraints vars =
     concat (map (\<lambda>g.
        concat (map (\<lambda>p. diversityConstraint vars (fst g) (snd g) (fst p) (snd p))
                    (subjectPairs (subjectTeacherPairs vars (snd g)))))
      (groupIds (\<lambda>v. var_courseId v @ ''_'' @ var_section v) vars))"

definition addWorkloadConstraints :: "(string \<times> Variable) list \<Rightarrow> Constraint list" where
  "addWorkloadConstraints vars =
     map (\<lambda>g. \<lparr> con_id = ''workload_'' @ fst g, con_type = ct_teacher_availability,
                 con_variables = snd g, con_satisfied = False \<rparr>)
         (groupIds var_teacherId vars)"

definition initializeConstraints :: "(string \<times> Variable) list \<Rightarrow> Constraint list" where
  "initializeConstraints vars =
     addResourceConflictConstraints vars @ addSubjectRequirementConstraints vars
       @ addTeacherDiversityConstraints vars @ addWorkloadConstraints vars"

definition initialize :: "ctx \<Rightarrow> csp" where
  "initialize c =
     (let vars = initializeVariables c
      in \<lparr> variables = vars, constraintList = initializeConstraints vars \<rparr>)"

subsection \<open>Propagation\<close>

definition isActive :: "(string \<times> Variable) list \<Rightarrow> string \<Rightarrow> bool" where
  "isActive vars varId = (case map_of vars varId of None \<Rightarrow> False | Some v \<Rightarrow> var_domain v)"

definition activeVariables :: "(string \<times> Variable) list \<Rightarrow> Constraint \<Rightarrow> string list" where
  "activeVariables vars constraint = filter (isActive vars) (con_variables constraint)"

text \<open>
  The \<open>forEach\<close> of \<open>propagateConstraint\<close> that disables the peers of the one active
  variable; the boolean is \<open>changed\<close>.
\<close>

fun disablePeers :: "string \<Rightarrow> string list \<Rightarrow> (string \<times> Variable) list \<Rightarrow> bool
    \<Rightarrow> (string \<times> Variable) list \<times> bool" where
  "disablePeers active [] vars changed = (vars, changed)"
| "disablePeers active (varId # rest) vars changed =
     (if varId \<noteq> active \<and> map_of vars varId \<noteq> None
      then disablePeers active rest
             (AList.update varId ((the_var vars varId)\<lparr> var_domain := False \<rparr>) vars) True
      else disablePeers active rest vars changed)"

text \<open>
  \<open>propagateConstraint\<close> returns the variables, the constraint (its \<open>satisfied\<close> flag may be
  set) and \<open>changed\<close>.
\<close>

definition propagateConstraint :: "(string \<times> Variable) list \<Rightarrow> Constraint
    \<Rightarrow> (string \<times> Variable) list \<times> Constraint \<times> bool" where
  "propagateConstraint vars constraint =
     (if con_type constraint = ct_resource_conflict
      then (let active = activeVariables vars constraint
            in if length active = 1
               then (let r = disablePeers (active ! 0) (con_variables constraint) vars False
                     in (fst r, constraint\<lparr> con_satisfied := True \<rparr>, snd r))
               else (vars, constraint, False))
      else (vars, constraint, False))"

text \<open>One pass over the constraint list; the state is (variables, constraints processed, changed).\<close>

fun propagateAll :: "Constraint list \<Rightarrow> (string \<times> Variable) list \<Rightarrow> Constraint list \<Rightarrow> bool
    \<Rightarrow> (string \<times> Variable) list \<times> Constraint list \<times> bool" where
  "propagateAll [] vars processed changed = (vars, processed, changed)"
| "propagateAll (constraint # rest) vars processed changed =
     (let r = propagateConstraint vars constraint
      in propagateAll rest (fst r) (processed @ [fst (snd r)]) (if snd (snd r) then True else changed))"

definition removeInconsistent :: "(string \<times> Variable) list \<Rightarrow> (string \<times> Variable) list" where
  "removeInconsistent vars = filter (\<lambda>kv. var_domain (snd kv)) vars"

definition propagationPass :: "csp \<Rightarrow> csp \<times> bool" where
  "propagationPass st =
     (let r = propagateAll (constraintList st) (variables st) [] False;
          vars = removeInconsistent (fst r);
          changed = (if length vars \<noteq> length (fst r) then True else snd (snd r))
      in (\<lparr> variables = vars, constraintList = fst (snd r) \<rparr>, changed))"

text \<open>
  The \<open>while (changed && iterations < maxIterations)\<close> loop; the numeric argument is
  \<open>maxIterations - iterations\<close>.
\<close>

fun propagationLoop :: "nat \<Rightarrow> csp \<Rightarrow> csp" where
  "propagationLoop 0 st = st"
| "propagationLoop (Suc n) st =
     (let r = propagationPass st
      in if snd r then propagationLoop n (fst r) else fst r)"

definition constraintPropagation :: "csp \<Rightarrow> csp" where
  "constraintPropagation st = propagationLoop 100 st"

subsection \<open>Backtracking search\<close>

definition countConflicts :: "csp \<Rightarrow> string \<Rightarrow> nat" where
  "countConflicts st varId = length (filter (\<lambda>k. varId \<in> set (con_variables k)) (constraintList st))"

text \<open>
  \<open>chooseVariable\<close>: the first variable with the fewest constraints; \<open>minConflicts\<close> starts
  at infinity (\<open>None\<close>).
\<close>

fun chooseLoop :: "csp \<Rightarrow> string list \<Rightarrow> nat option \<Rightarrow> string \<Rightarrow> string" where
  "chooseLoop st [] minConflicts bestVariable = bestVariable"
| "chooseLoop st (varId # rest) minConflicts bestVariable =
     (if minConflicts = None \<or> countConflicts st varId < the minConflicts
      then chooseLoop st rest (Some (countConflicts st varId)) varId
      else chooseLoop st rest minConflicts bestVariable)"

definition chooseVariable :: "csp \<Rightarrow> string list \<Rightarrow> string" where
  "chooseVariable st unassigned = chooseLoop st unassigned None (hd unassigned)"

definition checkConstraint :: "Constraint \<Rightarrow> (string \<times> bool) list \<Rightarrow> bool" where
  "checkConstraint constraint assignment =
     (if con_type constraint = ct_resource_conflict
      then length (filter (\<lambda>varId. map_of assignment varId = Some True) (con_variables constraint)) \<le> 1
      else True)"

definition isConsistent :: "csp \<Rightarrow> (string \<times> bool) list \<Rightarrow> string \<Rightarrow> bool" where
  "isConsistent st assignment variable =
     list_all (\<lambda>constraint. checkConstraint constraint assignment)
              (filter (\<lambda>k. variable \<in> set (con_variables k)) (constraintList st))"

definition forwardCheck :: "csp \<Rightarrow> (string \<times> bool) list \<Rightarrow> string list \<Rightarrow> string list" where
  "forwardCheck st assignment remaining =
     filter (\<lambda>varId. isConsistent st (AList.update varId True assignment) varId) remaining"

definition requiredSubjects :: "ctx \<Rightarrow> string set" where
  "requiredSubjects c =
     set (concat (map (\<lambda>course.
            concat (map (\<lambda>section.
               map (\<lambda>subject. subject_id subject @ ''_'' @ section)
                   (filter (\<lambda>subject. subject_courseId subject = course_id course) (subjects c)))
             (case sections course of None \<Rightarrow> [] | Some secs \<Rightarrow> secs)))
          (courses c)))"

definition assignedSubjects :: "csp \<Rightarrow> (string \<times> bool) list \<Rightarrow> string set" where
  "assignedSubjects st assignment =
     set (concat (map (\<lambda>entry.
            if snd entry
            then (case map_of (variables st) (fst entry) of
                    None \<Rightarrow> []
                  | Some v \<Rightarrow> [var_subjectId v @ ''_'' @ var_section v])
            else [])
          assignment))"

definition isAssignmentComplete :: "ctx \<Rightarrow> csp \<Rightarrow> (string \<times> bool) list \<Rightarrow> bool" where
  "isAssignmentComplete c st assignment =
     (let coverage = real (card (assignedSubjects st assignment))
                       / real (max (card (requiredSubjects c)) 1)
      in coverage \<ge> 0.7)"

lemma chooseLoop_mem: "chooseLoop st xs m b \<in> insert b (set xs)"
  by (induction xs arbitrary: m b) auto

lemma chooseVariable_mem: "unassigned \<noteq> [] \<Longrightarrow> chooseVariable st unassigned \<in> set unassigned"
  using chooseLoop_mem[of st unassigned None "hd unassigned"]
  by (auto simp: chooseVariable_def)

lemma length_remove_chosen:
  "unassigned \<noteq> [] \<Longrightarrow>
   length (filter (\<lambda>v. v \<noteq> chooseVariable st unassigned) unassigned) < length unassigned"
  by (rule length_filter_less[OF chooseVariable_mem]) simp_all

text \<open>
  \<open>backtrack\<close>. The assignment \<open>Map\<close> is mutated in place; a call that returns \<open>null\<close> has
  deleted every entry it set, so the caller continues with the map as it passed it. The
  result is \<open>None\<close> for \<open>null\<close>.
\<close>

function backtrack :: "ctx \<Rightarrow> csp \<Rightarrow> (string \<times> bool) list \<Rightarrow> string list \<Rightarrow> (string \<times> bool) list option" where
  "backtrack c st assignment unassigned =
     (if unassigned = []
      then (if isAssignmentComplete c st assignment then Some assignment else None)
      else
       (let variable = chooseVariable st unassigned;
            remaining = filter (\<lambda>v. v \<noteq> variable) unassigned;
            withTrue = AList.update variable True assignment;
            result1 = (if isConsistent st withTrue variable
                       then backtrack c st withTrue (forwardCheck st withTrue remaining)
                       else None)
        in if result1 \<noteq> None then result1
           else (let withFalse = AList.update variable False withTrue
                 in if isConsistent st withFalse variable
                    then backtrack c st withFalse remaining
                    else None)))"
  by pat_completeness auto
termination
proof (relation "measure (\<lambda>(c, st, assignment, unassigned). length unassigned)")
  show "wf (measure (\<lambda>(c, st, assignment, unassigned). length unassigned))" by simp
next
  fix c :: ctx and st :: csp and assignment :: "(string \<times> bool) list" and unassigned :: "string list"
    and x xa xb
  assume ne: "unassigned \<noteq> []" and x: "x = chooseVariable st unassigned"
    and xa: "xa = filter (\<lambda>v. v \<noteq> x) unassigned"
  have "length (forwardCheck st xb xa) \<le> length xa"
    by (simp add: forwardCheck_def)
  with length_remove_chosen[OF ne, of st] x xa
  show "((c, st, xb, forwardCheck st xb xa), (c, st, assignment, unassigned))
          \<in> measure (\<lambda>(c, st, assignment, unassigned). length unassigned)"
    by simp
next
  fix c :: ctx and st :: csp and assignment :: "(string \<times> bool) list" and unassigned :: "string list"
    and x xa xb xc xd
  assume ne: "unassigned \<noteq> []" and x: "x = chooseVariable st unassigned"
    and xa: "xa = filter (\<lambda>v. v \<noteq> x) unassigned"
  with length_remove_chosen[OF ne, of st]
  show "((c, st, xd, xa), (c, st, assignment, unassigned))
          \<in> measure (\<lambda>(c, st, assignment, unassigned). length unassigned)"
    by simp
qed

declare backtrack.simps [simp del]

definition backtrackingSearch :: "ctx \<Rightarrow> csp \<Rightarrow> (string \<times> bool) list option" where
  "backtrackingSearch c st =
     backtrack c st [] (filter (\<lambda>varId. var_domain (the_var (variables st) varId))
                               (map fst (variables st)))"

subsection \<open>From an assignment to a result\<close>

text \<open>
  Class ids are built from \<open>Date.now()\<close> and \<open>Math.random()\<close>. The host supplies them as a
  sequence \<open>stamp\<close>: \<open>stamp k\<close> is the text \<open>`${Date.now()}_${Math.random()}`\<close> of the
  \<open>k\<close>-th evaluation, and the functions below thread the count of evaluations.
\<close>

fun assignmentToScheduleLoop :: "ctx \<Rightarrow> csp \<Rightarrow> (nat \<Rightarrow> string) \<Rightarrow> (string \<times> bool) list \<Rightarrow> nat
    \<Rightarrow> ClassSchedule list" where
  "assignmentToScheduleLoop c st stamp [] n = []"
| "assignmentToScheduleLoop c st stamp (entry # rest) n =
     (if snd entry \<and> map_of (variables st) (fst entry) \<noteq> None
         \<and> find (\<lambda>ts. ts_id ts = var_timeSlotId (the_var (variables st) (fst entry))) (timeSlots c) \<noteq> None
      then (let variable = the_var (variables st) (fst entry);
                timeSlot = the (find (\<lambda>ts. ts_id ts = var_timeSlotId variable) (timeSlots c))
            in \<lparr> cls_id = ''class_'' @ stamp n,
                 cls_courseId = var_courseId variable,
                 cls_subjectId = Some (var_subjectId variable),
                 cls_section = Some (var_section variable),
                 cls_semester = None,
                 cls_teacherId = var_teacherId variable,
                 cls_roomId = var_roomId variable,
                 cls_timeSlotId = var_timeSlotId variable,
                 cls_day = ts_day timeSlot,
                 cls_startTime = ts_startTime timeSlot,
                 cls_endTime = ts_endTime timeSlot \<rparr>
               # assignmentToScheduleLoop c st stamp rest (Suc n))
      else assignmentToScheduleLoop c st stamp rest n)"

definition assignmentToSchedule :: "ctx \<Rightarrow> csp \<Rightarrow> (nat \<Rightarrow> string) \<Rightarrow> (string \<times> bool) list
    \<Rightarrow> ClassSchedule list" where
  "assignmentToSchedule c st stamp assignment = assignmentToScheduleLoop c st stamp assignment 0"

text \<open>The solver's own \<open>detectConflicts\<close>: one conflict for every key shared by several classes.\<close>

definition keyConflicts :: "conflict_type \<Rightarrow> string \<Rightarrow> (ClassSchedule \<Rightarrow> string) \<Rightarrow> ClassSchedule list
    \<Rightarrow> Conflict list" where
  "keyConflicts kind label key schedule =
     map (\<lambda>g. \<lparr> conflict_type = kind, description = label @ fst g, severity = high,
                 classes = map cls_id (snd g) \<rparr>)
         (filter (\<lambda>g. length (snd g) > 1) (groupBy key schedule))"

definition cpsatDetectConflicts :: "ClassSchedule list \<Rightarrow> Conflict list" where
  "cpsatDetectConflicts schedule =
     keyConflicts room_conflict ''Room conflict at ''
        (\<lambda>cls. cls_roomId cls @ ''_'' @ cls_day cls @ ''_'' @ cls_startTime cls) schedule
     @ keyConflicts teacher_conflict ''Teacher conflict at ''
        (\<lambda>cls. cls_teacherId cls @ ''_'' @ cls_day cls @ ''_'' @ cls_startTime cls) schedule"

definition cpsatCalculateMetrics :: "ctx \<Rightarrow> ClassSchedule list \<Rightarrow> Conflict list \<Rightarrow> OptimizationMetrics" where
  "cpsatCalculateMetrics c schedule conflicts =
     (let totalConflicts = Num (real (length conflicts));
          roomUsage = countBy cls_roomId schedule;
          totalSlots = length (timeSlots c) * 5;
          roomUtilization =
            (Num (real (sum_list (map snd roomUsage))) :: jsnum)
              / Num (real (length (rooms c) * totalSlots));
          workloads = map (\<lambda>kv. Num (real (snd kv))) (countBy cls_teacherId schedule);
          avgWorkload = foldl (\<lambda>total load. total + load) (Num 0 :: jsnum) workloads
                          / Num (real (length workloads));
          workloadVariance =
            foldl (\<lambda>total load. total + (load - avgWorkload) * (load - avgWorkload))
                  (Num 0 :: jsnum) workloads
              / Num (real (length workloads));
          teacherWorkloadBalance =
            jsmax (Num 0) (Num 1 - workloadVariance / jsor (avgWorkload * avgWorkload) (Num 1))
      in \<lparr> totalConflicts = totalConflicts,
           roomUtilization = roomUtilization,
           teacherWorkloadBalance = teacherWorkloadBalance,
           studentSatisfaction =
             jsmax (Num 0) (Num 1 - totalConflicts / Num (real (length schedule))),
           constraintSatisfaction = jsmax (Num 0) (Num 1 - totalConflicts / Num 10) \<rparr>)"

definition cpsatCalculateFitness :: "ClassSchedule list \<Rightarrow> jsnum" where
  "cpsatCalculateFitness schedule =
     (let conflicts = cpsatDetectConflicts schedule;
          fitness = Num (1000 - real (length conflicts) * 50)
      in jsmax fitness (Num 0))"

definition resultOf :: "ctx \<Rightarrow> ClassSchedule list \<Rightarrow> OptimizationResult" where
  "resultOf c schedule =
     (let conflicts = cpsatDetectConflicts schedule
      in \<lparr> res_schedule = schedule,
           res_fitness = cpsatCalculateFitness schedule,
           res_conflicts = conflicts,
           res_metrics = cpsatCalculateMetrics c schedule conflicts,
           res_generationData = [] \<rparr>)"

subsection \<open>The greedy constructive fallback\<close>

text \<open>\<open>Math.log\<close>: minus infinity at zero, NaN below.\<close>

definition jslog :: "real \<Rightarrow> jsnum" where
  "jslog x = (if x > 0 then Num (ln x) else if x = 0 then NegInf else NaN)"

definition getConstraintScore :: "Course \<Rightarrow> jsnum" where
  "getConstraintScore course =
     Num (real (length (requiredEquipment course)) * 10)
       + jslog (real_of_int (studentsCount course)) * Num 5
       + Num (real_of_int (sessionsPerWeek course) * 3)"

record usage =
  roomTimeSlotUsage :: "string \<Rightarrow> string set"
  teacherTimeSlotUsage :: "string \<Rightarrow> string set"

text \<open>
  \<open>findBestAssignment\<close>: the candidates in the order of the loops over rooms and time slots,
  each with an id from the next stamp; the result also returns the count of stamps used.
\<close>

definition candidateSlots :: "Course \<Rightarrow> Teacher \<Rightarrow> usage \<Rightarrow> ctx \<Rightarrow> (Room \<times> TimeSlot) list" where
  "candidateSlots course teacher u c =
     concat (map (\<lambda>room.
        if room_type room \<noteq> course_roomType course \<or> room_capacity room < studentsCount course
        then []
        else if \<not> list_all (\<lambda>eq. eq \<in> set (room_equipment room)) (requiredEquipment course)
        then []
        else
          map (\<lambda>timeSlot. (room, timeSlot))
              (filter (\<lambda>timeSlot.
                         teacherAvailableAt teacher timeSlot
                         \<and> room_id room @ ''_'' @ ts_day timeSlot @ ''_'' @ ts_startTime timeSlot
                              \<notin> roomTimeSlotUsage u (room_id room)
                         \<and> teacher_id teacher @ ''_'' @ ts_day timeSlot @ ''_'' @ ts_startTime timeSlot
                              \<notin> teacherTimeSlotUsage u (teacher_id teacher))
                      (timeSlots c)))
      (rooms c))"

definition candidateClass :: "Course \<Rightarrow> Teacher \<Rightarrow> (nat \<Rightarrow> string) \<Rightarrow> nat \<Rightarrow> (Room \<times> TimeSlot)
    \<Rightarrow> ClassSchedule" where
  "candidateClass course teacher stamp k rt =
     \<lparr> cls_id = course_id course @ ''_'' @ stamp k,
       cls_courseId = course_id course,
       cls_subjectId = None,
       cls_section = None,
       cls_semester = None,
       cls_teacherId = teacher_id teacher,
       cls_roomId = room_id (fst rt),
       cls_timeSlotId = ts_id (snd rt),
       cls_day = ts_day (snd rt),
       cls_startTime = ts_startTime (snd rt),
       cls_endTime = ts_endTime (snd rt) \<rparr>"

definition findBestAssignment :: "ctx \<Rightarrow> (nat \<Rightarrow> string) \<Rightarrow> nat \<Rightarrow> Course \<Rightarrow> Teacher \<Rightarrow> usage
    \<Rightarrow> ClassSchedule option \<times> nat" where
  "findBestAssignment c stamp n course teacher u =
     (let candidates = candidateSlots course teacher u c;
          availableAssignments =
            map (\<lambda>k. candidateClass course teacher stamp (n + k) (candidates ! k))
                [0..<length candidates];
          preferredAssignments =
            filter (\<lambda>assignment.
                      dateLessEq (parseDate c (preferredStartTime (constraints c)))
                                 (parseDate c (cls_startTime assignment))
                      \<and> dateLessEq (parseDate c (cls_startTime assignment))
                                    (parseDate c (preferredEndTime (constraints c))))
                   availableAssignments
      in (if length availableAssignments = 0 then None
          else if length preferredAssignments > 0 then Some (hd preferredAssignments)
          else Some (hd availableAssignments),
          n + length candidates))"

text \<open>The loop over the sessions of one course; the numeric argument counts the sessions left.\<close>

fun scheduleSessions :: "ctx \<Rightarrow> (nat \<Rightarrow> string) \<Rightarrow> Course \<Rightarrow> Teacher \<Rightarrow> nat
    \<Rightarrow> ClassSchedule list \<times> usage \<times> nat \<Rightarrow> ClassSchedule list \<times> usage \<times> nat" where
  "scheduleSessions c stamp course teacher 0 s = s"
| "scheduleSessions c stamp course teacher (Suc sessions) s =
     (let u = fst (snd s);
          r = findBestAssignment c stamp (snd (snd s)) course teacher u
      in if fst r = None then scheduleSessions c stamp course teacher sessions (fst s, u, snd r)
         else
          (let assignment = the (fst r);
               roomTimeKey = cls_roomId assignment @ ''_'' @ cls_day assignment @ ''_''
                               @ cls_startTime assignment;
               teacherTimeKey = cls_teacherId assignment @ ''_'' @ cls_day assignment @ ''_''
                                  @ cls_startTime assignment;
               u' = \<lparr> roomTimeSlotUsage =
                        (roomTimeSlotUsage u)(cls_roomId assignment :=
                           insert roomTimeKey (roomTimeSlotUsage u (cls_roomId assignment))),
                      teacherTimeSlotUsage =
                        (teacherTimeSlotUsage u)(cls_teacherId assignment :=
                           insert teacherTimeKey (teacherTimeSlotUsage u (cls_teacherId assignment))) \<rparr>
           in scheduleSessions c stamp course teacher sessions (fst s @ [assignment], u', snd r)))"

definition scheduleCourse :: "ctx \<Rightarrow> (nat \<Rightarrow> string) \<Rightarrow> ClassSchedule list \<times> usage \<times> nat \<Rightarrow> Course
    \<Rightarrow> ClassSchedule list \<times> usage \<times> nat" where
  "scheduleCourse c stamp s course =
     (case find (\<lambda>t. teacher_id t = course_teacherId course) (teachers c) of
        None \<Rightarrow> s
      | Some teacher \<Rightarrow> scheduleSessions c stamp course teacher (nat (sessionsPerWeek course)) s)"

definition generateConstraintBasedSchedule :: "ctx \<Rightarrow> (nat \<Rightarrow> string) \<Rightarrow> ClassSchedule list" where
  "generateConstraintBasedSchedule c stamp =
     (let sortedCourses =
            sortBy c (\<lambda>a b. getConstraintScore b - getConstraintScore a) (courses c)
      in fst (foldl (scheduleCourse c stamp)
                    ([], \<lparr> roomTimeSlotUsage = (\<lambda>k. {}), teacherTimeSlotUsage = (\<lambda>k. {}) \<rparr>, 0)
                    sortedCourses))"

definition solveWithRelaxedConstraints :: "ctx \<Rightarrow> (nat \<Rightarrow> string) \<Rightarrow> OptimizationResult" where
  "solveWithRelaxedConstraints c stamp = resultOf c (generateConstraintBasedSchedule c stamp)"

subsection \<open>solve\<close>

definition solve :: "ctx \<Rightarrow> (nat \<Rightarrow> string) \<Rightarrow> OptimizationResult" where
  "solve c stamp =
     (let st = constraintPropagation (initialize c);
          assignment = backtrackingSearch c st
      in if assignment \<noteq> None
         then resultOf c (assignmentToSchedule c st stamp (the assignment))
         else solveWithRelaxedConstraints c stamp)"

subsection \<open>Concrete inputs for the solver\<close>

text \<open>Scenario D of the specification: one slot, one teacher, one room, two subjects.\<close>

definition scenarioD :: ctx where
  "scenarioD = \<lparr>
     courses = [\<lparr> course_id = ''C1'', course_teacherId = ''T1'', studentsCount = 60,
                  course_roomType = theory_room, requiredEquipment = [], sessionsPerWeek = 1,
                  sections = Some [''A''] \<rparr>],
     teachers = [\<lparr> teacher_id = ''T1'', departmentCourseId = Some ''C1'', taughtSubjectIds = None,
                   availability = [\<lparr> av_day = ''Monday'', av_timeSlots = [''m1''] \<rparr>] \<rparr>],
     rooms = [\<lparr> room_id = ''R1'', room_capacity = 60, room_type = theory_room, room_equipment = [] \<rparr>],
     timeSlots = [mkSlot ''m1'' ''Monday'' ''09:00'' ''10:00''],
     constraints = exampleConstraints,
     subjects = [\<lparr> subject_id = ''S1'', subject_courseId = ''C1'', subject_semester = 1,
                   subject_type = theory_room \<rparr>,
                 \<lparr> subject_id = ''S2'', subject_courseId = ''C1'', subject_semester = 1,
                   subject_type = theory_room \<rparr>],
     localeCompare = codeUnitCompare,
     parseDate = clockTime,
     engineSort = insertionOrder \<rparr>"


definition exampleStamp :: "nat \<Rightarrow> string" where
  "exampleStamp k = replicate (Suc k) CHR ''x''"

subsection \<open>An accepted assignment is complete\<close>

lemma backtrack_complete:
  "backtrack c st assignment unassigned = Some r \<Longrightarrow> isAssignmentComplete c st r"
proof (induction c st assignment unassigned rule: backtrack.induct)
  case (1 c st assignment unassigned)
  show ?case
  proof (cases "unassigned = []")
    case True
    with "1.prems" show ?thesis
      by (simp add: backtrack.simps[of c st assignment "[]"] split: if_splits)
  next
    case False
    define variable where "variable = chooseVariable st unassigned"
    define remaining where "remaining = filter (\<lambda>v. v \<noteq> variable) unassigned"
    define withTrue where "withTrue = AList.update variable True assignment"
    define result1 where "result1 = (if isConsistent st withTrue variable
                       then backtrack c st withTrue (forwardCheck st withTrue remaining)
                       else None)"
    define withFalse where "withFalse = AList.update variable False withTrue"
    have eq: "backtrack c st assignment unassigned =
        (if result1 \<noteq> None then result1
         else if isConsistent st withFalse variable then backtrack c st withFalse remaining
         else None)"
      using False
      unfolding backtrack.simps[of c st assignment unassigned] Let_def result1_def withFalse_def
        withTrue_def remaining_def variable_def
      by simp
    show ?thesis
    proof (cases "result1 \<noteq> None")
      case True
      with eq "1.prems" have r1: "result1 = Some r" by simp
      then have cons: "isConsistent st withTrue variable"
        and b: "backtrack c st withTrue (forwardCheck st withTrue remaining) = Some r"
        by (auto simp: result1_def split: if_splits)
      from "1.IH"(1)[OF False variable_def remaining_def withTrue_def cons b]
      show ?thesis .
    next
      case r1: False
      with eq "1.prems" have cons: "isConsistent st withFalse variable"
        and b: "backtrack c st withFalse remaining = Some r"
        by (auto split: if_splits)
      from r1 have "\<not> result1 \<noteq> None" by simp
      from "1.IH"(2)[OF False variable_def remaining_def withTrue_def result1_def this withFalse_def cons b]
      show ?thesis .
    qed
  qed
qed

lemma scenarioD_search: "backtrackingSearch scenarioD (constraintPropagation (initialize scenarioD)) = None"
  by code_simp


definition singleSubject :: ctx where
  "singleSubject = scenarioD\<lparr> subjects := [\<lparr> subject_id = ''S1'', subject_courseId = ''C1'',
       subject_semester = 1, subject_type = theory_room \<rparr>] \<rparr>"

lemma singleSubject_search:
  "backtrackingSearch singleSubject (constraintPropagation (initialize singleSubject))
     = Some [(''C1_S1_A_T1_R1_m1'', True)]"
  by code_simp

subsection \<open>What propagation does\<close>

text \<open>
  The peers that \<open>propagateConstraint\<close> disables are the variables of the group other than
  its one candidate; none of them is a candidate, so their domain is false already and the
  variables are left as they were. A pass therefore only removes the variables whose
  domain is false.
\<close>

lemma disablePeers_inactive:
  "\<forall>v\<in>set ids. v \<noteq> a \<longrightarrow> \<not> isActive vars v \<Longrightarrow> fst (disablePeers a ids vars changed) = vars"
proof (induction ids arbitrary: changed)
  case Nil
  then show ?case by simp
next
  case (Cons i ids)
  show ?case
  proof (cases "i \<noteq> a \<and> map_of vars i \<noteq> None")
    case True
    then obtain v where v: "map_of vars i = Some v" by auto
    from Cons.prems True v have "\<not> var_domain v" by (simp add: isActive_def)
    then have "v\<lparr> var_domain := False \<rparr> = v" by simp
    with v have "AList.update i ((the_var vars i)\<lparr> var_domain := False \<rparr>) vars = vars"
      by (simp add: the_var_def update_triv)
    with True Cons show ?thesis by simp
  next
    case False
    with Cons show ?thesis by auto
  qed
qed

lemma propagateConstraint_variables: "fst (propagateConstraint vars k) = vars"
proof (cases "con_type k = ct_resource_conflict \<and> length (activeVariables vars k) = 1")
  case False
  then show ?thesis by (auto simp: propagateConstraint_def Let_def)
next
  case True
  then obtain a where a: "activeVariables vars k = [a]"
    by (cases "activeVariables vars k") auto
  then have "set (filter (isActive vars) (con_variables k)) = {a}"
    by (simp add: activeVariables_def)
  then have "\<forall>v\<in>set (con_variables k). v \<noteq> a \<longrightarrow> \<not> isActive vars v" by auto
  from disablePeers_inactive[OF this] True a show ?thesis
    by (simp add: propagateConstraint_def Let_def)
qed

lemma propagateAll_variables: "fst (propagateAll ks vars processed changed) = vars"
  by (induction ks arbitrary: processed changed) (simp_all add: Let_def propagateConstraint_variables)

lemma propagationPass_variables:
  "variables (fst (propagationPass st)) = removeInconsistent (variables st)"
  by (simp add: propagationPass_def Let_def propagateAll_variables)

lemma removeInconsistent_idem: "removeInconsistent (removeInconsistent vars) = removeInconsistent vars"
  by (simp add: removeInconsistent_def)

lemma propagationLoop_variables:
  "variables (propagationLoop (Suc n) st) = removeInconsistent (variables st)"
proof (induction n arbitrary: st)
  case 0
  show ?case using propagationPass_variables[of st] by (simp add: Let_def)
next
  case (Suc n)
  show ?case
    using Suc[of "fst (propagationPass st)"] propagationPass_variables[of st]
    by (simp add: Let_def removeInconsistent_idem del: propagationLoop.simps(2))
       (simp add: propagationLoop.simps(2)[of "Suc n" st] Let_def removeInconsistent_idem)
qed

lemma isActive_removeInconsistent:
  "isActive vars v \<Longrightarrow> isActive (removeInconsistent vars) v"
  unfolding isActive_def removeInconsistent_def
  by (induction vars) (auto split: option.splits if_splits)

lemma map_of_disablePeers:
  "map_of (fst (disablePeers a ids vars changed)) x =
     (if x \<in> set ids \<and> x \<noteq> a \<and> map_of vars x \<noteq> None
      then Some ((the (map_of vars x))\<lparr> var_domain := False \<rparr>)
      else map_of vars x)"
proof (induction ids arbitrary: vars changed)
  case Nil
  then show ?case by simp
next
  case (Cons i ids)
  show ?case
  proof (cases "i \<noteq> a \<and> map_of vars i \<noteq> None")
    case True
    then obtain v where v: "map_of vars i = Some v" by auto
    show ?thesis
      using True v Cons.IH[of "AList.update i ((the_var vars i)\<lparr> var_domain := False \<rparr>) vars" True]
      by (auto simp: update_conv' the_var_def)
  next
    case False
    then show ?thesis using Cons.IH[of vars changed] by auto
  qed
qed

lemma isActive_disablePeers:
  "isActive (fst (disablePeers a ids vars changed)) x \<longleftrightarrow>
     isActive vars x \<and> (x \<in> set ids \<longrightarrow> x = a)"
  by (auto simp: isActive_def map_of_disablePeers split: option.splits)

subsection \<open>Selected variables belong to required subjects\<close>

definition subjectSectionKey :: "Variable \<Rightarrow> string" where
  "subjectSectionKey v = var_subjectId v @ ''_'' @ var_section v"

definition requiredVars :: "ctx \<Rightarrow> (string \<times> Variable) list \<Rightarrow> bool" where
  "requiredVars c vars \<longleftrightarrow> (\<forall>kv\<in>set vars. subjectSectionKey (snd kv) \<in> requiredSubjects c)"

lemma requiredVars_update:
  "requiredVars c vars \<Longrightarrow> subjectSectionKey v \<in> requiredSubjects c \<Longrightarrow>
   requiredVars c (AList.update k v vars)"
  using set_update_subset[of k v vars] by (auto simp: requiredVars_def)

lemma parityFiltered_subset:
  "s \<in> set (parityFiltered c course) \<Longrightarrow> s \<in> set (subjects c) \<and> subject_courseId s = course_id course"
  by (auto simp: parityFiltered_def split: if_splits)

lemma generatedVariables_required:
  "v \<in> set (generatedVariables c) \<Longrightarrow> subjectSectionKey v \<in> requiredSubjects c"
  unfolding generatedVariables_def requiredSubjects_def subjectSectionKey_def
  by (auto simp: makeVariable_def Let_def split: option.splits dest!: parityFiltered_subset)
     force

lemma foldl_update_required:
  "requiredVars c m \<Longrightarrow> \<forall>v\<in>set vs. subjectSectionKey v \<in> requiredSubjects c \<Longrightarrow>
   requiredVars c (foldl (\<lambda>m v. AList.update (var_id v) v m) m vs)"
  by (induction vs arbitrary: m) (auto intro: requiredVars_update)

lemma initialize_required: "requiredVars c (variables (initialize c))"
proof -
  have "requiredVars c []" by (simp add: requiredVars_def)
  then have "requiredVars c (initializeVariables c)"
    unfolding initializeVariables_def
    by (rule foldl_update_required) (simp add: generatedVariables_required)
  then show ?thesis by (simp add: initialize_def Let_def)
qed

lemma disablePeers_required:
  "requiredVars c vars \<Longrightarrow> requiredVars c (fst (disablePeers a ids vars changed))"
proof (induction ids arbitrary: vars changed)
  case Nil
  then show ?case by simp
next
  case (Cons i ids)
  show ?case
  proof (cases "i \<noteq> a \<and> map_of vars i \<noteq> None")
    case True
    then obtain v where v: "map_of vars i = Some v" by auto
    then have "(i, v) \<in> set vars" by (rule map_of_SomeD)
    with Cons.prems have "subjectSectionKey v \<in> requiredSubjects c"
      by (auto simp: requiredVars_def)
    then have "subjectSectionKey (v\<lparr> var_domain := False \<rparr>) \<in> requiredSubjects c"
      by (simp add: subjectSectionKey_def)
    from Cons.IH[OF requiredVars_update[OF Cons.prems this]] True v
    show ?thesis by (simp add: the_var_def)
  next
    case False
    with Cons.IH[OF Cons.prems] show ?thesis by auto
  qed
qed

lemma propagateConstraint_required:
  "requiredVars c vars \<Longrightarrow> requiredVars c (fst (propagateConstraint vars k))"
  by (simp add: propagateConstraint_def Let_def disablePeers_required)

lemma propagateAll_required:
  "requiredVars c vars \<Longrightarrow> requiredVars c (fst (propagateAll ks vars processed changed))"
  by (induction ks arbitrary: vars processed changed)
     (simp_all add: Let_def propagateConstraint_required)

lemma propagationPass_required:
  "requiredVars c (variables st) \<Longrightarrow> requiredVars c (variables (fst (propagationPass st)))"
  using propagateAll_required[of c "variables st" "constraintList st" "[]" False]
  by (auto simp: propagationPass_def Let_def removeInconsistent_def requiredVars_def)

lemma propagationLoop_required:
  "requiredVars c (variables st) \<Longrightarrow> requiredVars c (variables (propagationLoop n st))"
  by (induction n arbitrary: st) (simp_all add: Let_def propagationPass_required)

lemma assignedSubjects_required:
  assumes "requiredVars c (variables st)"
  shows "assignedSubjects st a \<subseteq> requiredSubjects c"
proof
  fix x assume "x \<in> assignedSubjects st a"
  then obtain entry where x: "x \<in> set (if snd entry
            then (case map_of (variables st) (fst entry) of
                    None \<Rightarrow> []
                  | Some v \<Rightarrow> [var_subjectId v @ ''_'' @ var_section v])
            else [])"
    unfolding assignedSubjects_def set_concat set_map by blast
  show "x \<in> requiredSubjects c"
  proof (cases "map_of (variables st) (fst entry)")
    case None
    with x have False by (cases "snd entry") simp_all
    then show ?thesis ..
  next
    case (Some v)
    then have "(fst entry, v) \<in> set (variables st)" by (rule map_of_SomeD)
    with assms have "subjectSectionKey v \<in> requiredSubjects c"
      by (auto simp: requiredVars_def)
    with x Some show ?thesis by (cases "snd entry") (simp_all add: subjectSectionKey_def)
  qed
qed

lemma propagated_required:
  "requiredVars c (variables (constraintPropagation (initialize c)))"
  unfolding constraintPropagation_def
  by (rule propagationLoop_required) (rule initialize_required)

text \<open>
  Scenario D with a second time slot on Tuesday, when the teacher is not available: the
  two variables over the Tuesday slot have domain false from the start.
\<close>

definition tuesdayClosed :: ctx where
  "tuesdayClosed =
     scenarioD\<lparr> timeSlots := [mkSlot ''m1'' ''Monday'' ''09:00'' ''10:00'',
                               mkSlot ''t1'' ''Tuesday'' ''09:00'' ''10:00''] \<rparr>"

text \<open>
  The variables of scenario D with the second one disabled, and the teacher's conflict
  group over the one slot.
\<close>

definition oneCandidate :: "(string \<times> Variable) list" where
  "oneCandidate =
     AList.update ''C1_S2_A_T1_R1_m1''
       ((the_var (variables (initialize scenarioD)) ''C1_S2_A_T1_R1_m1'')\<lparr> var_domain := False \<rparr>)
       (variables (initialize scenarioD))"

definition teacherGroup :: Constraint where
  "teacherGroup = \<lparr> con_id = ''teacher_conflict_T1_m1'', con_type = ct_resource_conflict,
       con_variables = [''C1_S1_A_T1_R1_m1'', ''C1_S2_A_T1_R1_m1''], con_satisfied = False \<rparr>"

lemma scenarioD_two_active:
  "length (activeVariables (variables (initialize scenarioD)) teacherGroup) = 2"
  by code_simp

lemma oneCandidate_active: "activeVariables oneCandidate teacherGroup = [''C1_S1_A_T1_R1_m1'']"
  by code_simp

lemma tuesdayClosed_variables:
  "map (\<lambda>kv. (fst kv, var_domain (snd kv))) (variables (initialize tuesdayClosed))
     = [(''C1_S1_A_T1_R1_m1'', True), (''C1_S1_A_T1_R1_t1'', False),
        (''C1_S2_A_T1_R1_m1'', True), (''C1_S2_A_T1_R1_t1'', False)]"
  by code_simp

lemma tuesdayClosed_candidates:
  "map fst (filter (\<lambda>kv. var_domain (snd kv)) (variables (initialize tuesdayClosed)))
     = [''C1_S1_A_T1_R1_m1'', ''C1_S2_A_T1_R1_m1'']
   \<and> isActive (variables (initialize tuesdayClosed)) ''C1_S1_A_T1_R1_m1''
   \<and> isActive (variables (initialize tuesdayClosed)) ''C1_S2_A_T1_R1_m1''
   \<and> list_all (\<lambda>k. con_type k \<noteq> ct_resource_conflict
                     \<or> length (activeVariables (variables (initialize tuesdayClosed)) k) \<noteq> 1)
               (constraintList (initialize tuesdayClosed))"
  by code_simp

text \<open>
  Claim C10, amended. Constraint propagation never turns a candidate into a
  non-candidate. The variables after \<open>constraintPropagation\<close> are exactly the variables
  whose domain was true before, unchanged and in the same order; the variables whose
  domain was false are removed. So two variables that compete for a slot and are both
  candidates before propagation are both candidates after it. \<open>propagateConstraint\<close> acts
  on a resource-conflict group only when exactly one of its variables is a candidate: it
  marks the constraint satisfied and sets the domain of the other variables of the group
  to false, which it is already, since none of them is a candidate; the variables stay as
  they were. On any other constraint it changes nothing and reports no change.
\<close>

theorem propagation_keeps_candidates:
  "variables (constraintPropagation st) = filter (\<lambda>kv. var_domain (snd kv)) (variables st)
   \<and> (isActive (variables st) v1 \<and> isActive (variables st) v2
      \<longrightarrow> isActive (variables (constraintPropagation st)) v1
          \<and> isActive (variables (constraintPropagation st)) v2)
   \<and> (con_type k = ct_resource_conflict \<and> activeVariables vars k = [a]
      \<longrightarrow> fst (propagateConstraint vars k) = vars
          \<and> con_satisfied (fst (snd (propagateConstraint vars k)))
          \<and> (\<forall>v\<in>set (con_variables k). v \<noteq> a \<longrightarrow> \<not> isActive vars v))
   \<and> (con_type k \<noteq> ct_resource_conflict \<or> length (activeVariables vars k) \<noteq> 1
      \<longrightarrow> propagateConstraint vars k = (vars, k, False))"
proof (intro conjI impI)
  show v: "variables (constraintPropagation st) = filter (\<lambda>kv. var_domain (snd kv)) (variables st)"
    unfolding constraintPropagation_def
    using propagationLoop_variables[of 99 st] by (simp add: removeInconsistent_def)
  assume "isActive (variables st) v1 \<and> isActive (variables st) v2"
  then show "isActive (variables (constraintPropagation st)) v1"
    and "isActive (variables (constraintPropagation st)) v2"
    using isActive_removeInconsistent[of "variables st"] by (simp_all add: v removeInconsistent_def)
next
  assume h: "con_type k = ct_resource_conflict \<and> activeVariables vars k = [a]"
  show "fst (propagateConstraint vars k) = vars" by (rule propagateConstraint_variables)
  from h show "con_satisfied (fst (snd (propagateConstraint vars k)))"
    by (simp add: propagateConstraint_def Let_def)
  from h have "set (filter (isActive vars) (con_variables k)) = {a}"
    by (simp add: activeVariables_def)
  then show "\<forall>v\<in>set (con_variables k). v \<noteq> a \<longrightarrow> \<not> isActive vars v" by auto
next
  assume "con_type k \<noteq> ct_resource_conflict \<or> length (activeVariables vars k) \<noteq> 1"
  then show "propagateConstraint vars k = (vars, k, False)"
    by (auto simp: propagateConstraint_def Let_def)
qed

theorem propagation_keeps_candidates_witness:
  "map (\<lambda>kv. (fst kv, var_domain (snd kv))) (variables (initialize tuesdayClosed))
     = [(''C1_S1_A_T1_R1_m1'', True), (''C1_S1_A_T1_R1_t1'', False),
        (''C1_S2_A_T1_R1_m1'', True), (''C1_S2_A_T1_R1_t1'', False)]
   \<and> map fst (variables (constraintPropagation (initialize tuesdayClosed)))
     = [''C1_S1_A_T1_R1_m1'', ''C1_S2_A_T1_R1_m1'']
   \<and> isActive (variables (constraintPropagation (initialize tuesdayClosed))) ''C1_S1_A_T1_R1_m1''
   \<and> isActive (variables (constraintPropagation (initialize tuesdayClosed))) ''C1_S2_A_T1_R1_m1''
   \<and> activeVariables oneCandidate teacherGroup = [''C1_S1_A_T1_R1_m1'']
   \<and> fst (propagateConstraint oneCandidate teacherGroup) = oneCandidate
   \<and> con_satisfied (fst (snd (propagateConstraint oneCandidate teacherGroup)))
   \<and> \<not> isActive oneCandidate ''C1_S2_A_T1_R1_m1''
   \<and> length (activeVariables (variables (initialize scenarioD)) teacherGroup) = 2
   \<and> propagateConstraint (variables (initialize scenarioD)) teacherGroup
       = (variables (initialize scenarioD), teacherGroup, False)"
proof -
  have ty: "con_type teacherGroup = ct_resource_conflict"
    and vs: "con_variables teacherGroup = [''C1_S1_A_T1_R1_m1'', ''C1_S2_A_T1_R1_m1'']"
    by (simp_all add: teacherGroup_def)
  note T = propagation_keeps_candidates
         [of "initialize tuesdayClosed" "''C1_S1_A_T1_R1_m1''" "''C1_S2_A_T1_R1_m1''"
             teacherGroup oneCandidate "''C1_S1_A_T1_R1_m1''"]
  note U = propagation_keeps_candidates
         [of "initialize scenarioD" "''C1_S1_A_T1_R1_m1''" "''C1_S2_A_T1_R1_m1''"
             teacherGroup "variables (initialize scenarioD)" "''C1_S1_A_T1_R1_m1''"]
  from T have 1: "variables (constraintPropagation (initialize tuesdayClosed))
      = filter (\<lambda>kv. var_domain (snd kv)) (variables (initialize tuesdayClosed))"
    by (rule conjunct1)
  from T tuesdayClosed_candidates
  have 2: "isActive (variables (constraintPropagation (initialize tuesdayClosed))) ''C1_S1_A_T1_R1_m1''"
    and 3: "isActive (variables (constraintPropagation (initialize tuesdayClosed))) ''C1_S2_A_T1_R1_m1''"
    by blast+
  from T ty oneCandidate_active
  have 4: "fst (propagateConstraint oneCandidate teacherGroup) = oneCandidate"
    and 5: "con_satisfied (fst (snd (propagateConstraint oneCandidate teacherGroup)))"
    and 6: "\<forall>v\<in>set (con_variables teacherGroup). v \<noteq> ''C1_S1_A_T1_R1_m1'' \<longrightarrow> \<not> isActive oneCandidate v"
    by blast+
  from 6 have 7: "\<not> isActive oneCandidate ''C1_S2_A_T1_R1_m1''" by (simp add: vs)
  from tuesdayClosed_candidates
  have 8: "map fst (variables (constraintPropagation (initialize tuesdayClosed)))
     = [''C1_S1_A_T1_R1_m1'', ''C1_S2_A_T1_R1_m1'']"
    unfolding 1 by (rule conjunct1)
  have "length (activeVariables (variables (initialize scenarioD)) teacherGroup) \<noteq> 1"
    by (simp add: scenarioD_two_active)
  with U have 9: "propagateConstraint (variables (initialize scenarioD)) teacherGroup
       = (variables (initialize scenarioD), teacherGroup, False)"
    by blast
  from tuesdayClosed_variables 8 2 3 oneCandidate_active 4 5 7 scenarioD_two_active 9
  show ?thesis by blast
qed

text \<open>
  Claim C10 as stated fails in scenario D (one teacher, one room, one time slot, two
  subjects of one section): after propagation both variables of the teacher's conflict
  group over the slot are still candidates with domain true, where the claim has exactly
  one.
\<close>

theorem propagation_keeps_both_counterexample:
  "map (\<lambda>kv. (fst kv, var_domain (snd kv)))
       (variables (constraintPropagation (initialize scenarioD)))
     = [(''C1_S1_A_T1_R1_m1'', True), (''C1_S2_A_T1_R1_m1'', True)]
   \<and> activeVariables (variables (constraintPropagation (initialize scenarioD)))
        (hd (constraintList (constraintPropagation (initialize scenarioD))))
     = [''C1_S1_A_T1_R1_m1'', ''C1_S2_A_T1_R1_m1'']"
  by code_simp

text \<open>
  Claim C9. \<open>solve\<close> has no failing path. When the search returns no assignment, \<open>solve\<close>
  returns the result of the greedy fallback. When it returns an assignment, the selected
  variables cover at least 70% of the required \<open>subject_section\<close> keys, every covered key is
  a required one, and \<open>solve\<close> returns the result built from that assignment.
\<close>

theorem solve_accepts_or_falls_back:
  assumes st: "st = constraintPropagation (initialize c)"
  shows "(backtrackingSearch c st = None \<longrightarrow> solve c stamp = solveWithRelaxedConstraints c stamp)
       \<and> (\<forall>a. backtrackingSearch c st = Some a \<longrightarrow>
              assignedSubjects st a \<subseteq> requiredSubjects c
              \<and> 7 / 10 \<le> real (card (assignedSubjects st a)) / real (max (card (requiredSubjects c)) 1)
              \<and> solve c stamp = resultOf c (assignmentToSchedule c st stamp a))"
proof (intro conjI allI impI)
  assume "backtrackingSearch c st = None"
  then show "solve c stamp = solveWithRelaxedConstraints c stamp"
    by (simp add: solve_def st Let_def)
next
  fix a assume a: "backtrackingSearch c st = Some a"
  show "assignedSubjects st a \<subseteq> requiredSubjects c"
    unfolding st by (rule assignedSubjects_required) (rule propagated_required)
next
  fix a assume a: "backtrackingSearch c st = Some a"
  then have "isAssignmentComplete c st a"
    unfolding backtrackingSearch_def by (rule backtrack_complete)
  then show "7 / 10 \<le> real (card (assignedSubjects st a)) / real (max (card (requiredSubjects c)) 1)"
    by (simp add: isAssignmentComplete_def Let_def)
next
  fix a assume a: "backtrackingSearch c st = Some a"
  then show "solve c stamp = resultOf c (assignmentToSchedule c st stamp a)"
    by (simp add: solve_def st Let_def)
qed

theorem solve_accepts_or_falls_back_witness:
  "backtrackingSearch scenarioD (constraintPropagation (initialize scenarioD)) = None
   \<and> solve scenarioD exampleStamp = solveWithRelaxedConstraints scenarioD exampleStamp
   \<and> backtrackingSearch singleSubject (constraintPropagation (initialize singleSubject))
       = Some [(''C1_S1_A_T1_R1_m1'', True)]
   \<and> 7 / 10 \<le> real (card (assignedSubjects (constraintPropagation (initialize singleSubject))
                                             [(''C1_S1_A_T1_R1_m1'', True)]))
                / real (max (card (requiredSubjects singleSubject)) 1)
   \<and> solve singleSubject exampleStamp
       = resultOf singleSubject
           (assignmentToSchedule singleSubject (constraintPropagation (initialize singleSubject))
              exampleStamp [(''C1_S1_A_T1_R1_m1'', True)])"
  using solve_accepts_or_falls_back[OF refl, of scenarioD exampleStamp]
        solve_accepts_or_falls_back[OF refl, of singleSubject exampleStamp]
        scenarioD_search singleSubject_search
  by simp

section \<open>The generation loop (HybridOptimizer.runGeneticEvolution)\<close>

subsection \<open>Comparisons of JavaScript numbers\<close>

text \<open>\<open>x < y\<close> and \<open>x <= y\<close> on numbers; both are false when an operand is NaN.\<close>

instantiation jsnum :: ord
begin

fun less_jsnum :: "jsnum \<Rightarrow> jsnum \<Rightarrow> bool" where
  "less_jsnum (Num a) (Num b) = (a < b)"
| "less_jsnum NaN y = False"
| "less_jsnum x NaN = False"
| "less_jsnum x NegInf = False"
| "less_jsnum PosInf y = False"
| "less_jsnum NegInf y = True"
| "less_jsnum (Num a) PosInf = True"

definition less_eq_jsnum :: "jsnum \<Rightarrow> jsnum \<Rightarrow> bool" where
  "less_eq_jsnum x y = (x < y \<or> (x = y \<and> x \<noteq> NaN))"

instance ..

end

text \<open>\<open>Math.min\<close> of two numbers: NaN if either is NaN.\<close>

fun jsmin :: "jsnum \<Rightarrow> jsnum \<Rightarrow> jsnum" where
  "jsmin (Num a) (Num b) = Num (min a b)"
| "jsmin NaN y = NaN"
| "jsmin x NaN = NaN"
| "jsmin NegInf y = NegInf"
| "jsmin x NegInf = NegInf"
| "jsmin PosInf y = y"
| "jsmin x PosInf = x"

subsection \<open>Objects, references and random numbers\<close>

text \<open>
  The classes of the schedules are objects that several schedules can share, and the
  mutation operators assign to their fields. A schedule is therefore a list of addresses
  into the list of all class objects; a new object gets the next address. The arrays and
  the individuals are never assigned to after their creation and are values.

  The \<open>k\<close>-th call of \<open>Math.random()\<close> returns \<open>frac (rnd k)\<close>, a number in \<open>[0, 1)\<close>, for a
  sequence \<open>rnd\<close> that is a parameter; the world counts the calls.
\<close>

record world =
  objects :: "ClassSchedule list"
  drawn :: nat

record Individual =
  ind_schedule :: "nat list"
  ind_fitness :: jsnum

definition deref :: "world \<Rightarrow> nat list \<Rightarrow> ClassSchedule list" where
  "deref w addrs = map (\<lambda>a. objects w ! a) addrs"

definition mathRandom :: "(nat \<Rightarrow> real) \<Rightarrow> world \<Rightarrow> real" where
  "mathRandom rnd w = frac (rnd (drawn w))"

definition tick :: "world \<Rightarrow> world" where
  "tick w = w\<lparr> drawn := Suc (drawn w) \<rparr>"

text \<open>\<open>Math.floor(Math.random() * n)\<close>.\<close>

definition randomIndex :: "(nat \<Rightarrow> real) \<Rightarrow> world \<Rightarrow> nat \<Rightarrow> nat" where
  "randomIndex rnd w n = nat \<lfloor>mathRandom rnd w * real n\<rfloor>"

definition assignClass :: "nat \<Rightarrow> ClassSchedule \<Rightarrow> world \<Rightarrow> world" where
  "assignClass a cls w = w\<lparr> objects := (objects w)[a := cls] \<rparr>"

definition allocClass :: "ClassSchedule \<Rightarrow> world \<Rightarrow> world" where
  "allocClass cls w = w\<lparr> objects := objects w @ [cls] \<rparr>"

subsection \<open>Repair and fitness on references\<close>

text \<open>
  \<open>repairSchedule\<close> as above, on a schedule of shared objects: a kept class is pushed as
  the object it is, and a relocated class is a new object (\<open>findAlternativeSlot\<close> returns a
  copy).
\<close>

fun repairObjectsLoop :: "ctx \<Rightarrow> nat list \<Rightarrow> nat list \<Rightarrow> string set \<Rightarrow> world \<Rightarrow> nat list \<times> world" where
  "repairObjectsLoop c [] repairedSchedule usedSlots w = (repairedSchedule, w)"
| "repairObjectsLoop c (a # rest) repairedSchedule usedSlots w =
     (if slotKey (objects w ! a) \<notin> usedSlots
      then (if detectConflictsForClass c (objects w ! a) (deref w repairedSchedule) = []
            then repairObjectsLoop c rest (repairedSchedule @ [a])
                   (insert (slotKey (objects w ! a)) usedSlots) w
            else (let repairedClass = findAlternativeSlot c (objects w ! a) (deref w repairedSchedule)
                  in if repairedClass = None
                     then repairObjectsLoop c rest repairedSchedule usedSlots w
                     else repairObjectsLoop c rest (repairedSchedule @ [length (objects w)])
                            (insert (slotKey (the repairedClass)) usedSlots)
                            (allocClass (the repairedClass) w)))
      else repairObjectsLoop c rest repairedSchedule usedSlots w)"

definition repairObjects :: "ctx \<Rightarrow> nat list \<Rightarrow> world \<Rightarrow> nat list \<times> world" where
  "repairObjects c schedule w = repairObjectsLoop c schedule [] {} w"

text \<open>The individual \<open>{ schedule, fitness: calculateFitness(schedule) }\<close>.\<close>

definition scored :: "ctx \<Rightarrow> world \<Rightarrow> nat list \<Rightarrow> Individual" where
  "scored c w schedule =
     \<lparr> ind_schedule = schedule, ind_fitness = calculateFitness c (deref w schedule) \<rparr>"

subsection \<open>Mutation (GeneticAlgorithm.mutate)\<close>

definition calculateAdaptiveMutationRate :: "jsnum \<Rightarrow> real \<Rightarrow> jsnum" where
  "calculateAdaptiveMutationRate fitness baseMutationRate =
     (let normalizedFitness = jsmax (Num 0) (jsmin (Num 1) (fitness / Num 1000))
      in Num baseMutationRate * (Num 2 - normalizedFitness))"

text \<open>
  The three operators that assign to the fields of the class object at an address, and
  the swap of two objects' time slots and rooms.
\<close>

definition mutateTimeSlot :: "ctx \<Rightarrow> (nat \<Rightarrow> real) \<Rightarrow> nat \<Rightarrow> world \<Rightarrow> world" where
  "mutateTimeSlot c rnd a w =
     (let teacher = find (\<lambda>t. teacher_id t = cls_teacherId (objects w ! a)) (teachers c)
      in if teacher = None then w
         else
          (let availableTimeSlots = filter (teacherAvailableAt (the teacher)) (timeSlots c)
           in if length availableTimeSlots > 0
              then tick (assignClass a
                     (moveTo (objects w ! a)
                        (availableTimeSlots ! randomIndex rnd w (length availableTimeSlots))) w)
              else w))"

definition mutateRoom :: "ctx \<Rightarrow> (nat \<Rightarrow> real) \<Rightarrow> nat \<Rightarrow> world \<Rightarrow> world" where
  "mutateRoom c rnd a w =
     (let subject = find (\<lambda>s. Some (subject_id s) = cls_subjectId (objects w ! a)) (subjects c)
      in if subject = None then w
         else
          (let availableRooms =
                 filter (\<lambda>room. room_type room
                                   = (if subject_type (the subject) = lab_room then lab_room
                                      else theory_room)
                                 \<and> room_capacity room \<ge> 60) (rooms c)
           in if length availableRooms > 0
              then tick (assignClass a
                     ((objects w ! a)\<lparr> cls_roomId :=
                         room_id (availableRooms ! randomIndex rnd w (length availableRooms)) \<rparr>) w)
              else w))"

definition mutateTeacher :: "ctx \<Rightarrow> (nat \<Rightarrow> real) \<Rightarrow> nat \<Rightarrow> world \<Rightarrow> world" where
  "mutateTeacher c rnd a w =
     (let availableTeachers =
            filter (\<lambda>t. isQualified t (case cls_subjectId (objects w ! a) of None \<Rightarrow> [] | Some s \<Rightarrow> s)
                                     (cls_courseId (objects w ! a))) (teachers c)
      in if length availableTeachers > 1
         then (let otherTeachers =
                     filter (\<lambda>t. teacher_id t \<noteq> cls_teacherId (objects w ! a)) availableTeachers
               in if length otherTeachers > 0
                  then tick (assignClass a
                         ((objects w ! a)\<lparr> cls_teacherId :=
                             teacher_id (otherTeachers ! randomIndex rnd w (length otherTeachers)) \<rparr>) w)
                  else w)
         else w)"

definition swapMutation :: "(nat \<Rightarrow> real) \<Rightarrow> nat list \<Rightarrow> nat \<Rightarrow> world \<Rightarrow> world" where
  "swapMutation rnd schedule index w =
     (if length schedule < 2 then w
      else
       (let otherIndex = randomIndex rnd w (length schedule);
            w0 = tick w
        in if otherIndex \<noteq> index
           then (let a = schedule ! index;
                     b = schedule ! otherIndex;
                     temp = objects w0 ! a;
                     w1 = assignClass a
                            ((objects w0 ! a)\<lparr> cls_timeSlotId := cls_timeSlotId (objects w0 ! b),
                                               cls_day := cls_day (objects w0 ! b),
                                               cls_startTime := cls_startTime (objects w0 ! b),
                                               cls_endTime := cls_endTime (objects w0 ! b),
                                               cls_roomId := cls_roomId (objects w0 ! b) \<rparr>) w0
                 in assignClass b
                      ((objects w1 ! b)\<lparr> cls_timeSlotId := cls_timeSlotId temp,
                                         cls_day := cls_day temp,
                                         cls_startTime := cls_startTime temp,
                                         cls_endTime := cls_endTime temp,
                                         cls_roomId := cls_roomId temp \<rparr>) w1)
           else w0))"

text \<open>The body of the loop of \<open>mutate\<close> for position \<open>i\<close>.\<close>

definition mutateAt :: "ctx \<Rightarrow> (nat \<Rightarrow> real) \<Rightarrow> jsnum \<Rightarrow> nat list \<Rightarrow> world \<Rightarrow> nat \<Rightarrow> world" where
  "mutateAt c rnd adaptiveMutationRate mutatedSchedule w i =
     (if Num (mathRandom rnd w) < adaptiveMutationRate
      then (let mutationType = mathRandom rnd (tick w);
                w2 = tick (tick w)
            in if mutationType < 0.4 then mutateTimeSlot c rnd (mutatedSchedule ! i) w2
               else if mutationType < 0.7 then mutateRoom c rnd (mutatedSchedule ! i) w2
               else if mutationType < 0.9 then mutateTeacher c rnd (mutatedSchedule ! i) w2
               else swapMutation rnd mutatedSchedule i w2)
      else tick w)"

text \<open>
  \<open>mutate\<close>: \<open>[...individual.schedule]\<close> copies the array, not the class objects, so the
  operators assign to the objects of the individual that was passed in.
\<close>

definition mutate :: "ctx \<Rightarrow> (nat \<Rightarrow> real) \<Rightarrow> Individual \<Rightarrow> real \<Rightarrow> world \<Rightarrow> Individual \<times> world" where
  "mutate c rnd individual rate w =
     (let mutatedSchedule = ind_schedule individual;
          adaptiveMutationRate = calculateAdaptiveMutationRate (ind_fitness individual) rate;
          w1 = foldl (mutateAt c rnd adaptiveMutationRate mutatedSchedule) w
                     [0..<length mutatedSchedule];
          r = repairObjects c mutatedSchedule w1
      in (scored c (snd r) (fst r), snd r))"

subsection \<open>Crossover (GeneticAlgorithm.crossover)\<close>

text \<open>
  The end of the three crossover operators: both child schedules are repaired, then both
  are given their fitness.
\<close>

definition offspring :: "ctx \<Rightarrow> nat list \<Rightarrow> nat list \<Rightarrow> world \<Rightarrow> Individual list \<times> world" where
  "offspring c child1Schedule child2Schedule w =
     (let r1 = repairObjects c child1Schedule w;
          r2 = repairObjects c child2Schedule (snd r1)
      in ([scored c (snd r2) (fst r1), scored c (snd r2) (fst r2)], snd r2))"

definition singlePointCrossover :: "ctx \<Rightarrow> (nat \<Rightarrow> real) \<Rightarrow> Individual \<Rightarrow> Individual \<Rightarrow> world
    \<Rightarrow> Individual list \<times> world" where
  "singlePointCrossover c rnd parent1 parent2 w =
     (let minLength = min (length (ind_schedule parent1)) (length (ind_schedule parent2))
      in if minLength = 0 then ([parent1, parent2], w)
         else
          (let crossoverPoint = randomIndex rnd w minLength
           in offspring c
                (take crossoverPoint (ind_schedule parent1) @ drop crossoverPoint (ind_schedule parent2))
                (take crossoverPoint (ind_schedule parent2) @ drop crossoverPoint (ind_schedule parent1))
                (tick w)))"

definition twoPointCrossover :: "ctx \<Rightarrow> (nat \<Rightarrow> real) \<Rightarrow> Individual \<Rightarrow> Individual \<Rightarrow> world
    \<Rightarrow> Individual list \<times> world" where
  "twoPointCrossover c rnd parent1 parent2 w =
     (let minLength = min (length (ind_schedule parent1)) (length (ind_schedule parent2))
      in if minLength < 2 then singlePointCrossover c rnd parent1 parent2 w
         else
          (let point1 = randomIndex rnd w minLength;
               point2 = randomIndex rnd (tick w) minLength;
               start = min point1 point2;
               finish = max point1 point2
           in offspring c
                (take start (ind_schedule parent1)
                   @ take (finish - start) (drop start (ind_schedule parent2))
                   @ drop finish (ind_schedule parent1))
                (take start (ind_schedule parent2)
                   @ take (finish - start) (drop start (ind_schedule parent1))
                   @ drop finish (ind_schedule parent2))
                (tick (tick w))))"

text \<open>The body of the loop of \<open>uniformCrossover\<close>; the state is the two children and the world.\<close>

definition uniformStep :: "(nat \<Rightarrow> real) \<Rightarrow> nat list \<Rightarrow> nat list \<Rightarrow> nat list \<times> nat list \<times> world \<Rightarrow> nat
    \<Rightarrow> nat list \<times> nat list \<times> world" where
  "uniformStep rnd schedule1 schedule2 s i =
     (let w = snd (snd s);
          useParent1 = (mathRandom rnd w < 0.5);
          child1Schedule =
            (if useParent1 \<and> i < length schedule1 then fst s @ [schedule1 ! i]
             else if i < length schedule2 then fst s @ [schedule2 ! i]
             else fst s);
          child2Schedule =
            (if \<not> useParent1 \<and> i < length schedule1 then fst (snd s) @ [schedule1 ! i]
             else if i < length schedule2 then fst (snd s) @ [schedule2 ! i]
             else fst (snd s))
      in (child1Schedule, child2Schedule, tick w))"

definition uniformCrossover :: "ctx \<Rightarrow> (nat \<Rightarrow> real) \<Rightarrow> Individual \<Rightarrow> Individual \<Rightarrow> world
    \<Rightarrow> Individual list \<times> world" where
  "uniformCrossover c rnd parent1 parent2 w =
     (let maxLength = max (length (ind_schedule parent1)) (length (ind_schedule parent2));
          s = foldl (uniformStep rnd (ind_schedule parent1) (ind_schedule parent2)) ([], [], w)
                    [0..<maxLength]
      in offspring c (fst s) (fst (snd s)) (snd (snd s)))"

definition crossover :: "ctx \<Rightarrow> (nat \<Rightarrow> real) \<Rightarrow> Individual \<Rightarrow> Individual \<Rightarrow> world
    \<Rightarrow> Individual list \<times> world" where
  "crossover c rnd parent1 parent2 w =
     (let strategy = mathRandom rnd w
      in if strategy < 0.4 then uniformCrossover c rnd parent1 parent2 (tick w)
         else if strategy < 0.7 then twoPointCrossover c rnd parent1 parent2 (tick w)
         else singlePointCrossover c rnd parent1 parent2 (tick w))"

subsection \<open>Selection (HybridOptimizer)\<close>

text \<open>The comparator \<open>(a, b) => b.fitness - a.fitness\<close>.\<close>

definition byFitness :: "Individual \<Rightarrow> Individual \<Rightarrow> jsnum" where
  "byFitness a b = ind_fitness b - ind_fitness a"

definition differenceKey :: "ClassSchedule \<Rightarrow> string" where
  "differenceKey cls =
     cls_courseId cls @ ''_'' @ cls_teacherId cls @ ''_'' @ cls_roomId cls @ ''_'' @ cls_day cls
       @ ''_'' @ cls_startTime cls"

text \<open>The sets of \<open>calculateScheduleDifference\<close> as lists without repetition.\<close>

definition calculateScheduleDifference :: "ClassSchedule list \<Rightarrow> ClassSchedule list \<Rightarrow> real" where
  "calculateScheduleDifference schedule1 schedule2 =
     (let set1 = remdups (map differenceKey schedule1);
          set2 = remdups (map differenceKey schedule2);
          intersection = filter (\<lambda>x. x \<in> set set2) set1;
          union = remdups (set1 @ set2)
      in if length union > 0 then 1 - real (length intersection) / real (length union) else 0)"

definition calculateDiversity :: "world \<Rightarrow> Individual \<Rightarrow> Individual list \<Rightarrow> real" where
  "calculateDiversity w individual others =
     (let totalDifference =
            foldl (\<lambda>total other.
                     total + calculateScheduleDifference (deref w (ind_schedule individual))
                                                         (deref w (ind_schedule other)))
                  0 others
      in if length others > 0 then totalDifference / real (length others) else 0)"

text \<open>
  The inner \<open>for\<close> loop of \<open>diversityPreservingSelection\<close>: the index of the first remaining
  individual of greatest diversity.
\<close>

definition mostDiverse :: "world \<Rightarrow> Individual list \<Rightarrow> Individual list \<Rightarrow> nat" where
  "mostDiverse w remaining selected =
     snd (foldl (\<lambda>acc i. let diversity = calculateDiversity w (remaining ! i) selected
                          in if diversity > fst acc then (diversity, i) else acc)
                (- 1, 0) [0..<length remaining])"

lemma mostDiverse_aux:
  "snd acc < n \<Longrightarrow> set is \<subseteq> {..<n} \<Longrightarrow>
   snd (foldl (\<lambda>acc i. let diversity = f i in if diversity > fst acc then (diversity, i) else acc)
              acc is) < n"
  by (induction "is" arbitrary: acc) (auto simp: Let_def)

lemma mostDiverse_less: "remaining \<noteq> [] \<Longrightarrow> mostDiverse w remaining selected < length remaining"
  unfolding mostDiverse_def
  by (rule mostDiverse_aux) auto

text \<open>The \<open>while\<close> loop of \<open>diversityPreservingSelection\<close>; \<open>n\<close> is \<open>population.length\<close>.\<close>

function diversityLoop :: "world \<Rightarrow> nat \<Rightarrow> Individual list \<Rightarrow> Individual list \<Rightarrow> Individual list" where
  "diversityLoop w n selected remaining =
     (if length selected < n \<and> length remaining > 0
      then (let bestIndex = mostDiverse w remaining selected
            in diversityLoop w n (selected @ [remaining ! bestIndex])
                 (take bestIndex remaining @ drop (Suc bestIndex) remaining))
      else selected)"
  by pat_completeness auto
termination
proof (relation "measure (\<lambda>(w, n, selected, remaining). length remaining)")
  show "wf (measure (\<lambda>(w, n, selected, remaining). length remaining))" by simp
next
  fix w :: world and n selected and remaining :: "Individual list" and bestIndex
  assume a: "length selected < n \<and> 0 < length remaining"
    and b: "bestIndex = mostDiverse w remaining selected"
  from a have "remaining \<noteq> []" by auto
  from mostDiverse_less[OF this, of w selected] b have "bestIndex < length remaining" by simp
  then show "((w, n, selected @ [remaining ! bestIndex],
               take bestIndex remaining @ drop (Suc bestIndex) remaining),
              (w, n, selected, remaining))
             \<in> measure (\<lambda>(w, n, selected, remaining). length remaining)"
    by simp
qed

declare diversityLoop.simps [simp del]

definition diversityPreservingSelection :: "ctx \<Rightarrow> world \<Rightarrow> Individual list \<Rightarrow> nat \<Rightarrow> Individual list" where
  "diversityPreservingSelection c w population0 elite =
     (let sorted = sortBy c byFitness population0
      in diversityLoop w (length sorted) (take elite sorted) (drop elite sorted))"

text \<open>\<open>selectParent\<close>: the best of three individuals drawn at random.\<close>

definition selectParent :: "ctx \<Rightarrow> (nat \<Rightarrow> real) \<Rightarrow> Individual list \<Rightarrow> world \<Rightarrow> Individual \<times> world" where
  "selectParent c rnd population0 w =
     (let w1 = tick w;
          w2 = tick w1;
          tournament = [population0 ! randomIndex rnd w (length population0),
                        population0 ! randomIndex rnd w1 (length population0),
                        population0 ! randomIndex rnd w2 (length population0)]
      in (hd (sortBy c byFitness tournament), tick w2))"

subsection \<open>One generation\<close>

text \<open>
  The loop over the children of a crossover: while the new population is not full, a
  child is pushed, mutated first when the next random number is below the mutation rate.
\<close>

fun pushChildren :: "ctx \<Rightarrow> (nat \<Rightarrow> real) \<Rightarrow> GeneticAlgorithmParams \<Rightarrow> real \<Rightarrow> Individual list
    \<Rightarrow> Individual list \<times> world \<Rightarrow> Individual list \<times> world" where
  "pushChildren c rnd params rate [] s = s"
| "pushChildren c rnd params rate (child # rest) s =
     (if length (fst s) < populationSize params
      then (if mathRandom rnd (snd s) < rate
            then (let m = mutate c rnd child rate (tick (snd s))
                  in pushChildren c rnd params rate rest (fst s @ [fst m], snd m))
            else pushChildren c rnd params rate rest (fst s @ [child], tick (snd s)))
      else pushChildren c rnd params rate rest s)"

text \<open>The body of the \<open>while (newPopulation.length < params.populationSize)\<close> loop.\<close>

definition breed :: "ctx \<Rightarrow> (nat \<Rightarrow> real) \<Rightarrow> GeneticAlgorithmParams \<Rightarrow> real \<Rightarrow> Individual list
    \<Rightarrow> Individual list \<times> world \<Rightarrow> Individual list \<times> world" where
  "breed c rnd params rate population0 s =
     (let p1 = selectParent c rnd population0 (snd s);
          p2 = selectParent c rnd population0 (snd p1);
          parent1 = fst p1;
          parent2 = fst p2;
          w = snd p2
      in if mathRandom rnd w < crossoverRate params
         then (let children = crossover c rnd parent1 parent2 (tick w)
               in pushChildren c rnd params rate (fst children) (fst s, snd children))
         else (if length (fst s) < populationSize params
               then (let m = mutate c rnd parent1 rate (tick w)
                     in (fst s @ [fst m], snd m))
               else (fst s, tick w)))"

lemma length_pushChildren:
  "length (fst s) \<le> length (fst (pushChildren c rnd params rate children s))"
proof (induction children arbitrary: s)
  case Nil
  then show ?case by simp
next
  case (Cons child rest)
  show ?case
  proof (cases "length (fst s) < populationSize params")
    case False
    with Cons[of s] show ?thesis by simp
  next
    case True
    show ?thesis
    proof (cases "mathRandom rnd (snd s) < rate")
      case m: True
      from Cons[of "(fst s @ [fst (mutate c rnd child rate (tick (snd s)))],
                     snd (mutate c rnd child rate (tick (snd s))))"] True m
      show ?thesis by (simp add: Let_def)
    next
      case m: False
      from Cons[of "(fst s @ [child], tick (snd s))"] True m
      show ?thesis by simp
    qed
  qed
qed

lemma pushChildren_grows:
  "length (fst s) < populationSize params \<Longrightarrow> children \<noteq> [] \<Longrightarrow>
   length (fst s) < length (fst (pushChildren c rnd params rate children s))"
proof (cases children)
  case Nil
  then show "children \<noteq> [] \<Longrightarrow> ?thesis" by simp
next
  case (Cons child rest)
  assume lt: "length (fst s) < populationSize params"
  show ?thesis
  proof (cases "mathRandom rnd (snd s) < rate")
    case True
    from length_pushChildren[of "(fst s @ [fst (mutate c rnd child rate (tick (snd s)))],
                     snd (mutate c rnd child rate (tick (snd s))))" c rnd params rate rest]
      Cons lt True
    show ?thesis by (simp add: Let_def)
  next
    case False
    from length_pushChildren[of "(fst s @ [child], tick (snd s))" c rnd params rate rest]
      Cons lt False
    show ?thesis by simp
  qed
qed

lemma offspring_two: "length (fst (offspring c s1 s2 w)) = 2"
  by (simp add: offspring_def Let_def)

lemma singlePointCrossover_two: "length (fst (singlePointCrossover c rnd p1 p2 w)) = 2"
  by (simp add: singlePointCrossover_def Let_def offspring_two)

lemma crossover_two: "length (fst (crossover c rnd p1 p2 w)) = 2"
  by (simp add: crossover_def uniformCrossover_def twoPointCrossover_def Let_def offspring_two
        singlePointCrossover_two)

lemma breed_grows:
  assumes "length (fst s) < populationSize params"
  shows "length (fst s) < length (fst (breed c rnd params rate population0 s))"
proof -
  have ne: "fst (crossover c rnd p1 p2 w) \<noteq> []" for p1 p2 w
    using crossover_two[of c rnd p1 p2 w] by auto
  show ?thesis
    unfolding breed_def Let_def
    using assms pushChildren_grows[OF _ ne, of "(fst s, w)" params for w]
    by (auto simp: Let_def)
qed

function fillPopulation :: "ctx \<Rightarrow> (nat \<Rightarrow> real) \<Rightarrow> GeneticAlgorithmParams \<Rightarrow> real \<Rightarrow> Individual list
    \<Rightarrow> Individual list \<times> world \<Rightarrow> Individual list \<times> world" where
  "fillPopulation c rnd params rate population0 s =
     (if length (fst s) < populationSize params
      then fillPopulation c rnd params rate population0 (breed c rnd params rate population0 s)
      else s)"
  by pat_completeness auto
termination
proof (relation "measure (\<lambda>(c, rnd, params, rate, population0, s).
                            populationSize params - length (fst s))")
  show "wf (measure (\<lambda>(c, rnd, params, rate, population0, s).
                            populationSize params - length (fst s)))" by simp
next
  fix c rnd and params :: GeneticAlgorithmParams and rate population0
    and s :: "Individual list \<times> world"
  assume "length (fst s) < populationSize params"
  from this breed_grows[OF this, of c rnd rate population0]
  show "((c, rnd, params, rate, population0, breed c rnd params rate population0 s),
         (c, rnd, params, rate, population0, s))
        \<in> measure (\<lambda>(c, rnd, params, rate, population0, s).
                            populationSize params - length (fst s))"
    by simp
qed

declare fillPopulation.simps [simp del]

text \<open>
  The variables of \<open>runGeneticEvolution\<close> that live across generations, with the progress
  calls made so far and the world.
\<close>

record evolution =
  ev_population :: "Individual list"
  ev_bestIndividual :: Individual
  ev_currentMutationRate :: real
  ev_stagnationCount :: nat
  ev_lastBestFitness :: jsnum
  ev_generationData :: "GenerationData list"
  ev_progress :: "(real \<times> int \<times> jsnum) list"
  ev_world :: world

text \<open>\<open>population.reduce((best, ind) => ind.fitness > best.fitness ? ind : best, population[0])\<close>.\<close>

definition fittest :: "Individual list \<Rightarrow> Individual" where
  "fittest population0 =
     foldl (\<lambda>best ind. if ind_fitness best < ind_fitness ind then ind else best)
           (hd population0) population0"

text \<open>
  The body of the generation loop up to the progress call. It ends with a TypeError when
  \<open>eliteSize\<close> exceeds the size of the population (the elite loop then pushes \<open>undefined\<close>,
  whose \<open>fitness\<close> the next \<open>reduce\<close> reads) and when the new population is empty.
\<close>

definition generationStep :: "ctx \<Rightarrow> (nat \<Rightarrow> real) \<Rightarrow> GeneticAlgorithmParams \<Rightarrow> int \<Rightarrow> nat \<Rightarrow> evolution
    \<Rightarrow> error + evolution" where
  "generationStep c rnd params generationOffset g st =
     (let stagnant = (g > 0 \<and> ind_fitness (ev_bestIndividual st) \<le> ev_lastBestFitness st);
          count = (if stagnant then ev_stagnationCount st + 1 else 0);
          rate = (if stagnant
                  then (if count > 10 then min (mutationRate params * 2) 0.3
                        else ev_currentMutationRate st)
                  else mutationRate params);
          selected = diversityPreservingSelection c (ev_world st) (ev_population st) (eliteSize params);
          sorted = sortBy c byFitness selected
      in if eliteSize params > length sorted then Inl TypeError
         else
          (let filled = fillPopulation c rnd params rate sorted
                          (take (eliteSize params) sorted, ev_world st);
               newPopulation = fst filled
           in if newPopulation = [] then Inl TypeError
              else
               (let currentBest = fittest newPopulation;
                    best = (if ind_fitness (ev_bestIndividual st) < ind_fitness currentBest
                            then currentBest else ev_bestIndividual st);
                    fitnesses = map ind_fitness newPopulation
                in Inr \<lparr> ev_population = newPopulation,
                         ev_bestIndividual = best,
                         ev_currentMutationRate = rate,
                         ev_stagnationCount = count,
                         ev_lastBestFitness = ind_fitness best,
                         ev_generationData = ev_generationData st @
                           [\<lparr> generation = int g + generationOffset,
                              bestFitness = foldl jsmax NegInf fitnesses,
                              averageFitness = foldl (\<lambda>total f. total + f) (Num 0) fitnesses
                                                 / Num (real (length fitnesses)),
                              worstFitness = foldl jsmin PosInf fitnesses \<rparr>],
                         ev_progress = ev_progress st @
                           [(real (g + 1) / real (generations params) * 100,
                             int g + 1 + generationOffset, ind_fitness best)],
                         ev_world = snd filled \<rparr>)))"

text \<open>
  The \<open>for\<close> loop over the generations, from generation \<open>g\<close> with \<open>k\<close> generations to go, with
  its early exit.
\<close>

fun evolve :: "ctx \<Rightarrow> (nat \<Rightarrow> real) \<Rightarrow> GeneticAlgorithmParams \<Rightarrow> int \<Rightarrow> nat \<Rightarrow> nat \<Rightarrow> evolution
    \<Rightarrow> error + evolution" where
  "evolve c rnd params generationOffset g 0 st = Inr st"
| "evolve c rnd params generationOffset g (Suc k) st =
     (let r = generationStep c rnd params generationOffset g st
      in if isl r then r
         else if Num 950 < ind_fitness (ev_bestIndividual (projr r))
                 \<and> length (detectConflicts c (deref (ev_world (projr r))
                                                  (ind_schedule (ev_bestIndividual (projr r))))) = 0
         then r
         else evolve c rnd params generationOffset (Suc g) k (projr r))"

text \<open>The state before the first generation; an empty population has no best individual.\<close>

definition initialEvolution :: "Individual list \<Rightarrow> GeneticAlgorithmParams \<Rightarrow> world \<Rightarrow> evolution" where
  "initialEvolution initialPopulation params w =
     \<lparr> ev_population = initialPopulation,
       ev_bestIndividual = fittest initialPopulation,
       ev_currentMutationRate = mutationRate params,
       ev_stagnationCount = 0,
       ev_lastBestFitness = ind_fitness (fittest initialPopulation),
       ev_generationData = [],
       ev_progress = [],
       ev_world = w \<rparr>"

definition finalEvolution :: "ctx \<Rightarrow> (nat \<Rightarrow> real) \<Rightarrow> Individual list \<Rightarrow> GeneticAlgorithmParams \<Rightarrow> int \<Rightarrow> world
    \<Rightarrow> error + evolution" where
  "finalEvolution c rnd initialPopulation params generationOffset w =
     (if initialPopulation = [] then Inl TypeError
      else evolve c rnd params generationOffset 0 (generations params)
             (initialEvolution initialPopulation params w))"

definition calculateMetrics :: "Conflict list \<Rightarrow> OptimizationMetrics" where
  "calculateMetrics conflicts =
     \<lparr> totalConflicts = Num (real (length conflicts)), roomUtilization = Num 0.85,
       teacherWorkloadBalance = Num 0.92, studentSatisfaction = Num 0.88,
       constraintSatisfaction = Num 0.90 \<rparr>"

definition runGeneticEvolution :: "ctx \<Rightarrow> (nat \<Rightarrow> real) \<Rightarrow> Individual list \<Rightarrow> GeneticAlgorithmParams \<Rightarrow> int
    \<Rightarrow> world \<Rightarrow> error + OptimizationResult" where
  "runGeneticEvolution c rnd initialPopulation params generationOffset w =
     map_sum id
       (\<lambda>st. let schedule = deref (ev_world st) (ind_schedule (ev_bestIndividual st));
                  conflicts = detectConflicts c schedule
              in \<lparr> res_schedule = schedule,
                   res_fitness = ind_fitness (ev_bestIndividual st),
                   res_conflicts = conflicts,
                   res_metrics = calculateMetrics conflicts,
                   res_generationData = ev_generationData st \<rparr>)
       (finalEvolution c rnd initialPopulation params generationOffset w)"

subsection \<open>The stagnation counter\<close>

text \<open>
  \<open>lastBestFitness\<close> is assigned at the end of every generation, after the best individual
  has been updated. At the head of the next generation the test
  \<open>bestIndividual.fitness <= lastBestFitness\<close> therefore compares a number with itself,
  and it holds unless the number is NaN. So the counter is reset in generation 0 only;
  from then on it counts the generations, whatever the best fitness does, and the
  mutation rate is raised from generation 11 on.
\<close>

lemma jsnum_le_refl: "x \<noteq> NaN \<Longrightarrow> x \<le> (x :: jsnum)"
  by (simp add: less_eq_jsnum_def)

lemma jsnum_less_NaN: "x < y \<Longrightarrow> y \<noteq> (NaN :: jsnum)"
  by (cases x; cases y) auto

definition raisedRate :: "GeneticAlgorithmParams \<Rightarrow> nat \<Rightarrow> real" where
  "raisedRate params count =
     (if count > 10 then min (mutationRate params * 2) 0.3 else mutationRate params)"

definition counting :: "GeneticAlgorithmParams \<Rightarrow> nat \<Rightarrow> evolution \<Rightarrow> bool" where
  "counting params g st \<longleftrightarrow>
     ev_lastBestFitness st = ind_fitness (ev_bestIndividual st)
     \<and> ind_fitness (ev_bestIndividual st) \<noteq> NaN
     \<and> length (ev_generationData st) = g
     \<and> (g > 0 \<longrightarrow> ev_stagnationCount st = g - 1
                  \<and> ev_currentMutationRate st = raisedRate params (g - 1))"

lemma generationStep_counting:
  assumes step: "generationStep c rnd params generationOffset g st = Inr st'"
    and inv: "counting params g st"
  shows "counting params (Suc g) st'"
proof -
  define selected where
    "selected = diversityPreservingSelection c (ev_world st) (ev_population st) (eliteSize params)"
  define sorted where "sorted = sortBy c byFitness selected"
  define stagnant where
    "stagnant \<longleftrightarrow> g > 0 \<and> ind_fitness (ev_bestIndividual st) \<le> ev_lastBestFitness st"
  define count where "count = (if stagnant then ev_stagnationCount st + 1 else 0)"
  define rate where
    "rate = (if stagnant
             then (if count > 10 then min (mutationRate params * 2) 0.3
                   else ev_currentMutationRate st)
             else mutationRate params)"
  define filled where
    "filled = fillPopulation c rnd params rate sorted (take (eliteSize params) sorted, ev_world st)"
  define best where
    "best = (if ind_fitness (ev_bestIndividual st) < ind_fitness (fittest (fst filled))
             then fittest (fst filled) else ev_bestIndividual st)"
  from inv have last: "ev_lastBestFitness st = ind_fitness (ev_bestIndividual st)"
    and nn: "ind_fitness (ev_bestIndividual st) \<noteq> NaN"
    and len: "length (ev_generationData st) = g"
    and pos: "g > 0 \<Longrightarrow> ev_stagnationCount st = g - 1
                       \<and> ev_currentMutationRate st = raisedRate params (g - 1)"
    by (simp_all add: counting_def)
  from last nn have stag: "stagnant \<longleftrightarrow> g > 0"
    by (simp add: stagnant_def jsnum_le_refl)
  from step have st': "ev_bestIndividual st' = best" "ev_stagnationCount st' = count"
      "ev_currentMutationRate st' = rate" "ev_lastBestFitness st' = ind_fitness best"
      "length (ev_generationData st') = Suc (length (ev_generationData st))"
    unfolding generationStep_def Let_def
      selected_def[symmetric] sorted_def[symmetric] stagnant_def[symmetric]
      count_def[symmetric] rate_def[symmetric] filled_def[symmetric] best_def[symmetric]
    by (auto split: if_splits)
  have bn: "ind_fitness best \<noteq> NaN"
    using nn jsnum_less_NaN[of "ind_fitness (ev_bestIndividual st)" "ind_fitness (fittest (fst filled))"]
    by (auto simp: best_def)
  have c: "count = g"
    using stag pos by (cases "g > 0") (auto simp: count_def)
  have r: "rate = raisedRate params g"
  proof (cases "g > 0")
    case False
    with stag show ?thesis by (simp add: rate_def raisedRate_def)
  next
    case True
    with stag pos c show ?thesis
      by (cases "g > 10") (auto simp: rate_def raisedRate_def)
  qed
  show ?thesis
    unfolding counting_def using st' bn c r len by simp
qed

lemma evolve_counting:
  "evolve c rnd params generationOffset g k st = Inr st' \<Longrightarrow> counting params g st \<Longrightarrow> k > 0 \<Longrightarrow>
   (\<exists>n > g. counting params n st')"
proof (induction k arbitrary: g st)
  case 0
  then show ?case by simp
next
  case (Suc k)
  show ?case
  proof (cases "generationStep c rnd params generationOffset g st")
    case (Inl e)
    with Suc.prems(1) show ?thesis by (simp add: Let_def)
  next
    case (Inr st1)
    from generationStep_counting[OF Inr Suc.prems(2)] have c1: "counting params (Suc g) st1" .
    show ?thesis
    proof (cases "st' = st1")
      case True
      with c1 show ?thesis by auto
    next
      case False
      with Suc.prems(1) Inr have e: "evolve c rnd params generationOffset (Suc g) k st1 = Inr st'"
        by (auto simp: Let_def split: if_splits)
      with False have "k > 0" by (cases k) auto
      from Suc.IH[OF e c1 this] show ?thesis by (meson Suc_lessD)
    qed
  qed
qed

text \<open>
  Whenever the loop has run through at least one generation from a population whose best
  fitness is a number, the counter at the end is the number of generations run minus one,
  and the mutation rate is the raised one exactly when that count exceeds 10.
\<close>

lemma stagnationCount_counts_generations:
  assumes "finalEvolution c rnd initialPopulation params generationOffset w = Inr st"
    and "ind_fitness (fittest initialPopulation) \<noteq> NaN" and "generations params > 0"
  shows "ev_generationData st \<noteq> []
       \<and> ev_stagnationCount st = length (ev_generationData st) - 1
       \<and> ev_currentMutationRate st = raisedRate params (length (ev_generationData st) - 1)"
proof -
  have c0: "counting params 0 (initialEvolution initialPopulation params w)"
    using assms(2) by (simp add: counting_def initialEvolution_def)
  from assms(1) have "evolve c rnd params generationOffset 0 (generations params)
                        (initialEvolution initialPopulation params w) = Inr st"
    by (auto simp: finalEvolution_def split: if_splits)
  from evolve_counting[OF this c0 assms(3)] obtain n where "n > 0" "counting params n st"
    by auto
  then show ?thesis by (auto simp: counting_def)
qed

subsection \<open>Elitism\<close>

text \<open>
  The elite individuals are pushed first and the new population only grows, so the new
  population starts with the elite individuals themselves: the same arrays of the same
  class objects, with the fitness they had. What the class objects hold is another
  matter: \<open>mutate\<close> assigns to the objects of the individual it is given.
\<close>

lemma pushChildren_extends:
  "\<exists>more. fst (pushChildren c rnd params rate children s) = fst s @ more"
proof (induction children arbitrary: s)
  case Nil
  then show ?case by simp
next
  case (Cons child rest)
  show ?case
  proof (cases "length (fst s) < populationSize params")
    case False
    with Cons[of s] show ?thesis by simp
  next
    case True
    show ?thesis
    proof (cases "mathRandom rnd (snd s) < rate")
      case m: True
      from Cons[of "(fst s @ [fst (mutate c rnd child rate (tick (snd s)))],
                     snd (mutate c rnd child rate (tick (snd s))))"] True m
      show ?thesis by (auto simp: Let_def)
    next
      case m: False
      from Cons[of "(fst s @ [child], tick (snd s))"] True m
      show ?thesis by auto
    qed
  qed
qed

lemma breed_extends: "\<exists>more. fst (breed c rnd params rate population0 s) = fst s @ more"
  unfolding breed_def Let_def
  using pushChildren_extends[of c rnd params rate _ "(fst s, w)" for w]
  by (auto simp: Let_def)

lemma fillPopulation_extends:
  "\<exists>more. fst (fillPopulation c rnd params rate population0 s) = fst s @ more"
proof (induction c rnd params rate population0 s rule: fillPopulation.induct)
  case (1 c rnd params rate population0 s)
  show ?case
  proof (cases "length (fst s) < populationSize params")
    case False
    then show ?thesis by (simp add: fillPopulation.simps[of c rnd params rate population0 s])
  next
    case True
    from "1.IH"[OF True] obtain more where
      "fst (fillPopulation c rnd params rate population0 (breed c rnd params rate population0 s))
         = fst (breed c rnd params rate population0 s) @ more" by auto
    moreover from breed_extends[of c rnd params rate population0 s] obtain more' where
      "fst (breed c rnd params rate population0 s) = fst s @ more'" by auto
    ultimately show ?thesis
      using True by (simp add: fillPopulation.simps[of c rnd params rate population0 s])
  qed
qed

lemma elite_references_kept:
  assumes "generationStep c rnd params generationOffset g st = Inr st'"
  shows "take (eliteSize params) (ev_population st')
           = take (eliteSize params)
               (sortBy c byFitness
                  (diversityPreservingSelection c (ev_world st) (ev_population st) (eliteSize params)))"
proof -
  define sorted where "sorted = sortBy c byFitness
        (diversityPreservingSelection c (ev_world st) (ev_population st) (eliteSize params))"
  from assms obtain rate where le: "eliteSize params \<le> length sorted"
    and pop: "ev_population st'
                = fst (fillPopulation c rnd params rate sorted (take (eliteSize params) sorted, ev_world st))"
    unfolding generationStep_def Let_def sorted_def[symmetric]
    by (auto split: if_splits)
  from fillPopulation_extends[of c rnd params rate sorted "(take (eliteSize params) sorted, ev_world st)"]
  obtain more where "ev_population st' = take (eliteSize params) sorted @ more"
    unfolding pop by auto
  with le show ?thesis unfolding sorted_def[symmetric] by simp
qed

subsection \<open>Concrete runs of the generation loop\<close>

text \<open>
  One course with one section and one subject, a teacher who is available in two Monday
  slots, of which \<open>e1\<close> (07:00) lies before the preferred window and \<open>m1\<close> (09:00) inside
  it, and one room. The store holds two class objects of the subject, at addresses 0 and 1.
\<close>

definition earlySlot :: TimeSlot where
  "earlySlot = mkSlot ''e1'' ''Monday'' ''07:00'' ''08:00''"

definition preferredSlot :: TimeSlot where
  "preferredSlot = mkSlot ''m1'' ''Monday'' ''09:00'' ''10:00''"

definition twoSlots :: ctx where
  "twoSlots = \<lparr>
     courses = [\<lparr> course_id = ''C1'', course_teacherId = ''T1'', studentsCount = 60,
                  course_roomType = theory_room, requiredEquipment = [], sessionsPerWeek = 2,
                  sections = Some [''A''] \<rparr>],
     teachers = [\<lparr> teacher_id = ''T1'', departmentCourseId = Some ''C1'', taughtSubjectIds = None,
                   availability = [\<lparr> av_day = ''Monday'', av_timeSlots = [''e1'', ''m1''] \<rparr>] \<rparr>],
     rooms = [\<lparr> room_id = ''R1'', room_capacity = 60, room_type = theory_room, room_equipment = [] \<rparr>],
     timeSlots = [earlySlot, preferredSlot],
     constraints = exampleConstraints,
     subjects = [\<lparr> subject_id = ''S1'', subject_courseId = ''C1'', subject_semester = 1,
                   subject_type = theory_room \<rparr>],
     localeCompare = codeUnitCompare,
     parseDate = clockTime,
     engineSort = insertionOrder \<rparr>"

definition oneGeneration :: GeneticAlgorithmParams where
  "oneGeneration = \<lparr> populationSize = 2, generations = 1, mutationRate = 1 / 10,
       crossoverRate = 8 / 10, eliteSize = 1 \<rparr>"

text \<open>
  A population of two: the first individual has its class in the preferred slot, the
  second has its own class in the early slot. Every random number is 0.
\<close>

definition eliteWorld :: world where
  "eliteWorld = \<lparr> objects = [mkClass ''a'' ''T1'' ''R1'' preferredSlot,
                               mkClass ''b'' ''T1'' ''R1'' earlySlot], drawn = 0 \<rparr>"

definition elitePopulation :: "Individual list" where
  "elitePopulation = [scored twoSlots eliteWorld [0], scored twoSlots eliteWorld [1]]"

definition zeroRandom :: "nat \<Rightarrow> real" where
  "zeroRandom k = 0"

lemma elitePopulation_value:
  "elitePopulation = [\<lparr> ind_schedule = [0], ind_fitness = Num 1376 \<rparr>,
                      \<lparr> ind_schedule = [1], ind_fitness = Num (4028 / 3) \<rparr>]"
  by code_simp

definition eliteFirst :: evolution where
  "eliteFirst =
     \<lparr> ev_population = [\<lparr> ind_schedule = [0], ind_fitness = Num 1376 \<rparr>,
                         \<lparr> ind_schedule = [0], ind_fitness = Num (4028 / 3) \<rparr>],
       ev_bestIndividual = \<lparr> ind_schedule = [0], ind_fitness = Num 1376 \<rparr>,
       ev_currentMutationRate = 1 / 10,
       ev_stagnationCount = 0,
       ev_lastBestFitness = Num 1376,
       ev_generationData =
         [\<lparr> generation = 0, bestFitness = Num 1376, averageFitness = Num (4078 / 3),
            worstFitness = Num (4028 / 3) \<rparr>],
       ev_progress = [(100, 1, Num 1376)],
       ev_world = \<lparr> objects = [mkClass ''a'' ''T1'' ''R1'' earlySlot,
                                  mkClass ''b'' ''T1'' ''R1'' earlySlot], drawn = 13 \<rparr> \<rparr>"

lemma elite_generation0:
  "generationStep twoSlots zeroRandom oneGeneration 0 0
     (initialEvolution [\<lparr> ind_schedule = [0], ind_fitness = Num 1376 \<rparr>,
                        \<lparr> ind_schedule = [1], ind_fitness = Num (4028 / 3) \<rparr>]
                       oneGeneration eliteWorld)
     = Inr eliteFirst"
  by code_simp

lemma elite_run:
  "finalEvolution twoSlots zeroRandom elitePopulation oneGeneration 0 eliteWorld = Inr eliteFirst"
proof -
  have g: "generations oneGeneration = Suc 0" by (simp add: oneGeneration_def)
  have ne: "([\<lparr> ind_schedule = [0], ind_fitness = Num 1376 \<rparr>,
              \<lparr> ind_schedule = [1], ind_fitness = Num (4028 / 3) \<rparr>] = []) = False"
    by simp
  show ?thesis
    unfolding finalEvolution_def g elitePopulation_value
    by (simp only: ne if_False evolve.simps Let_def elite_generation0 sum.disc sum.sel if_cancel)
qed

lemma elite_sorted:
  "sortBy twoSlots byFitness [\<lparr> ind_schedule = [0], ind_fitness = Num 1376 \<rparr>,
                              \<lparr> ind_schedule = [1], ind_fitness = Num (4028 / 3) \<rparr>]
     = [\<lparr> ind_schedule = [0], ind_fitness = Num 1376 \<rparr>,
        \<lparr> ind_schedule = [1], ind_fitness = Num (4028 / 3) \<rparr>]"
  by code_simp

lemma elite_fitness_now:
  "calculateFitness twoSlots [mkClass ''a'' ''T1'' ''R1'' earlySlot] = Num (4028 / 3)"
  by code_simp

text \<open>
  Claim C7 states that the elite individuals of a generation are in the next population
  unchanged, with the same assignments and the same fitness. The code misses it on the
  population \<open>elitePopulation\<close> with \<open>eliteSize\<close> 1: the elite individual, of fitness 1376,
  holds the class object at address 0, in the slot at 09:00. Both tournaments select it,
  the crossover yields two children that hold the same class object, and \<open>mutate\<close> moves
  the first child's class to the slot at 07:00 by assigning to that object. After the
  generation the elite individual is the first of the new population, with its array
  and its fitness field as before, but its one assignment is now at 07:00, and the
  fitness of what it holds is 4028/3.
\<close>

theorem elite_assignment_changed:
  "hd (sortBy twoSlots byFitness elitePopulation) = \<lparr> ind_schedule = [0], ind_fitness = Num 1376 \<rparr>
   \<and> deref eliteWorld [0] = [mkClass ''a'' ''T1'' ''R1'' preferredSlot]
   \<and> \<not> isl (finalEvolution twoSlots zeroRandom elitePopulation oneGeneration 0 eliteWorld)
   \<and> hd (ev_population (projr (finalEvolution twoSlots zeroRandom elitePopulation oneGeneration 0
                                  eliteWorld)))
       = \<lparr> ind_schedule = [0], ind_fitness = Num 1376 \<rparr>
   \<and> deref (ev_world (projr (finalEvolution twoSlots zeroRandom elitePopulation oneGeneration 0
                               eliteWorld))) [0]
       = [mkClass ''a'' ''T1'' ''R1'' earlySlot]
   \<and> calculateFitness twoSlots
        (deref (ev_world (projr (finalEvolution twoSlots zeroRandom elitePopulation oneGeneration 0
                                   eliteWorld))) [0])
       = Num (4028 / 3)"
  apply (simp only: elite_run)
  apply (simp only: elitePopulation_value elite_sorted)
  apply (simp add: eliteFirst_def deref_def eliteWorld_def elite_fitness_now)
  done

text \<open>
  A second input: a course without sections, a teacher who is available in three Monday
  slots outside the preferred window (00:00, 06:00 and 23:00), and two individuals whose
  two classes lie in the first and the last of these slots, so that the gap penalty keeps
  the fitness below the threshold of the early exit. The tenth random number is 1/2, the
  eleventh is 3/4 and every other one is 0.
\<close>

definition nightSlots :: "TimeSlot list" where
  "nightSlots = [mkSlot ''n0'' ''Monday'' ''00:00'' ''00:30'', mkSlot ''n1'' ''Monday'' ''06:00'' ''06:30'',
                 mkSlot ''n3'' ''Monday'' ''23:00'' ''23:30'']"

definition nightCtx :: ctx where
  "nightCtx = \<lparr>
     courses = [\<lparr> course_id = ''C1'', course_teacherId = ''T1'', studentsCount = 60,
                  course_roomType = theory_room, requiredEquipment = [], sessionsPerWeek = 2,
                  sections = None \<rparr>],
     teachers = [\<lparr> teacher_id = ''T1'', departmentCourseId = Some ''C1'', taughtSubjectIds = None,
                   availability = [\<lparr> av_day = ''Monday'', av_timeSlots = [''n0'', ''n1'', ''n3''] \<rparr>] \<rparr>],
     rooms = [\<lparr> room_id = ''R1'', room_capacity = 60, room_type = theory_room, room_equipment = [] \<rparr>],
     timeSlots = nightSlots,
     constraints = exampleConstraints,
     subjects = [\<lparr> subject_id = ''S1'', subject_courseId = ''C1'', subject_semester = 1,
                   subject_type = theory_room \<rparr>],
     localeCompare = codeUnitCompare,
     parseDate = clockTime,
     engineSort = insertionOrder \<rparr>"

definition twoGenerations :: GeneticAlgorithmParams where
  "twoGenerations = \<lparr> populationSize = 2, generations = 2, mutationRate = 1 / 2,
       crossoverRate = 0, eliteSize = 1 \<rparr>"

definition nightWorld :: world where
  "nightWorld = \<lparr> objects = [mkClass ''a'' ''T1'' ''R1'' (nightSlots ! 0),
                               mkClass ''b'' ''T1'' ''R1'' (nightSlots ! 2),
                               mkClass ''c'' ''T1'' ''R1'' (nightSlots ! 0),
                               mkClass ''d'' ''T1'' ''R1'' (nightSlots ! 2)], drawn = 0 \<rparr>"

definition nightPopulation :: "Individual list" where
  "nightPopulation = [scored nightCtx nightWorld [0, 1], scored nightCtx nightWorld [2, 3]]"

definition nightRandom :: "nat \<Rightarrow> real" where
  "nightRandom k = (if k = 9 then 1 / 2 else if k = 10 then 3 / 4 else 0)"

lemma nightPopulation_value:
  "nightPopulation = [\<lparr> ind_schedule = [0, 1], ind_fitness = Num (2264 / 3) \<rparr>,
                      \<lparr> ind_schedule = [2, 3], ind_fitness = Num (2264 / 3) \<rparr>]"
  by code_simp

text \<open>The state after the first and after the second generation of this run.\<close>

definition nightFirst :: evolution where
  "nightFirst =
     \<lparr> ev_population = [\<lparr> ind_schedule = [0, 1], ind_fitness = Num (2264 / 3) \<rparr>,
                         \<lparr> ind_schedule = [0, 1], ind_fitness = Num (2624 / 3) \<rparr>],
       ev_bestIndividual = \<lparr> ind_schedule = [0, 1], ind_fitness = Num (2624 / 3) \<rparr>,
       ev_currentMutationRate = 1 / 2,
       ev_stagnationCount = 0,
       ev_lastBestFitness = Num (2624 / 3),
       ev_generationData =
         [\<lparr> generation = 0, bestFitness = Num (2624 / 3), averageFitness = Num (2444 / 3),
            worstFitness = Num (2264 / 3) \<rparr>],
       ev_progress = [(50, 1, Num (2624 / 3))],
       ev_world = \<lparr> objects = [mkClass ''a'' ''T1'' ''R1'' (nightSlots ! 1),
                                  mkClass ''b'' ''T1'' ''R1'' (nightSlots ! 2),
                                  mkClass ''c'' ''T1'' ''R1'' (nightSlots ! 0),
                                  mkClass ''d'' ''T1'' ''R1'' (nightSlots ! 2)], drawn = 11 \<rparr> \<rparr>"

definition nightSecond :: evolution where
  "nightSecond =
     \<lparr> ev_population = [\<lparr> ind_schedule = [0, 1], ind_fitness = Num (2624 / 3) \<rparr>,
                         \<lparr> ind_schedule = [0], ind_fitness = Num (3572 / 3) \<rparr>],
       ev_bestIndividual = \<lparr> ind_schedule = [0], ind_fitness = Num (3572 / 3) \<rparr>,
       ev_currentMutationRate = 1 / 2,
       ev_stagnationCount = 1,
       ev_lastBestFitness = Num (3572 / 3),
       ev_generationData =
         [\<lparr> generation = 0, bestFitness = Num (2624 / 3), averageFitness = Num (2444 / 3),
            worstFitness = Num (2264 / 3) \<rparr>,
          \<lparr> generation = 1, bestFitness = Num (3572 / 3), averageFitness = Num (3098 / 3),
            worstFitness = Num (2624 / 3) \<rparr>],
       ev_progress = [(50, 1, Num (2624 / 3)), (100, 2, Num (3572 / 3))],
       ev_world = \<lparr> objects = [mkClass ''a'' ''T1'' ''R1'' (nightSlots ! 0),
                                  mkClass ''b'' ''T1'' ''R1'' (nightSlots ! 0),
                                  mkClass ''c'' ''T1'' ''R1'' (nightSlots ! 0),
                                  mkClass ''d'' ''T1'' ''R1'' (nightSlots ! 2)], drawn = 24 \<rparr> \<rparr>"

lemma night_generation0:
  "generationStep nightCtx nightRandom twoGenerations 0 0
     (initialEvolution [\<lparr> ind_schedule = [0, 1], ind_fitness = Num (2264 / 3) \<rparr>,
                        \<lparr> ind_schedule = [2, 3], ind_fitness = Num (2264 / 3) \<rparr>]
                       twoGenerations nightWorld)
     = Inr nightFirst"
  by code_simp

lemma night_generation1:
  "generationStep nightCtx nightRandom twoGenerations 0 (Suc 0) nightFirst = Inr nightSecond"
  by code_simp

lemma night_no_exit:
  "(Num 950 < ind_fitness (ev_bestIndividual nightFirst)
      \<and> length (detectConflicts nightCtx (deref (ev_world nightFirst)
                                              (ind_schedule (ev_bestIndividual nightFirst)))) = 0)
     = False"
  by (simp add: nightFirst_def)

lemma night_run:
  "finalEvolution nightCtx nightRandom nightPopulation twoGenerations 0 nightWorld = Inr nightSecond"
proof -
  have g: "generations twoGenerations = Suc (Suc 0)" by (simp add: twoGenerations_def)
  have ne: "([\<lparr> ind_schedule = [0, 1], ind_fitness = Num (2264 / 3) \<rparr>,
              \<lparr> ind_schedule = [2, 3], ind_fitness = Num (2264 / 3) \<rparr>] = []) = False"
    by simp
  show ?thesis
    unfolding finalEvolution_def g nightPopulation_value
    by (simp only: ne if_False evolve.simps Let_def night_generation0 night_generation1
          night_no_exit sum.disc sum.sel if_cancel)
qed

text \<open>
  Claim C8 states that the stagnation counter is incremented exactly in the generations
  without improvement and reset in every generation where the best fitness improved. The
  code misses it on the population \<open>nightPopulation\<close> with two generations: the best
  fitness is 2264/3 at the start, 2624/3 after generation 0 and 3572/3 after generation
  1, an improvement in both, and the counter is 1 at the end where the claim has 0. (By
  \<open>stagnationCount_counts_generations\<close> the counter is never reset after generation 0.)
\<close>

theorem stagnation_counter_not_reset:
  "ind_fitness (fittest nightPopulation) = Num (2264 / 3)
   \<and> \<not> isl (finalEvolution nightCtx nightRandom nightPopulation twoGenerations 0 nightWorld)
   \<and> map (\<lambda>call. snd (snd call))
         (ev_progress (projr (finalEvolution nightCtx nightRandom nightPopulation twoGenerations 0
                                nightWorld)))
       = [Num (2624 / 3), Num (3572 / 3)]
   \<and> ev_stagnationCount (projr (finalEvolution nightCtx nightRandom nightPopulation twoGenerations 0
                                    nightWorld)) = 1
   \<and> ev_currentMutationRate (projr (finalEvolution nightCtx nightRandom nightPopulation
                                       twoGenerations 0 nightWorld)) = 1 / 2"
  apply (simp only: night_run)
  apply (simp add: nightPopulation_value nightSecond_def fittest_def)
  done

end
